theory Spec2Isabelle
  imports Complex_Main "HOL-Library.Sublist" "HOL-Library.Log_Nat"
begin

section \<open>JavaScript values\<close>

text \<open>
  The program is TypeScript.  A JavaScript string is modelled as a \<^typ>\<open>string\<close>: a list of
  8-bit characters, which is exact for the ASCII text the program works on (a character
  outside ASCII is the bytes of its UTF-8 encoding, and the case mapping, the word
  characters and the white space of the model are the ASCII ones).  A JavaScript
  number is modelled as a \<^typ>\<open>real\<close>: the value of a finite double.  \<open>Math.round\<close> rounds
  to the nearest integer, halves upwards.  A thrown exception (a rejected promise of an
  \<open>async\<close> method) is the \<open>Inl\<close> branch of a sum.
\<close>

datatype js_error = Error string | TypeError string

definition Math_round :: "real \<Rightarrow> int" where
  "Math_round x = \<lfloor>x + 1 / 2\<rfloor>"

subsection \<open>Arithmetic on doubles\<close>

text \<open>
  The sum, difference, product and quotient of two doubles is the exact result rounded to
  the nearest double, a result half-way between two doubles going to the one with the even
  significand.  A double other than 0 is \<open>m * 2 ^ (e - 52)\<close> with an integer \<open>m\<close> of 53 bits
  and an exponent \<open>e\<close> from -1022 on (with fewer bits at \<open>e = -1022\<close>, the subnormal
  numbers).  \<open>NaN\<close>, the infinities and the sign of zero are not modelled: \<open>fl\<close> is the
  rounding of a real whose magnitude is below \<open>2 ^ 1024\<close>, where JavaScript has a finite
  result.  The scores of the constitution engine of the client, which are sums, products
  and quotients of fractions that are rounded to an integer at the end, are computed with
  this arithmetic.  Elsewhere the operations of the reals stand for those of the doubles.
\<close>

text \<open>The integer nearest to \<open>y\<close>, the even one of the two when \<open>y\<close> is half-way.\<close>

definition round_even :: "real \<Rightarrow> int" where
  "round_even y =
     (let n = \<lfloor>y\<rfloor>; r = y - of_int n
      in if r < 1 / 2 then n else if 1 / 2 < r then n + 1 else if even n then n else n + 1)"

text \<open>
  For \<open>0 < x\<close>, the exponent \<open>e\<close> with \<open>2 ^ e \<le> x < 2 ^ (e + 1)\<close>, from the number of binary
  digits of the integer part of \<open>x\<close> or of \<open>1 / x\<close>.
\<close>

definition binary_exponent :: "real \<Rightarrow> int" where
  "binary_exponent x =
     (if 1 \<le> x then int (floorlog 2 (nat \<lfloor>x\<rfloor>)) - 1
      else - int (floorlog 2 (nat (\<lceil>1 / x\<rceil> - 1))))"

definition fl :: "real \<Rightarrow> real" where
  "fl x =
     (if x = 0 then 0
      else let e = max (binary_exponent \<bar>x\<bar>) (- 1022); q = 2 powi (e - 52)
           in of_int (round_even (x / q)) * q)"

definition js_add :: "real \<Rightarrow> real \<Rightarrow> real" where
  "js_add x y = fl (x + y)"

definition js_sub :: "real \<Rightarrow> real \<Rightarrow> real" where
  "js_sub x y = fl (x - y)"

definition js_mul :: "real \<Rightarrow> real \<Rightarrow> real" where
  "js_mul x y = fl (x * y)"

definition js_div :: "real \<Rightarrow> real \<Rightarrow> real" where
  "js_div x y = fl (x / y)"

text \<open>
  \<open>is_double x\<close>: \<open>x\<close> is a double, which rounding leaves as it is, and of moderate size,
  so that no operation of the engine on such numbers leaves the range of the finite
  doubles.
\<close>

definition is_double :: "real \<Rightarrow> bool" where
  "is_double x \<longleftrightarrow> fl x = x \<and> \<bar>x\<bar> \<le> 2 ^ 1000"

subsection \<open>Strings and regular expressions\<close>

text \<open>\<open>s.includes(m)\<close>: \<open>m\<close> occurs in \<open>s\<close> as a contiguous substring.\<close>

definition str_includes :: "string \<Rightarrow> string \<Rightarrow> bool" where
  "str_includes s m = sublist m s"

text \<open>
  \<open>s.replace(pat, r)\<close> with a string pattern replaces the first occurrence only.  None of
  the replacement texts of the program contains a \<open>$\<close>, so the replacement is literal.
\<close>

fun replaceFirst :: "string \<Rightarrow> string \<Rightarrow> string \<Rightarrow> string" where
  "replaceFirst pat r [] = (if pat = [] then r else [])"
| "replaceFirst pat r (c # cs) =
     (if prefix pat (c # cs) then r @ drop (length pat) (c # cs)
      else c # replaceFirst pat r cs)"

text \<open>
  The regular expressions of the program are sequences of literal texts and of greedy
  repetitions of a character class (\<open>\s*\<close>, \<open>\s+\<close>, \<open>\d+\<close>).  In each of them the text
  that follows a repetition starts with a character outside the class, so the greedy match
  without backtracking below is the match JavaScript finds.  White space is the ASCII
  white space.
\<close>

datatype rx_item = Lit string | Many string | Many1 string

definition ws_chars :: string where
  "ws_chars = [CHR '' '', CHR 0x09, CHR ''\<newline>'', CHR 0x0B, CHR 0x0C, CHR 0x0D]"

definition digit_chars :: string where
  "digit_chars = ''0123456789''"

definition lower_chars :: string where
  "lower_chars = ''abcdefghijklmnopqrstuvwxyz''"

definition upper_chars :: string where
  "upper_chars = ''ABCDEFGHIJKLMNOPQRSTUVWXYZ''"

definition word_chars :: string where
  "word_chars = lower_chars @ upper_chars @ digit_chars @ ''_''"

text \<open>\<open>rx_match p s\<close> is the rest of \<open>s\<close> after a match of \<open>p\<close> at the start of \<open>s\<close>.\<close>

fun rx_match :: "rx_item list \<Rightarrow> string \<Rightarrow> string option" where
  "rx_match [] s = Some s"
| "rx_match (Lit l # p) s =
     (if prefix l s then rx_match p (drop (length l) s) else None)"
| "rx_match (Many cls # p) s = rx_match p (dropWhile (\<lambda>c. c \<in> set cls) s)"
| "rx_match (Many1 cls # p) s =
     (case s of
        [] \<Rightarrow> None
      | c # cs \<Rightarrow>
          if c \<in> set cls then rx_match p (dropWhile (\<lambda>c. c \<in> set cls) cs) else None)"

text \<open>
  \<open>s.replace(/p/g, r)\<close>: every match, found from left to right, is replaced, and the
  search goes on after the match.  An empty match (none of the program's patterns has
  one) is replaced and the next character is kept, as JavaScript does.
\<close>

function replaceAll :: "rx_item list \<Rightarrow> string \<Rightarrow> string \<Rightarrow> string" where
  "replaceAll p r [] = (if rx_match p [] = None then [] else r)"
| "replaceAll p r (c # cs) =
     (case rx_match p (c # cs) of
        None \<Rightarrow> c # replaceAll p r cs
      | Some rest \<Rightarrow>
          if length rest < Suc (length cs) then r @ replaceAll p r rest
          else r @ c # replaceAll p r cs)"
  by pat_completeness auto
termination
  by (relation "measure (\<lambda>(p, r, s). length s)") auto

section \<open>The AI engine service (server/services/ai-engine.ts)\<close>

record EmotionalProfile =
  energy :: real
  complexity :: real
  elegance :: real

record TechnicalRequirements =
  performance :: real
  memory :: real
  compatibility :: "string list"

record EffectDNA =
  primaryConcepts :: "string list"
  emotionalProfile :: EmotionalProfile
  technicalRequirements :: TechnicalRequirements
  confidenceScore :: real
  constitutionCompliance :: bool

record NeuralModel =
  vocabulary :: "string list"
  patterns :: "(string \<times> string list) list"

record AIEngineService =
  isInitialized :: bool
  neuralModel :: "NeuralModel option"

definition newAIEngineService :: AIEngineService where
  "newAIEngineService = \<lparr>isInitialized = False, neuralModel = None\<rparr>"

definition effectKeywords :: "string list" where
  "effectKeywords =
    [''particle'', ''explosion'', ''fade'', ''glow'', ''blur'', ''transition'',
     ''animation'', ''rotate'', ''scale'', ''translate'', ''color'', ''gradient'',
     ''shadow'', ''light'', ''dark'', ''bright'', ''smooth'', ''rough'',
     ''fast'', ''slow'', ''spiral'', ''wave'', ''pulse'', ''bounce'',
     ''plasma'', ''fire'', ''water'', ''earth'', ''air'', ''energy'',
     ''magic'', ''cosmic'', ''digital'', ''neon'', ''chrome'', ''glass'']"

definition loadNeuralModel :: NeuralModel where
  "loadNeuralModel = \<lparr>vocabulary = [], patterns = []\<rparr>"

text \<open>The vocabulary is a \<open>Set\<close>: \<open>add\<close> keeps one copy of each keyword.\<close>

definition loadVocabulary :: "NeuralModel \<Rightarrow> NeuralModel" where
  "loadVocabulary m = m\<lparr>vocabulary :=
     foldl (\<lambda>v keyword. if keyword \<in> set v then v else v @ [keyword])
       (vocabulary m) effectKeywords\<rparr>"

definition loadEffectPatterns :: "NeuralModel \<Rightarrow> NeuralModel" where
  "loadEffectPatterns m = m\<lparr>patterns :=
     [(''particle'', [''explosion'', ''dust'', ''sparkle'', ''trail'']),
      (''transition'', [''fade'', ''slide'', ''zoom'', ''flip'']),
      (''animation'', [''bounce'', ''pulse'', ''wiggle'', ''shake'']),
      (''visual'', [''glow'', ''blur'', ''shadow'', ''gradient''])]\<rparr>"

text \<open>
  \<open>initialize\<close> returns at once on an initialized engine; otherwise it loads the model, the
  vocabulary and the patterns (none of the three steps can throw) and sets the flag.
\<close>

definition initialize :: "AIEngineService \<Rightarrow> AIEngineService" where
  "initialize eng =
     (if isInitialized eng then eng
      else eng\<lparr>neuralModel := Some (loadEffectPatterns (loadVocabulary loadNeuralModel)),
               isInitialized := True\<rparr>)"

definition shutdown :: "AIEngineService \<Rightarrow> AIEngineService" where
  "shutdown eng = eng\<lparr>neuralModel := None, isInitialized := False\<rparr>"

subsection \<open>Tokens\<close>

definition toLowerCase :: "string \<Rightarrow> string" where
  "toLowerCase s =
     map (\<lambda>c. case map_of (zip upper_chars lower_chars) c of Some l \<Rightarrow> l | None \<Rightarrow> c) s"

text \<open>
  \<open>s.split(/\s+/)\<close>: the pieces between maximal runs of white space; a run at the start
  or at the end of the text leaves an empty piece there, and the empty text gives one
  empty piece.  The flag says that the previous character was white space.
\<close>

fun split_ws :: "bool \<Rightarrow> string \<Rightarrow> string \<Rightarrow> string list" where
  "split_ws insep cur [] = [rev cur]"
| "split_ws insep cur (c # cs) =
     (if c \<in> set ws_chars
      then (if insep then split_ws True cur cs else rev cur # split_ws True [] cs)
      else split_ws False (c # cur) cs)"

definition tokenizeContent :: "string \<Rightarrow> string list" where
  "tokenizeContent content =
     filter (\<lambda>token. length token > 2)
       (split_ws False []
          (map (\<lambda>c. if c \<in> set word_chars \<or> c \<in> set ws_chars then c else CHR '' '')
             (toLowerCase content)))"

subsection \<open>Analysis\<close>

text \<open>
  The frequency table is a JavaScript \<open>Map\<close>: a key keeps the place of its first
  insertion.  \<open>Array.sort\<close> is stable, as is \<^const>\<open>sort_key\<close>.
\<close>

fun conceptFreq_bump :: "(string \<times> nat) list \<Rightarrow> string \<Rightarrow> (string \<times> nat) list" where
  "conceptFreq_bump [] t = [(t, 1)]"
| "conceptFreq_bump ((k, n) # m) t =
     (if k = t then (k, n + 1) # m else (k, n) # conceptFreq_bump m t)"

definition extractConcepts :: "string list \<Rightarrow> string list \<Rightarrow> string list" where
  "extractConcepts vocab tokens =
     map fst (take 5 (sort_key (\<lambda>(c, n). - int n)
       (foldl (\<lambda>m token. if token \<in> set vocab then conceptFreq_bump m token else m) [] tokens)))"

definition calculateWordScore :: "string list \<Rightarrow> string list \<Rightarrow> real" where
  "calculateWordScore tokens words =
     real (length (filter (\<lambda>token. token \<in> set words) tokens)) / real (max (length tokens) 1)"

definition energyWords :: "string list" where
  "energyWords = [''fast'', ''explosive'', ''dynamic'', ''powerful'', ''intense'']"

definition complexityWords :: "string list" where
  "complexityWords = [''intricate'', ''detailed'', ''layered'', ''sophisticated'']"

definition eleganceWords :: "string list" where
  "eleganceWords = [''smooth'', ''graceful'', ''refined'', ''subtle'', ''clean'']"

definition analyzeEmotionalProfile :: "string list \<Rightarrow> EmotionalProfile" where
  "analyzeEmotionalProfile tokens =
     \<lparr>energy = min 1 (calculateWordScore tokens energyWords),
      complexity = min 1 (calculateWordScore tokens complexityWords),
      elegance = min 1 (calculateWordScore tokens eleganceWords)\<rparr>"

definition heavyWords :: "string list" where
  "heavyWords = [''particle'', ''complex'', ''detailed'', ''3d'']"

definition lightWords :: "string list" where
  "lightWords = [''simple'', ''basic'', ''minimal'', ''clean'']"

text \<open>The local variable \<open>complexity\<close> of the source is \<open>delta\<close> here.\<close>

definition analyzeTechnicalRequirements :: "string list \<Rightarrow> TechnicalRequirements" where
  "analyzeTechnicalRequirements tokens =
     (let delta = calculateWordScore tokens heavyWords - calculateWordScore tokens lightWords
      in \<lparr>performance = max 30 (60 - delta * 30),
          memory = max 64 (256 + delta * 256),
          compatibility = [''web'', ''mobile'', ''desktop'']\<rparr>)"

definition calculateConfidence :: "string list \<Rightarrow> string list \<Rightarrow> string list \<Rightarrow> real" where
  "calculateConfidence vocab tokens concepts =
     (let vocabularyMatches = length (filter (\<lambda>token. token \<in> set vocab) tokens);
          coverage = real vocabularyMatches / real (max (length tokens) 1);
          conceptStrength = real (length concepts) / 5
      in min 1 ((coverage + conceptStrength) / 2))"

definition constitutionKeywords :: "string list" where
  "constitutionKeywords =
    [''performance'', ''fast'', ''smooth'', ''60fps'', ''optimized'',
     ''adaptive'', ''intelligent'', ''responsive'', ''cross-platform'',
     ''perfect'', ''flawless'', ''seamless'', ''visual'', ''stunning'',
     ''wow'', ''spectacular'', ''immersive'', ''engaging'', ''addictive'',
     ''superior'', ''best'', ''ultimate'', ''revolutionary'']"

definition checkConstitutionKeywords :: "string list \<Rightarrow> bool" where
  "checkConstitutionKeywords tokens =
     (length (filter (\<lambda>token. token \<in> set constitutionKeywords) tokens) \<ge> 2)"

definition notInitialized :: js_error where
  "notInitialized = Error ''AI Engine not initialized''"

text \<open>
  The vocabulary is read once per token.  With no model loaded (which \<open>initialize\<close> rules
  out) the first read throws a \<open>TypeError\<close>, which the method rethrows with the prefix
  below; its message text is the JavaScript engine's.
\<close>

definition analyzeContent ::
  "string \<Rightarrow> AIEngineService \<Rightarrow> string \<Rightarrow> js_error + EffectDNA" where
  "analyzeContent nullReadMessage eng content =
     (if \<not> isInitialized eng then Inl notInitialized
      else
        let tokens = tokenizeContent content;
            vocab = (case neuralModel eng of None \<Rightarrow> [] | Some m \<Rightarrow> vocabulary m)
        in if neuralModel eng = None \<and> tokens \<noteq> []
           then Inl (Error (''Content analysis failed: '' @ nullReadMessage))
           else
             let concepts = extractConcepts vocab tokens
             in Inr \<lparr>primaryConcepts = concepts,
                     emotionalProfile = analyzeEmotionalProfile tokens,
                     technicalRequirements = analyzeTechnicalRequirements tokens,
                     confidenceScore = calculateConfidence vocab tokens concepts,
                     constitutionCompliance = checkConstitutionKeywords tokens\<rparr>)"

subsection \<open>Code optimisation\<close>

definition constructorReplacement :: string where
  \<open>constructorReplacement =
     ''constructor(container, options) {\<newline>'' @
     ''          this.performanceMonitor = new PerformanceMonitor();\<newline>'' @
     ''          this.frameTime = 16.67; // 60fps target\<newline>'' @
     ''          arguments[0] = container; arguments[1] = options;\<newline>'' @
     ''          return constructor.call(this, ''\<close>

definition optimizeForPerformance :: "string \<Rightarrow> string" where
  "optimizeForPerformance code =
     (let optimized = replaceAll [Lit ''setInterval''] ''requestAnimationFrame'' code;
          optimized = replaceAll
            [Lit ''for'', Many ws_chars, Lit ''('', Many ws_chars, Lit ''var'', Many1 ws_chars,
             Lit ''i'', Many ws_chars, Lit ''='', Many ws_chars, Lit ''0'']
            ''for (let i = 0'' optimized;
          optimized = replaceAll [Lit ''document.getElementById'']
            ''this.cachedElement ||= document.getElementById'' optimized
      in if \<not> str_includes optimized ''performanceMonitor''
         then replaceFirst ''constructor('' constructorReplacement optimized
         else optimized)"

definition cleanupBlock :: string where
  \<open>cleanupBlock =
     ''\<newline>'' @
     ''      cleanup() {\<newline>'' @
     ''        if (this.particles) {\<newline>'' @
     ''          this.particles.length = 0;\<newline>'' @
     ''        }\<newline>'' @
     ''        if (this.canvas) {\<newline>'' @
     ''          this.canvas.width = this.canvas.width; // Clear canvas\<newline>'' @
     ''        }\<newline>'' @
     ''      }''\<close>

definition optimizeForMemory :: "string \<Rightarrow> string" where
  "optimizeForMemory code =
     (let optimized = replaceAll [Lit ''new Array('', Many1 digit_chars, Lit '')''] ''[]'' code;
          optimized = replaceAll [Lit ''.push(''] ''[(this.length || 0)] = '' optimized
      in if \<not> str_includes optimized ''cleanup'' then optimized @ cleanupBlock else optimized)"

definition smoothingReplacement :: string where
  \<open>smoothingReplacement =
     ''getContext('2d'); ctx.imageSmoothingEnabled = true; ctx.imageSmoothingQuality = 'high'; return ctx; })(); (() => ctx = getContext(''\<close>

definition optimizeForQuality :: "string \<Rightarrow> string" where
  "optimizeForQuality code =
     (let optimized = replaceAll [Lit ''Math.random()''] ''this.seededRandom()'' code
      in if str_includes optimized ''getContext(''
         then replaceFirst ''getContext('' smoothingReplacement optimized
         else optimized)"

text \<open>The \<open>switch\<close> has no default: any other target leaves the code as it is.\<close>

definition optimizeCode :: "AIEngineService \<Rightarrow> string \<Rightarrow> string \<Rightarrow> js_error + string" where
  "optimizeCode eng code target =
     (if \<not> isInitialized eng then Inl notInitialized
      else Inr (if target = ''performance'' then optimizeForPerformance code
                else if target = ''memory'' then optimizeForMemory code
                else if target = ''quality'' then optimizeForQuality code
                else code))"

subsection \<open>Generation from a DNA\<close>

definition getJavaScriptTemplate :: string where
  \<open>getJavaScriptTemplate =
     ''\<newline>'' @
     ''class ConstitutionalEffect {\<newline>'' @
     ''  constructor(container, options = {}) {\<newline>'' @
     ''    this.container = container;\<newline>'' @
     ''    this.options = { \<newline>'' @
     ''      energy: {{ENERGY}},\<newline>'' @
     ''      complexity: {{COMPLEXITY}},\<newline>'' @
     ''      elegance: {{ELEGANCE}},\<newline>'' @
     ''      targetFPS: {{PERFORMANCE}},\<newline>'' @
     ''      maxMemory: {{MEMORY}},\<newline>'' @
     ''      ...options \<newline>'' @
     ''    };\<newline>'' @
     ''    \<newline>'' @
     ''    // Constitutional Compliance Setup\<newline>'' @
     ''    this.setupConstitutionalCompliance();\<newline>'' @
     ''    this.init();\<newline>'' @
     ''  }\<newline>'' @
     ''  \<newline>'' @
     ''  setupConstitutionalCompliance() {\<newline>'' @
     ''    // Article I: Performance Absolue\<newline>'' @
     ''    this.targetFPS = 60;\<newline>'' @
     ''    this.frameTime = 16.67;\<newline>'' @
     ''    this.performanceMonitor = new PerformanceMonitor();\<newline>'' @
     ''    \<newline>'' @
     ''    // Article II: Intelligence Adaptative\<newline>'' @
     ''    this.autoCalibrate();\<newline>'' @
     ''    this.setupAdaptiveParameters();\<newline>'' @
     ''    \<newline>'' @
     ''    // Article III: Polyvalence Universelle\<newline>'' @
     ''    this.detectPlatform();\<newline>'' @
     ''    this.setupCrossBrowserCompat();\<newline>'' @
     ''  }\<newline>'' @
     ''  \<newline>'' @
     ''  init() {\<newline>'' @
     ''    this.canvas = document.createElement('canvas');\<newline>'' @
     ''    this.ctx = this.canvas.getContext('2d');\<newline>'' @
     ''    this.setupCanvas();\<newline>'' @
     ''    this.startRender();\<newline>'' @
     ''  }\<newline>'' @
     ''  \<newline>'' @
     ''  render() {\<newline>'' @
     ''    const start = performance.now();\<newline>'' @
     ''    \<newline>'' @
     ''    this.ctx.clearRect(0, 0, this.canvas.width, this.canvas.height);\<newline>'' @
     ''    this.drawEffect();\<newline>'' @
     ''    \<newline>'' @
     ''    const renderTime = performance.now() - start;\<newline>'' @
     ''    this.performanceMonitor.track(renderTime);\<newline>'' @
     ''    \<newline>'' @
     ''    if (renderTime > this.frameTime) {\<newline>'' @
     ''      this.optimizeForNextFrame();\<newline>'' @
     ''    }\<newline>'' @
     ''    \<newline>'' @
     ''    requestAnimationFrame(() => this.render());\<newline>'' @
     ''  }\<newline>'' @
     ''  \<newline>'' @
     ''  drawEffect() {\<newline>'' @
     ''    // Effect-specific rendering based on DNA\<newline>'' @
     ''    const time = Date.now() * 0.001;\<newline>'' @
     ''    \<newline>'' @
     ''    // Apply energy-based animation\<newline>'' @
     ''    const animationSpeed = this.options.energy * 2;\<newline>'' @
     ''    \<newline>'' @
     ''    // Apply complexity-based detail\<newline>'' @
     ''    const detailLevel = Math.floor(this.options.complexity * 100);\<newline>'' @
     ''    \<newline>'' @
     ''    // Apply elegance-based smoothing\<newline>'' @
     ''    const smoothing = this.options.elegance;\<newline>'' @
     ''    \<newline>'' @
     ''    this.renderEffectWithDNA(time, animationSpeed, detailLevel, smoothing);\<newline>'' @
     ''  }\<newline>'' @
     ''}''\<close>

definition getCSSTemplate :: string where
  \<open>getCSSTemplate =
     ''\<newline>'' @
     ''.constitutional-effect {\<newline>'' @
     ''  animation: effectAnimation {{ENERGY}}s infinite ease-in-out;\<newline>'' @
     ''  transform-origin: center;\<newline>'' @
     ''  filter: blur({{ELEGANCE}}px) brightness({{COMPLEXITY}});\<newline>'' @
     ''}\<newline>'' @
     ''\<newline>'' @
     ''@keyframes effectAnimation {\<newline>'' @
     ''  0% { \<newline>'' @
     ''    transform: scale(1) rotate(0deg);\<newline>'' @
     ''    opacity: {{ELEGANCE}};\<newline>'' @
     ''  }\<newline>'' @
     ''  50% { \<newline>'' @
     ''    transform: scale({{COMPLEXITY}}) rotate(180deg);\<newline>'' @
     ''    opacity: 1;\<newline>'' @
     ''  }\<newline>'' @
     ''  100% { \<newline>'' @
     ''    transform: scale(1) rotate(360deg);\<newline>'' @
     ''    opacity: {{ELEGANCE}};\<newline>'' @
     ''  }\<newline>'' @
     ''}\<newline>'' @
     ''\<newline>'' @
     ''/* Constitutional Performance Optimizations */\<newline>'' @
     ''.constitutional-effect {\<newline>'' @
     ''  will-change: transform, opacity;\<newline>'' @
     ''  backface-visibility: hidden;\<newline>'' @
     ''  perspective: 1000px;\<newline>'' @
     ''}''\<close>

definition getAfterEffectsTemplate :: string where
  \<open>getAfterEffectsTemplate =
     ''\<newline>'' @
     ''// After Effects Expression - Constitutional Compliance\<newline>'' @
     ''// Generated by EffectForge AI with DAAR methodology\<newline>'' @
     ''\<newline>'' @
     ''var energy = {{ENERGY}};\<newline>'' @
     ''var complexity = {{COMPLEXITY}};\<newline>'' @
     ''var elegance = {{ELEGANCE}};\<newline>'' @
     ''var time = thisComp.time;\<newline>'' @
     ''\<newline>'' @
     ''// Article I: Performance Absolue\<newline>'' @
     ''if (thisComp.frameRate < 60) {\<newline>'' @
     ''  // Auto-adjust for performance\<newline>'' @
     ''  energy *= 0.8;\<newline>'' @
     ''  complexity *= 0.9;\<newline>'' @
     ''}\<newline>'' @
     ''\<newline>'' @
     ''// Article II: Intelligence Adaptative\<newline>'' @
     ''var devicePerformance = thisComp.width * thisComp.height > 1920 * 1080 ? 'high' : 'low';\<newline>'' @
     ''if (devicePerformance === 'low') {\<newline>'' @
     ''  complexity = Math.min(complexity, 0.7);\<newline>'' @
     ''}\<newline>'' @
     ''\<newline>'' @
     ''// Effect animation\<newline>'' @
     ''var position = transform.position;\<newline>'' @
     ''var scale = transform.scale;\<newline>'' @
     ''var rotation = transform.rotation;\<newline>'' @
     ''\<newline>'' @
     ''// Energy-based movement\<newline>'' @
     ''var energyX = Math.sin(time * energy * 2) * 100;\<newline>'' @
     ''var energyY = Math.cos(time * energy * 1.5) * 80;\<newline>'' @
     ''\<newline>'' @
     ''// Complexity-based scaling\<newline>'' @
     ''var complexScale = 100 + Math.sin(time * complexity) * 50;\<newline>'' @
     ''\<newline>'' @
     ''// Elegance-based smoothing\<newline>'' @
     ''var smoothedRotation = rotation + (Math.sin(time * elegance) * 360);\<newline>'' @
     ''\<newline>'' @
     ''// Constitutional compliance output\<newline>'' @
     ''[position[0] + energyX, position[1] + energyY];''\<close>

text \<open>
  \<open>templates[type] || templates.javascript\<close> looks \<open>type\<close> up in an object literal with
  three keys.  A \<open>type\<close> that names a property every object inherits finds that property
  instead, which is not a string, and filling the template then throws a \<open>TypeError\<close>.
\<close>

definition objectPrototypeKeys :: "string list" where
  "objectPrototypeKeys =
    [''constructor'', ''hasOwnProperty'', ''isPrototypeOf'', ''propertyIsEnumerable'',
     ''toLocaleString'', ''toString'', ''valueOf'', ''__proto__'', ''__defineGetter__'',
     ''__defineSetter__'', ''__lookupGetter__'', ''__lookupSetter__'']"

definition selectEffectTemplate :: "EffectDNA \<Rightarrow> string \<Rightarrow> js_error + string" where
  "selectEffectTemplate dna type =
     (if type = ''javascript'' then Inr getJavaScriptTemplate
      else if type = ''css'' then Inr getCSSTemplate
      else if type = ''aftereffects'' then Inr getAfterEffectsTemplate
      else if type \<in> set objectPrototypeKeys then Inl (TypeError ''template.replace is not a function'')
      else Inr getJavaScriptTemplate)"

fun join :: "string \<Rightarrow> string list \<Rightarrow> string" where
  "join sep [] = []"
| "join sep [x] = x"
| "join sep (x # y # ys) = x @ sep @ join sep (y # ys)"

text \<open>\<open>toStr\<close> is \<open>Number.prototype.toString\<close>, the decimal text of a number.\<close>

definition populateTemplate :: "(real \<Rightarrow> string) \<Rightarrow> string \<Rightarrow> EffectDNA \<Rightarrow> string" where
  "populateTemplate toStr template dna =
     replaceAll [Lit ''{{MEMORY}}''] (toStr (memory (technicalRequirements dna)))
       (replaceAll [Lit ''{{PERFORMANCE}}''] (toStr (performance (technicalRequirements dna)))
         (replaceAll [Lit ''{{CONCEPTS}}''] (join '', '' (primaryConcepts dna))
           (replaceAll [Lit ''{{ELEGANCE}}''] (toStr (elegance (emotionalProfile dna)))
             (replaceAll [Lit ''{{COMPLEXITY}}''] (toStr (complexity (emotionalProfile dna)))
               (replaceAll [Lit ''{{ENERGY}}''] (toStr (energy (emotionalProfile dna)))
                  template)))))"

definition generateEffectFromDNA ::
  "(real \<Rightarrow> string) \<Rightarrow> AIEngineService \<Rightarrow> EffectDNA \<Rightarrow> string \<Rightarrow> js_error + string" where
  "generateEffectFromDNA toStr eng dna type =
     (if \<not> isInitialized eng then Inl notInitialized
      else case selectEffectTemplate dna type of
             Inl e \<Rightarrow> Inl e
           | Inr template \<Rightarrow> Inr (populateTemplate toStr template dna))"


subsection \<open>Reachable states\<close>

text \<open>
  The states the service can be in: the flag is set by \<open>initialize\<close> only, after the model
  has been loaded, and \<open>shutdown\<close> clears both.
\<close>

definition engine_ok :: "AIEngineService \<Rightarrow> bool" where
  "engine_ok eng = (if isInitialized eng then neuralModel eng \<noteq> None else True)"


section \<open>The effect generator (client/src/lib/effect-generator.ts)\<close>

record EffectGenerationOptions =
  opt_type :: string
  opt_targetFps :: real
  opt_maxMemory :: real
  enableConstitution :: bool
  platform :: string

record EffectMetadata =
  md_renderTime :: real
  md_memoryUsage :: real
  fps :: real
  md_constitutionScore :: real

record GeneratedEffect =
  ge_id :: string
  ge_name :: string
  ge_description :: string
  code :: string
  metadata :: EffectMetadata
  dna :: EffectDNA

subsection \<open>Templates\<close>

definition getParticleTemplate :: string where
  \<open>getParticleTemplate =
     ''\<newline>'' @
     ''class {{EFFECT_NAME}} {\<newline>'' @
     ''  constructor(container, options = {}) {\<newline>'' @
     ''    this.container = container;\<newline>'' @
     ''    this.options = { ...this.getDefaults(), ...options };\<newline>'' @
     ''    // CONSTITUTIONAL_SETUP\<newline>'' @
     ''    this.init();\<newline>'' @
     ''  }\<newline>'' @
     ''  \<newline>'' @
     ''  getDefaults() {\<newline>'' @
     ''    return {\<newline>'' @
     ''      particleCount: 100,\<newline>'' @
     ''      speed: {{ENERGY}},\<newline>'' @
     ''      complexity: {{COMPLEXITY}},\<newline>'' @
     ''      targetFPS: {{TARGET_FPS}}\<newline>'' @
     ''    };\<newline>'' @
     ''  }\<newline>'' @
     ''  \<newline>'' @
     ''  init() {\<newline>'' @
     ''    this.canvas = document.createElement('canvas');\<newline>'' @
     ''    this.ctx = this.canvas.getContext('2d');\<newline>'' @
     ''    this.particles = [];\<newline>'' @
     ''    this.setupCanvas();\<newline>'' @
     ''    this.createParticles();\<newline>'' @
     ''    this.startAnimation();\<newline>'' @
     ''  }\<newline>'' @
     ''  \<newline>'' @
     ''  createParticles() {\<newline>'' @
     ''    for (let i = 0; i < this.options.particleCount; i++) {\<newline>'' @
     ''      this.particles.push(new Particle(this.canvas.width, this.canvas.height));\<newline>'' @
     ''    }\<newline>'' @
     ''  }\<newline>'' @
     ''  \<newline>'' @
     ''  render() {\<newline>'' @
     ''    const start = performance.now();\<newline>'' @
     ''    \<newline>'' @
     ''    this.ctx.clearRect(0, 0, this.canvas.width, this.canvas.height);\<newline>'' @
     ''    \<newline>'' @
     ''    this.particles.forEach(particle => {\<newline>'' @
     ''      particle.update();\<newline>'' @
     ''      particle.draw(this.ctx);\<newline>'' @
     ''    });\<newline>'' @
     ''    \<newline>'' @
     ''    const renderTime = performance.now() - start;\<newline>'' @
     ''    if (renderTime > {{FRAME_TIME}}) {\<newline>'' @
     ''      this.optimizeForNextFrame();\<newline>'' @
     ''    }\<newline>'' @
     ''    \<newline>'' @
     ''    requestAnimationFrame(() => this.render());\<newline>'' @
     ''  }\<newline>'' @
     ''}''\<close>

definition getAnimationTemplate :: string where
  \<open>getAnimationTemplate =
     ''\<newline>'' @
     ''.{{EFFECT_NAME}} {\<newline>'' @
     ''  animation: effectAnimation {{ENERGY}}s infinite;\<newline>'' @
     ''  transform-origin: center;\<newline>'' @
     ''}\<newline>'' @
     ''\<newline>'' @
     ''@keyframes effectAnimation {\<newline>'' @
     ''  0% { transform: scale(1) rotate(0deg); }\<newline>'' @
     ''  50% { transform: scale({{COMPLEXITY}}) rotate(180deg); }\<newline>'' @
     ''  100% { transform: scale(1) rotate(360deg); }\<newline>'' @
     ''}''\<close>

definition getCanvasTemplate :: string where
  \<open>getCanvasTemplate =
     ''\<newline>'' @
     ''class {{EFFECT_NAME}} {\<newline>'' @
     ''  constructor(canvas) {\<newline>'' @
     ''    this.canvas = canvas;\<newline>'' @
     ''    this.ctx = canvas.getContext('2d');\<newline>'' @
     ''    // CONSTITUTIONAL_SETUP\<newline>'' @
     ''    this.init();\<newline>'' @
     ''  }\<newline>'' @
     ''  \<newline>'' @
     ''  render() {\<newline>'' @
     ''    this.ctx.clearRect(0, 0, this.canvas.width, this.canvas.height);\<newline>'' @
     ''    \<newline>'' @
     ''    // Effect rendering logic here\<newline>'' @
     ''    const time = Date.now() * 0.001;\<newline>'' @
     ''    const energy = {{ENERGY}};\<newline>'' @
     ''    const complexity = {{COMPLEXITY}};\<newline>'' @
     ''    \<newline>'' @
     ''    this.drawEffect(time, energy, complexity);\<newline>'' @
     ''    \<newline>'' @
     ''    requestAnimationFrame(() => this.render());\<newline>'' @
     ''  }\<newline>'' @
     ''}''\<close>

definition getTransformTemplate :: string where
  \<open>getTransformTemplate =
     ''\<newline>'' @
     ''.{{EFFECT_NAME}} {\<newline>'' @
     ''  transform: translateX({{ENERGY}}px) scale({{COMPLEXITY}});\<newline>'' @
     ''  transition: all 0.3s ease;\<newline>'' @
     ''}''\<close>

definition getAETemplate :: string where
  \<open>getAETemplate =
     ''\<newline>'' @
     ''// After Effects Expression for {{EFFECT_NAME}}\<newline>'' @
     ''var energy = {{ENERGY}};\<newline>'' @
     ''var complexity = {{COMPLEXITY}};\<newline>'' @
     ''var time = thisComp.time;\<newline>'' @
     ''\<newline>'' @
     ''// Constitutional Article I: Performance Absolue\<newline>'' @
     ''if (frameRate < 60) {\<newline>'' @
     ''  // Optimize for performance\<newline>'' @
     ''}\<newline>'' @
     ''\<newline>'' @
     ''transform.position + [Math.sin(time * energy) * 100, Math.cos(time * complexity) * 100];''\<close>

text \<open>
  A template of the catalogue is an object literal with the properties \<open>name\<close>,
  \<open>category\<close>, \<open>baseCode\<close>, \<open>performance\<close> and \<open>compatibility\<close>.  The scoring function
  also reads \<open>template.complexity\<close> and \<open>template.energy\<close>; \<open>None\<close> is a property the
  object does not have (the read gives \<open>undefined\<close>).
\<close>

record EffectTemplate =
  tpl_name :: string
  tpl_category :: string
  baseCode :: string
  tpl_performance :: real
  tpl_compatibility :: "string list"
  tpl_complexity :: "real option"
  tpl_energy :: "real option"

definition javascriptTemplates :: "EffectTemplate list" where
  "javascriptTemplates =
    [\<lparr>tpl_name = ''ParticleSystem'', tpl_category = ''particle'',
      baseCode = getParticleTemplate, tpl_performance = 0.8,
      tpl_compatibility = [''web'', ''mobile''], tpl_complexity = None, tpl_energy = None\<rparr>,
     \<lparr>tpl_name = ''CSSAnimation'', tpl_category = ''animation'',
      baseCode = getAnimationTemplate, tpl_performance = 0.9,
      tpl_compatibility = [''web'', ''mobile'', ''desktop''],
      tpl_complexity = None, tpl_energy = None\<rparr>,
     \<lparr>tpl_name = ''CanvasEffect'', tpl_category = ''visual'',
      baseCode = getCanvasTemplate, tpl_performance = 0.7,
      tpl_compatibility = [''web'', ''desktop''], tpl_complexity = None, tpl_energy = None\<rparr>]"

definition cssTemplates :: "EffectTemplate list" where
  "cssTemplates =
    [\<lparr>tpl_name = ''Transform3D'', tpl_category = ''transform'',
      baseCode = getTransformTemplate, tpl_performance = 0.95,
      tpl_compatibility = [''web'', ''mobile'', ''desktop''],
      tpl_complexity = None, tpl_energy = None\<rparr>]"

definition aftereffectsTemplates :: "EffectTemplate list" where
  "aftereffectsTemplates =
    [\<lparr>tpl_name = ''Expression'', tpl_category = ''expression'',
      baseCode = getAETemplate, tpl_performance = 0.8,
      tpl_compatibility = [''desktop''], tpl_complexity = None, tpl_energy = None\<rparr>]"

text \<open>
  \<open>templates[type] || templates.javascript\<close> looks \<open>type\<close> up in an object literal with the
  keys \<open>javascript\<close>, \<open>css\<close> and \<open>aftereffects\<close>.  A \<open>type\<close> that names a property every
  object inherits finds that property (a function, or the prototype object for
  \<open>__proto__\<close>), which is truthy and is returned in the place of the array of templates.
\<close>

datatype template_lookup = TemplateArray "EffectTemplate list" | InheritedProperty string

definition getEffectTemplates :: "string \<Rightarrow> template_lookup" where
  "getEffectTemplates type =
     (if type = ''javascript'' then TemplateArray javascriptTemplates
      else if type = ''css'' then TemplateArray cssTemplates
      else if type = ''aftereffects'' then TemplateArray aftereffectsTemplates
      else if type \<in> set objectPrototypeKeys then InheritedProperty type
      else TemplateArray javascriptTemplates)"

text \<open>
  A JavaScript number that may be \<open>NaN\<close> is a \<^typ>\<open>real option\<close>, \<open>None\<close> being \<open>NaN\<close>:
  arithmetic on \<open>undefined\<close> gives \<open>NaN\<close>, arithmetic on \<open>NaN\<close> gives \<open>NaN\<close>, and every
  comparison with \<open>NaN\<close> is false.
\<close>

definition calculateTemplateScore :: "EffectDNA \<Rightarrow> EffectTemplate \<Rightarrow> real option" where
  "calculateTemplateScore d template =
     (case (tpl_complexity template, tpl_energy template) of
        (Some c, Some e) \<Rightarrow>
          Some (0 + tpl_performance template * 0.4
                + (1 - \<bar>c - complexity (emotionalProfile d)\<bar>) * 0.3
                + (1 - \<bar>e - energy (emotionalProfile d)\<bar>) * 0.3)
      | _ \<Rightarrow> None)"

fun selectBestTemplate_loop ::
  "EffectDNA \<Rightarrow> EffectTemplate \<Rightarrow> real \<Rightarrow> EffectTemplate list \<Rightarrow> EffectTemplate" where
  "selectBestTemplate_loop d bestTemplate bestScore [] = bestTemplate"
| "selectBestTemplate_loop d bestTemplate bestScore (template # templates) =
     (case calculateTemplateScore d template of
        Some score \<Rightarrow>
          if score > bestScore then selectBestTemplate_loop d template score templates
          else selectBestTemplate_loop d bestTemplate bestScore templates
      | None \<Rightarrow> selectBestTemplate_loop d bestTemplate bestScore templates)"

text \<open>
  \<open>templates[0]\<close> of an empty array is \<open>undefined\<close>, here \<open>None\<close>.  On an inherited
  property \<open>templates[0]\<close> is \<open>undefined\<close> too, and the loop \<open>for (const template of
  templates)\<close> then throws, because a function or the prototype object is not iterable.
\<close>

definition selectBestTemplate ::
  "EffectDNA \<Rightarrow> template_lookup \<Rightarrow> js_error + EffectTemplate option" where
  "selectBestTemplate d templates =
     (case templates of
        TemplateArray ts \<Rightarrow>
          Inr (case ts of
                 [] \<Rightarrow> None
               | t0 # _ \<Rightarrow> Some (selectBestTemplate_loop d t0 0 ts))
      | InheritedProperty k \<Rightarrow> Inl (TypeError ''templates is not iterable''))"

subsection \<open>Code generation\<close>

definition constitutionalSetup :: string where
  \<open>constitutionalSetup =
     ''\<newline>'' @
     ''    // Constitutional Compliance Setup\<newline>'' @
     ''    setupConstitutionalCompliance() {\<newline>'' @
     ''      // Article I: Performance Absolue\<newline>'' @
     ''      this.targetFPS = 60;\<newline>'' @
     ''      this.frameTime = 16.67;\<newline>'' @
     ''      this.performanceMonitor = new PerformanceMonitor();\<newline>'' @
     ''      \<newline>'' @
     ''      // Article II: Intelligence Adaptative\<newline>'' @
     ''      this.autoCalibrate();\<newline>'' @
     ''      this.setupAdaptiveParameters();\<newline>'' @
     ''      \<newline>'' @
     ''      // Article III: Polyvalence Universelle\<newline>'' @
     ''      this.detectPlatform();\<newline>'' @
     ''      this.setupCrossBrowserCompat();\<newline>'' @
     ''    }''\<close>

definition addConstitutionalSetup :: "string \<Rightarrow> string" where
  "addConstitutionalSetup c = replaceFirst ''// CONSTITUTIONAL_SETUP'' constitutionalSetup c"

definition generateCode ::
  "(real \<Rightarrow> string) \<Rightarrow> EffectTemplate \<Rightarrow> EffectDNA \<Rightarrow> EffectGenerationOptions \<Rightarrow> string" where
  "generateCode toStr template d options =
     (let c = baseCode template;
          c = replaceAll [Lit ''{{TARGET_FPS}}''] (toStr (opt_targetFps options)) c;
          c = replaceAll [Lit ''{{MAX_MEMORY}}''] (toStr (opt_maxMemory options)) c;
          c = replaceAll [Lit ''{{ENERGY}}''] (toStr (energy (emotionalProfile d))) c;
          c = replaceAll [Lit ''{{COMPLEXITY}}''] (toStr (complexity (emotionalProfile d))) c
      in if enableConstitution options then addConstitutionalSetup c else c)"

definition generateName :: "EffectDNA \<Rightarrow> string" where
  "generateName d = join '' '' (take 2 (primaryConcepts d)) @ '' Effect''"

subsection \<open>Optimisation\<close>

definition optimizeMemoryUsage :: "string \<Rightarrow> string" where
  "optimizeMemoryUsage c =
     replaceAll [Lit ''setInterval''] ''requestAnimationFrame''
       (replaceAll [Lit ''new Array('', Many1 digit_chars, Lit '')''] ''[]'' c)"

definition optimizeFrameRate :: "(real \<Rightarrow> string) \<Rightarrow> string \<Rightarrow> real \<Rightarrow> string" where
  "optimizeFrameRate toStr c targetFps' =
     replaceAll [Lit ''{{FRAME_TIME}}''] (toStr (1000 / targetFps')) c"

definition particleCountRx :: "rx_item list" where
  "particleCountRx =
     [Lit ''particleCount'', Many ws_chars, Lit ''='', Many ws_chars, Many1 digit_chars]"

definition optimizeForMobile :: "string \<Rightarrow> string" where
  "optimizeForMobile c = replaceAll particleCountRx ''particleCount = 50'' c"

definition optimizeForDesktop :: "string \<Rightarrow> string" where
  "optimizeForDesktop c = replaceAll particleCountRx ''particleCount = 200'' c"

definition optimizeForPlatform :: "string \<Rightarrow> string \<Rightarrow> string" where
  "optimizeForPlatform c pf =
     (if pf = ''mobile'' then optimizeForMobile c
      else if pf = ''desktop'' then optimizeForDesktop c
      else c)"

text \<open>
  The rewriting steps of \<open>optimizeEffect\<close>; its estimates of the render time (which is
  random) and of the memory use are not modelled.
\<close>

definition optimizeEffect_code ::
  "(real \<Rightarrow> string) \<Rightarrow> string \<Rightarrow> EffectGenerationOptions \<Rightarrow> string" where
  "optimizeEffect_code toStr c options =
     (let optimizedCode = c;
          optimizedCode = (if opt_maxMemory options < 512
                           then optimizeMemoryUsage optimizedCode else optimizedCode);
          optimizedCode = (if opt_targetFps options > 30
                           then optimizeFrameRate toStr optimizedCode (opt_targetFps options)
                           else optimizedCode)
      in optimizeForPlatform optimizedCode (platform options))"

subsection \<open>Characters a pattern does not mention\<close>

fun rx_avoids :: "char \<Rightarrow> rx_item list \<Rightarrow> bool" where
  "rx_avoids c [] = True"
| "rx_avoids c (Lit l # p) = (c \<notin> set l \<and> rx_avoids c p)"
| "rx_avoids c (Many cls # p) = (c \<notin> set cls \<and> rx_avoids c p)"
| "rx_avoids c (Many1 cls # p) = (c \<notin> set cls \<and> rx_avoids c p)"


section \<open>The constitution validator (server/services/constitution-validator.ts)\<close>

text \<open>
  The stored effect of the shared schema.  A code column that is \<open>null\<close> is \<open>None\<close>.  The
  three metrics are numbers; the schema declares them as integers.
\<close>

record Effect =
  effect_id :: string
  effect_name :: string
  effect_description :: string
  effect_category :: string
  effect_type :: string
  tags :: "string list"
  javascriptCode :: "string option"
  cssCode :: "string option"
  afterEffectsCode :: "string option"
  constitutionScore :: int
  performanceCompliant :: bool
  intelligenceAdaptive :: bool
  universalCompatible :: bool
  perfectExperience :: bool
  visualImpact :: bool
  addictiveEcosystem :: bool
  competitiveDomination :: bool
  renderTime :: real
  memoryUsage :: real
  targetFps :: real
  generatedBy :: string
  generationPrompt :: "string option"

text \<open>An article with its weight in percent; its description text is not modelled.\<close>

record ConstitutionArticle =
  article_id :: nat
  article_name :: string
  weight :: real

text \<open>
  The result of one article: the rounded score, the flag and the recommendations
  (\<open>undefined\<close> when there are none).  The \<open>details\<close> text, a display string built from the
  same values, is not modelled.
\<close>

record ArticleResult =
  score :: int
  compliant :: bool
  recommendations :: "string list option"

record ConstitutionCompliance =
  totalScore :: int
  cc_performanceCompliant :: bool
  cc_intelligenceAdaptive :: bool
  cc_universalCompatible :: bool
  cc_perfectExperience :: bool
  cc_visualImpact :: bool
  cc_addictiveEcosystem :: bool
  cc_competitiveDomination :: bool
  details :: "(string \<times> ArticleResult) list"

text \<open>The article names; the accented letters are written in UTF-8.\<close>

definition name_PerformanceAbsolue :: string where
  "name_PerformanceAbsolue = ''Performance Absolue''"

definition name_IntelligenceAdaptative :: string where
  "name_IntelligenceAdaptative = ''Intelligence Adaptative''"

definition name_PolyvalenceUniverselle :: string where
  "name_PolyvalenceUniverselle = ''Polyvalence Universelle''"

definition name_ExperienceParfaite :: string where
  "name_ExperienceParfaite = ''Exp'' @ [CHR 0xC3, CHR 0xA9] @ ''rience Parfaite''"

definition name_ImpactVisuel :: string where
  "name_ImpactVisuel = ''Impact Visuel''"

definition name_EcosystemeAddictif :: string where
  "name_EcosystemeAddictif =
     [CHR 0xC3, CHR 0x89] @ ''cosyst'' @ [CHR 0xC3, CHR 0xA8] @ ''me Addictif''"

definition name_DominationConcurrentielle :: string where
  "name_DominationConcurrentielle = ''Domination Concurrentielle''"

definition articles :: "ConstitutionArticle list" where
  "articles =
    [\<lparr>article_id = 1, article_name = name_PerformanceAbsolue, weight = 14.3\<rparr>,
     \<lparr>article_id = 2, article_name = name_IntelligenceAdaptative, weight = 14.3\<rparr>,
     \<lparr>article_id = 3, article_name = name_PolyvalenceUniverselle, weight = 14.3\<rparr>,
     \<lparr>article_id = 4, article_name = name_ExperienceParfaite, weight = 14.3\<rparr>,
     \<lparr>article_id = 5, article_name = name_ImpactVisuel, weight = 14.3\<rparr>,
     \<lparr>article_id = 6, article_name = name_EcosystemeAddictif, weight = 14.3\<rparr>,
     \<lparr>article_id = 7, article_name = name_DominationConcurrentielle, weight = 14.2\<rparr>]"

text \<open>\<open>a || b\<close> on an optional text: \<open>null\<close> and the empty text are falsy.\<close>

definition truthy :: "string option \<Rightarrow> bool" where
  "truthy a = (case a of None \<Rightarrow> False | Some s \<Rightarrow> s \<noteq> [])"

definition js_or :: "string option \<Rightarrow> string \<Rightarrow> string" where
  "js_or a b = (case a of None \<Rightarrow> b | Some s \<Rightarrow> if s \<noteq> [] then s else b)"

definition some_if_any :: "string list \<Rightarrow> string list option" where
  "some_if_any rs = (if length rs > 0 then Some rs else None)"

subsection \<open>The seven articles\<close>

text \<open>
  Each validator adds up a local variable \<open>score\<close>, sets \<open>compliant\<close> by comparing it with
  the pass bar, and returns the score rounded.  The function \<open>\<dots>_score\<close> is that local
  variable at the end of the validator.
\<close>

definition PerformanceAbsolue_score :: "Effect \<Rightarrow> real" where
  "PerformanceAbsolue_score effect =
     (let fpsScore = (if targetFps effect \<ge> 60 then 40 else (targetFps effect / 60) * 40);
          renderScore = (if renderTime effect \<le> 16.67 then 40
                         else max 0 (40 - (renderTime effect - 16.67) * 2));
          memoryScore = (if memoryUsage effect \<le> 256 then 20
                         else max 0 (20 - ((memoryUsage effect - 256) / 256) * 20))
      in 0 + fpsScore + renderScore + memoryScore)"

definition validatePerformanceAbsolue :: "Effect \<Rightarrow> ArticleResult" where
  "validatePerformanceAbsolue effect =
     \<lparr>score = Math_round (PerformanceAbsolue_score effect),
      compliant = (PerformanceAbsolue_score effect \<ge> 90),
      recommendations = some_if_any
        ((if targetFps effect < 60
          then [''Increase target FPS to 60 for constitutional compliance''] else [])
         @ (if renderTime effect > 16.67
            then [''Optimize render time to under 16.67ms (60fps requirement)''] else [])
         @ (if memoryUsage effect > 256
            then [''Reduce memory usage to under 256MB for optimal performance''] else []))\<rparr>"

definition IntelligenceAdaptative_score :: "Effect \<Rightarrow> real" where
  "IntelligenceAdaptative_score effect =
     (let c = js_or (javascriptCode effect) (js_or (cssCode effect) (js_or (afterEffectsCode effect) []))
      in 0 + (if str_includes c ''autoCalibrate'' \<or> str_includes c ''adaptiveParameters'' then 50 else 0)
           + (if str_includes c ''detectPlatform'' \<or> str_includes c ''deviceCapacity'' then 25 else 0)
           + (if str_includes c ''performanceMonitor'' \<or> str_includes c ''optimizeForNextFrame''
              then 25 else 0))"

definition validateIntelligenceAdaptative :: "Effect \<Rightarrow> ArticleResult" where
  "validateIntelligenceAdaptative effect =
     (let c = js_or (javascriptCode effect) (js_or (cssCode effect) (js_or (afterEffectsCode effect) []))
      in \<lparr>score = Math_round (IntelligenceAdaptative_score effect),
          compliant = (IntelligenceAdaptative_score effect \<ge> 90),
          recommendations = some_if_any
            ((if str_includes c ''autoCalibrate'' \<or> str_includes c ''adaptiveParameters'' then []
              else [''Add auto-calibration functionality''])
             @ (if str_includes c ''detectPlatform'' \<or> str_includes c ''deviceCapacity'' then []
                else [''Add device detection and adaptation''])
             @ (if str_includes c ''performanceMonitor'' \<or> str_includes c ''optimizeForNextFrame''
                then [] else [''Add performance monitoring and dynamic optimization'']))\<rparr>)"

definition platforms_with_code :: "Effect \<Rightarrow> nat" where
  "platforms_with_code effect =
     length (filter truthy [javascriptCode effect, cssCode effect, afterEffectsCode effect])"

definition PolyvalenceUniverselle_score :: "Effect \<Rightarrow> real" where
  "PolyvalenceUniverselle_score effect =
     (let c = js_or (javascriptCode effect) (js_or (cssCode effect) [])
      in 0 + (real (platforms_with_code effect) / 3) * 40
           + (if str_includes c ''crossBrowser'' \<or> str_includes c ''polyfill''
                 \<or> str_includes c ''compatibility'' then 30 else 0)
           + (if str_includes c ''detectPlatform'' \<and> str_includes c ''setupCrossBrowserCompat''
              then 30 else 0))"

definition validatePolyvalenceUniverselle :: "Effect \<Rightarrow> ArticleResult" where
  "validatePolyvalenceUniverselle effect =
     (let c = js_or (javascriptCode effect) (js_or (cssCode effect) [])
      in \<lparr>score = Math_round (PolyvalenceUniverselle_score effect),
          compliant = (PolyvalenceUniverselle_score effect \<ge> 90),
          recommendations = some_if_any
            ((if platforms_with_code effect < 2
              then [''Generate code for multiple platforms (JS, CSS, AE)''] else [])
             @ (if str_includes c ''crossBrowser'' \<or> str_includes c ''polyfill''
                   \<or> str_includes c ''compatibility'' then []
                else [''Add cross-browser compatibility features''])
             @ (if str_includes c ''detectPlatform'' \<and> str_includes c ''setupCrossBrowserCompat''
                then [] else [''Add universal codec and platform detection'']))\<rparr>)"

definition ExperienceParfaite_score :: "Effect \<Rightarrow> real" where
  "ExperienceParfaite_score effect =
     (let c = js_or (javascriptCode effect) []
      in 0 + (if str_includes c ''oneClick'' \<or> str_includes c ''start()'' \<or> str_includes c ''init()''
              then 50 else 0)
           + (if str_includes c ''livePreview'' \<or> str_includes c ''render()''
                 \<or> str_includes c ''requestAnimationFrame'' then 30 else 0)
           + (if str_includes c ''bindEvents'' \<or> str_includes c ''interactive''
                 \<or> str_includes c ''mousemove'' then 20 else 0))"

definition validateExperienceParfaite :: "Effect \<Rightarrow> ArticleResult" where
  "validateExperienceParfaite effect =
     (let c = js_or (javascriptCode effect) []
      in \<lparr>score = Math_round (ExperienceParfaite_score effect),
          compliant = (ExperienceParfaite_score effect \<ge> 90),
          recommendations = some_if_any
            ((if str_includes c ''oneClick'' \<or> str_includes c ''start()'' \<or> str_includes c ''init()''
              then [] else [''Add one-click initialization functionality''])
             @ (if str_includes c ''livePreview'' \<or> str_includes c ''render()''
                   \<or> str_includes c ''requestAnimationFrame'' then []
                else [''Add live preview functionality''])
             @ (if str_includes c ''bindEvents'' \<or> str_includes c ''interactive''
                   \<or> str_includes c ''mousemove'' then []
                else [''Add interactive user experience features'']))\<rparr>)"

definition ImpactVisuel_score :: "Effect \<Rightarrow> real" where
  "ImpactVisuel_score effect =
     (let c = js_or (javascriptCode effect) (js_or (cssCode effect) [])
      in 0 + (if str_includes c ''wowFactor'' \<or> str_includes c ''spectacular'' \<or> str_includes c ''glow''
              then 40 else 0)
           + (if str_includes c ''physics'' \<or> str_includes c ''gravity'' \<or> str_includes c ''friction''
              then 30 else 0)
           + (if str_includes c ''antialiasing'' \<or> str_includes c ''smoothing''
                 \<or> str_includes c ''quality'' then 30 else 0))"

definition validateImpactVisuel :: "Effect \<Rightarrow> ArticleResult" where
  "validateImpactVisuel effect =
     (let c = js_or (javascriptCode effect) (js_or (cssCode effect) [])
      in \<lparr>score = Math_round (ImpactVisuel_score effect),
          compliant = (ImpactVisuel_score effect \<ge> 90),
          recommendations = some_if_any
            ((if str_includes c ''wowFactor'' \<or> str_includes c ''spectacular'' \<or> str_includes c ''glow''
              then [] else [''Add visual wow factor elements (glow, shadows, effects)''])
             @ (if str_includes c ''physics'' \<or> str_includes c ''gravity'' \<or> str_includes c ''friction''
                then [] else [''Add advanced physics simulation''])
             @ (if str_includes c ''antialiasing'' \<or> str_includes c ''smoothing''
                   \<or> str_includes c ''quality'' then []
                else [''Add high-quality visual rendering features'']))\<rparr>)"

definition EcosystemeAddictif_score :: "Effect \<Rightarrow> real" where
  "EcosystemeAddictif_score effect =
     (let c = js_or (javascriptCode effect) []
      in 0 + (if str_includes c ''immersive'' \<or> str_includes c ''engaging''
                 \<or> str_includes c ''interactive'' then 50 else 0)
           + (if str_includes c ''surprise'' \<or> str_includes c ''variation'' \<or> str_includes c ''random''
              then 30 else 0)
           + (if str_includes c ''progress'' \<or> str_includes c ''achievement''
                 \<or> str_includes c ''feedback'' then 20 else 0))"

definition validateEcosystemeAddictif :: "Effect \<Rightarrow> ArticleResult" where
  "validateEcosystemeAddictif effect =
     (let c = js_or (javascriptCode effect) []
      in \<lparr>score = Math_round (EcosystemeAddictif_score effect),
          compliant = (EcosystemeAddictif_score effect \<ge> 90),
          recommendations = some_if_any
            ((if str_includes c ''immersive'' \<or> str_includes c ''engaging''
                 \<or> str_includes c ''interactive'' then []
              else [''Add immersive and engaging interaction features''])
             @ (if str_includes c ''surprise'' \<or> str_includes c ''variation''
                   \<or> str_includes c ''random'' then []
                else [''Add surprise elements and variations to maintain engagement''])
             @ (if str_includes c ''progress'' \<or> str_includes c ''achievement''
                   \<or> str_includes c ''feedback'' then []
                else [''Add progress tracking and feedback mechanisms'']))\<rparr>)"

text \<open>Article VII reads the six flags stored on the effect it is given.\<close>

definition otherArticlesAvg :: "Effect \<Rightarrow> real" where
  "otherArticlesAvg effect =
     ((if performanceCompliant effect then 100 else 0)
      + (if intelligenceAdaptive effect then 100 else 0)
      + (if universalCompatible effect then 100 else 0)
      + (if perfectExperience effect then 100 else 0)
      + (if visualImpact effect then 100 else 0)
      + (if addictiveEcosystem effect then 100 else 0)) / 6"

definition innovationMarker :: "Effect \<Rightarrow> bool" where
  "innovationMarker effect =
     (let c = js_or (javascriptCode effect) (js_or (cssCode effect) [])
      in str_includes c ''innovative'' \<or> str_includes c ''revolutionary''
         \<or> str_includes c ''advanced'')"

definition competitiveAdvantage :: "Effect \<Rightarrow> bool" where
  "competitiveAdvantage effect =
     (renderTime effect < 10 \<and> targetFps effect \<ge> 60 \<and> memoryUsage effect < 200)"

definition DominationConcurrentielle_score :: "Effect \<Rightarrow> real" where
  "DominationConcurrentielle_score effect =
     0 + (otherArticlesAvg effect / 100) * 40
       + (if innovationMarker effect then 30 else 0)
       + (if competitiveAdvantage effect then 30 else 0)"

definition validateDominationConcurrentielle :: "Effect \<Rightarrow> ArticleResult" where
  "validateDominationConcurrentielle effect =
     \<lparr>score = Math_round (DominationConcurrentielle_score effect),
      compliant = (DominationConcurrentielle_score effect \<ge> 95),
      recommendations = some_if_any
        ((if innovationMarker effect then []
          else [''Add innovative and revolutionary features''])
         @ (if competitiveAdvantage effect then []
            else [''Achieve superior performance metrics vs competition'']))\<rparr>"

subsection \<open>The report\<close>

definition validateCompliance :: "Effect \<Rightarrow> ConstitutionCompliance" where
  "validateCompliance effect =
     (let perfResult = validatePerformanceAbsolue effect;
          totalWeightedScore = 0 + real_of_int (score perfResult) * (weight (articles ! 0) / 100);
          intResult = validateIntelligenceAdaptative effect;
          totalWeightedScore =
            totalWeightedScore + real_of_int (score intResult) * (weight (articles ! 1) / 100);
          univResult = validatePolyvalenceUniverselle effect;
          totalWeightedScore =
            totalWeightedScore + real_of_int (score univResult) * (weight (articles ! 2) / 100);
          expResult = validateExperienceParfaite effect;
          totalWeightedScore =
            totalWeightedScore + real_of_int (score expResult) * (weight (articles ! 3) / 100);
          visResult = validateImpactVisuel effect;
          totalWeightedScore =
            totalWeightedScore + real_of_int (score visResult) * (weight (articles ! 4) / 100);
          ecoResult = validateEcosystemeAddictif effect;
          totalWeightedScore =
            totalWeightedScore + real_of_int (score ecoResult) * (weight (articles ! 5) / 100);
          domResult = validateDominationConcurrentielle effect;
          totalWeightedScore =
            totalWeightedScore + real_of_int (score domResult) * (weight (articles ! 6) / 100)
      in \<lparr>totalScore = Math_round totalWeightedScore,
          cc_performanceCompliant = compliant perfResult,
          cc_intelligenceAdaptive = compliant intResult,
          cc_universalCompatible = compliant univResult,
          cc_perfectExperience = compliant expResult,
          cc_visualImpact = compliant visResult,
          cc_addictiveEcosystem = compliant ecoResult,
          cc_competitiveDomination = compliant domResult,
          details =
            [(name_PerformanceAbsolue, perfResult),
             (name_IntelligenceAdaptative, intResult),
             (name_PolyvalenceUniverselle, univResult),
             (name_ExperienceParfaite, expResult),
             (name_ImpactVisuel, visResult),
             (name_EcosystemeAddictif, ecoResult),
             (name_DominationConcurrentielle, domResult)]\<rparr>)"

subsection \<open>Enforcement\<close>

definition adaptiveCode :: string where
  \<open>adaptiveCode =
     ''\<newline>'' @
     ''  // Constitutional Article II: Intelligence Adaptative\<newline>'' @
     ''  autoCalibrate() {\<newline>'' @
     ''    const deviceCapacity = this.detectDeviceCapacity();\<newline>'' @
     ''    this.adjustParametersForDevice(deviceCapacity);\<newline>'' @
     ''  }\<newline>'' @
     ''  \<newline>'' @
     ''  detectDeviceCapacity() {\<newline>'' @
     ''    const canvas = document.createElement('canvas');\<newline>'' @
     ''    const gl = canvas.getContext('webgl');\<newline>'' @
     ''    const isMobile = /Mobile|Android|iPhone|iPad/.test(navigator.userAgent);\<newline>'' @
     ''    \<newline>'' @
     ''    if (isMobile) return 'low';\<newline>'' @
     ''    return gl ? 'high' : 'medium';\<newline>'' @
     ''  }\<newline>'' @
     ''  \<newline>'' @
     ''  adjustParametersForDevice(capacity) {\<newline>'' @
     ''    switch(capacity) {\<newline>'' @
     ''      case 'low':\<newline>'' @
     ''        this.options.particleCount = Math.min(this.options.particleCount || 100, 30);\<newline>'' @
     ''        break;\<newline>'' @
     ''      case 'medium':\<newline>'' @
     ''        this.options.particleCount = Math.min(this.options.particleCount || 100, 60);\<newline>'' @
     ''        break;\<newline>'' @
     ''      case 'high':\<newline>'' @
     ''        this.options.particleCount = this.options.particleCount || 100;\<newline>'' @
     ''        break;\<newline>'' @
     ''    }\<newline>'' @
     ''  }''\<close>

definition perfCode :: string where
  \<open>perfCode =
     ''\<newline>'' @
     ''  // Constitutional Article I: Performance Absolue\<newline>'' @
     ''  setupPerformanceMonitoring() {\<newline>'' @
     ''    this.frameTime = 1000 / 60; // 60fps target\<newline>'' @
     ''    this.performanceHistory = [];\<newline>'' @
     ''  }\<newline>'' @
     ''  \<newline>'' @
     ''  optimizeForNextFrame() {\<newline>'' @
     ''    const avgFrameTime = this.performanceHistory.reduce((a, b) => a + b, 0) / this.performanceHistory.length;\<newline>'' @
     ''    \<newline>'' @
     ''    if (avgFrameTime > this.frameTime) {\<newline>'' @
     ''      // Reduce particle count by 10%\<newline>'' @
     ''      const reduceCount = Math.floor(this.particles.length * 0.1);\<newline>'' @
     ''      this.particles.splice(-reduceCount);\<newline>'' @
     ''    }\<newline>'' @
     ''  }''\<close>

definition compatCode :: string where
  \<open>compatCode =
     ''\<newline>'' @
     ''  // Constitutional Article III: Polyvalence Universelle\<newline>'' @
     ''  setupCrossBrowserCompat() {\<newline>'' @
     ''    // Polyfills for older browsers\<newline>'' @
     ''    if (!window.requestAnimationFrame) {\<newline>'' @
     ''      window.requestAnimationFrame = (callback) => setTimeout(callback, 16);\<newline>'' @
     ''    }\<newline>'' @
     ''    \<newline>'' @
     ''    // Feature detection and fallbacks\<newline>'' @
     ''    this.hasWebGL = !!this.canvas.getContext('webgl');\<newline>'' @
     ''    this.hasWorkers = typeof Worker !== 'undefined';\<newline>'' @
     ''  }\<newline>'' @
     ''  \<newline>'' @
     ''  detectPlatform() {\<newline>'' @
     ''    this.platform = {\<newline>'' @
     ''      isMobile: /Mobile|Android|iPhone|iPad/.test(navigator.userAgent),\<newline>'' @
     ''      isTablet: /iPad|Android(?!.*Mobile)/.test(navigator.userAgent),\<newline>'' @
     ''      isDesktop: !/Mobile|Android|iPhone|iPad/.test(navigator.userAgent)\<newline>'' @
     ''    };\<newline>'' @
     ''  }''\<close>

definition experienceCode :: string where
  \<open>experienceCode =
     ''\<newline>'' @
     ''  // Constitutional Article IV: Exp'' @ [CHR 0xC3, CHR 0xA9] @ ''rience Parfaite\<newline>'' @
     ''  enableOneClickOperation() {\<newline>'' @
     ''    return new Promise((resolve) => {\<newline>'' @
     ''      this.start();\<newline>'' @
     ''      resolve(this);\<newline>'' @
     ''    });\<newline>'' @
     ''  }\<newline>'' @
     ''  \<newline>'' @
     ''  livePreview() {\<newline>'' @
     ''    return this.canvas;\<newline>'' @
     ''  }\<newline>'' @
     ''  \<newline>'' @
     ''  setupUserInteraction() {\<newline>'' @
     ''    this.canvas.addEventListener('mousemove', (e) => {\<newline>'' @
     ''      const rect = this.canvas.getBoundingClientRect();\<newline>'' @
     ''      this.mouseX = e.clientX - rect.left;\<newline>'' @
     ''      this.mouseY = e.clientY - rect.top;\<newline>'' @
     ''    });\<newline>'' @
     ''  }''\<close>

definition visualCode :: string where
  \<open>visualCode =
     ''\<newline>'' @
     ''  // Constitutional Article V: Impact Visuel\<newline>'' @
     ''  enhanceVisualImpact() {\<newline>'' @
     ''    this.ctx.shadowBlur = 15;\<newline>'' @
     ''    this.ctx.shadowColor = 'rgba(0, 212, 255, 0.6)';\<newline>'' @
     ''  }\<newline>'' @
     ''  \<newline>'' @
     ''  addAdvancedPhysics() {\<newline>'' @
     ''    this.gravity = 0.1;\<newline>'' @
     ''    this.friction = 0.99;\<newline>'' @
     ''    this.bounce = 0.8;\<newline>'' @
     ''  }\<newline>'' @
     ''  \<newline>'' @
     ''  createWowFactor() {\<newline>'' @
     ''    // Add spectacular visual effects\<newline>'' @
     ''    this.glowEffect = true;\<newline>'' @
     ''    this.particleTrails = true;\<newline>'' @
     ''  }''\<close>

definition addictiveCode :: string where
  \<open>addictiveCode =
     ''\<newline>'' @
     ''  // Constitutional Article VI: '' @ [CHR 0xC3, CHR 0x89] @ ''cosyst'' @ [CHR 0xC3, CHR 0xA8] @ ''me Addictif\<newline>'' @
     ''  createEngagementLoop() {\<newline>'' @
     ''    setInterval(() => {\<newline>'' @
     ''      this.triggerSurpriseElement();\<newline>'' @
     ''    }, 5000 + Math.random() * 5000); // Random intervals for unpredictability\<newline>'' @
     ''  }\<newline>'' @
     ''  \<newline>'' @
     ''  triggerSurpriseElement() {\<newline>'' @
     ''    // Add unexpected visual elements\<newline>'' @
     ''    this.createBurstEffect();\<newline>'' @
     ''    this.changeColorPalette();\<newline>'' @
     ''  }\<newline>'' @
     ''  \<newline>'' @
     ''  addInteractivity() {\<newline>'' @
     ''    this.canvas.addEventListener('click', () => {\<newline>'' @
     ''      this.createClickEffect();\<newline>'' @
     ''    });\<newline>'' @
     ''  }''\<close>

definition addAdaptiveIntelligence :: "string \<Rightarrow> string" where
  "addAdaptiveIntelligence c =
     replaceFirst ''init() {'' ''init() {\<newline>    this.autoCalibrate();'' c @ adaptiveCode"

definition addPerformanceOptimizations :: "string \<Rightarrow> string" where
  "addPerformanceOptimizations c =
     replaceFirst ''init() {'' ''init() {\<newline>    this.setupPerformanceMonitoring();'' c @ perfCode"

definition addUniversalCompatibility :: "string \<Rightarrow> string" where
  "addUniversalCompatibility c =
     replaceFirst ''init() {''
       ''init() {\<newline>    this.setupCrossBrowserCompat();\<newline>    this.detectPlatform();'' c
     @ compatCode"

definition addPerfectExperience :: "string \<Rightarrow> string" where
  "addPerfectExperience c =
     replaceFirst ''init() {'' ''init() {\<newline>    this.setupUserInteraction();'' c @ experienceCode"

definition addVisualImpact :: "string \<Rightarrow> string" where
  "addVisualImpact c =
     replaceFirst ''init() {''
       (''init() {\<newline>    this.enhanceVisualImpact();\<newline>    this.addAdvancedPhysics();''
        @ ''\<newline>    this.createWowFactor();'') c
     @ visualCode"

definition addAddictiveFeatures :: "string \<Rightarrow> string" where
  "addAddictiveFeatures c =
     replaceFirst ''init() {''
       ''init() {\<newline>    this.createEngagementLoop();\<newline>    this.addInteractivity();'' c
     @ addictiveCode"

definition enhanceJavaScriptCode :: "string \<Rightarrow> ConstitutionCompliance \<Rightarrow> string" where
  "enhanceJavaScriptCode c compliance =
     (let enhanced = c;
          enhanced = (if \<not> cc_intelligenceAdaptive compliance
                      then addAdaptiveIntelligence enhanced else enhanced);
          enhanced = (if \<not> cc_performanceCompliant compliance
                      then addPerformanceOptimizations enhanced else enhanced);
          enhanced = (if \<not> cc_universalCompatible compliance
                      then addUniversalCompatibility enhanced else enhanced);
          enhanced = (if \<not> cc_perfectExperience compliance
                      then addPerfectExperience enhanced else enhanced);
          enhanced = (if \<not> cc_visualImpact compliance
                      then addVisualImpact enhanced else enhanced);
          enhanced = (if \<not> cc_addictiveEcosystem compliance
                      then addAddictiveFeatures enhanced else enhanced)
      in enhanced)"

definition cssPerformanceBlock :: string where
  \<open>cssPerformanceBlock =
     ''\<newline>'' @
     ''/* Constitutional Performance Enhancements */\<newline>'' @
     ''.effect {\<newline>'' @
     ''  will-change: transform, opacity;\<newline>'' @
     ''  transform: translate3d(0, 0, 0);\<newline>'' @
     ''  backface-visibility: hidden;\<newline>'' @
     ''}''\<close>

definition cssVisualBlock :: string where
  \<open>cssVisualBlock =
     ''\<newline>'' @
     ''/* Constitutional Visual Impact */\<newline>'' @
     ''.effect {\<newline>'' @
     ''  filter: drop-shadow(0 0 10px rgba(0, 212, 255, 0.5));\<newline>'' @
     ''  animation-timing-function: cubic-bezier(0.4, 0, 0.2, 1);\<newline>'' @
     ''}''\<close>

definition enhanceCSSCode :: "string \<Rightarrow> ConstitutionCompliance \<Rightarrow> string" where
  "enhanceCSSCode c compliance =
     (let enhanced = c;
          enhanced = (if \<not> cc_performanceCompliant compliance
                      then enhanced @ cssPerformanceBlock else enhanced);
          enhanced = (if \<not> cc_visualImpact compliance
                      then enhanced @ cssVisualBlock else enhanced)
      in enhanced)"

definition aePerformanceReplacement :: string where
  \<open>aePerformanceReplacement =
     ''var time = thisComp.time;\<newline>'' @
     ''// Constitutional Performance Optimization\<newline>'' @
     ''if (thisComp.frameRate < 60) {\<newline>'' @
     ''  time *= 0.8; // Slow down for performance\<newline>'' @
     ''}''\<close>

definition enhanceAfterEffectsCode :: "string \<Rightarrow> ConstitutionCompliance \<Rightarrow> string" where
  "enhanceAfterEffectsCode c compliance =
     (if \<not> cc_performanceCompliant compliance
      then replaceFirst ''var time = thisComp.time;'' aePerformanceReplacement c
      else c)"

text \<open>A code column is rewritten when it is truthy: not \<open>null\<close> and not empty.\<close>

definition enhance_if_truthy :: "(string \<Rightarrow> string) \<Rightarrow> string option \<Rightarrow> string option" where
  "enhance_if_truthy f a = (if truthy a then map_option f a else a)"

definition enforceConstitutionalCompliance :: "Effect \<Rightarrow> ConstitutionCompliance \<Rightarrow> Effect" where
  "enforceConstitutionalCompliance effect compliance =
     (let enforcedEffect = effect;
          enforcedEffect = enforcedEffect\<lparr>javascriptCode :=
            enhance_if_truthy (\<lambda>c. enhanceJavaScriptCode c compliance) (javascriptCode enforcedEffect)\<rparr>;
          enforcedEffect = enforcedEffect\<lparr>cssCode :=
            enhance_if_truthy (\<lambda>c. enhanceCSSCode c compliance) (cssCode enforcedEffect)\<rparr>;
          enforcedEffect = enforcedEffect\<lparr>afterEffectsCode :=
            enhance_if_truthy (\<lambda>c. enhanceAfterEffectsCode c compliance)
              (afterEffectsCode enforcedEffect)\<rparr>
      in if \<not> cc_performanceCompliant compliance
         then enforcedEffect\<lparr>renderTime := min (renderTime enforcedEffect) 15,
                             targetFps := max (targetFps enforcedEffect) 60,
                             memoryUsage := min (memoryUsage enforcedEffect) 256\<rparr>
         else enforcedEffect)"

definition validateAndEnforce :: "Effect \<Rightarrow> Effect" where
  "validateAndEnforce effect =
     (let compliance = validateCompliance effect;
          enforcedEffect = effect
            \<lparr>performanceCompliant := cc_performanceCompliant compliance,
             intelligenceAdaptive := cc_intelligenceAdaptive compliance,
             universalCompatible := cc_universalCompatible compliance,
             perfectExperience := cc_perfectExperience compliance,
             visualImpact := cc_visualImpact compliance,
             addictiveEcosystem := cc_addictiveEcosystem compliance,
             competitiveDomination := cc_competitiveDomination compliance,
             constitutionScore := totalScore compliance\<rparr>
      in if totalScore compliance < 90
         then enforceConstitutionalCompliance enforcedEffect compliance
         else enforcedEffect)"


section \<open>The in-memory storage (server/storage.ts)\<close>

text \<open>The effect the storage is initialised with.  Time stamps are not modelled.\<close>

definition sampleEffect :: "string \<Rightarrow> Effect" where
  "sampleEffect uuid =
     \<lparr>effect_id = uuid,
      effect_name = ''Plasma Explosion'',
      effect_description =
        ''A high-energy plasma explosion effect with constitutional compliance'',
      effect_category = ''particle'',
      effect_type = ''javascript'',
      tags = [''explosion'', ''plasma'', ''energy''],
      javascriptCode = Some ''class PlasmaExplosion { /* constitutional code */ }'',
      cssCode = None,
      afterEffectsCode = None,
      constitutionScore = 98,
      performanceCompliant = True,
      intelligenceAdaptive = True,
      universalCompatible = True,
      perfectExperience = True,
      visualImpact = True,
      addictiveEcosystem = True,
      competitiveDomination = True,
      renderTime = 12,
      memoryUsage = 256,
      targetFps = 60,
      generatedBy = ''AI'',
      generationPrompt = Some ''Create a spectacular plasma explosion effect''\<rparr>"

text \<open>
  A stored effect whose memory use is 390 MB and on which four of the first six flags
  are set.
\<close>

definition heavyEffect :: Effect where
  "heavyEffect = (sampleEffect ''effect-1'')
     \<lparr>memoryUsage := 390, visualImpact := False, addictiveEcosystem := False\<rparr>"

text \<open>The sample effect carrying the flags and the score of its own report.\<close>

definition scoredSample :: Effect where
  "scoredSample = (sampleEffect ''effect-1'')
     \<lparr>constitutionScore := 17, intelligenceAdaptive := False, universalCompatible := False,
      perfectExperience := False, visualImpact := False, addictiveEcosystem := False,
      competitiveDomination := False\<rparr>"

text \<open>
  A session record of the shared schema.  Columns the creating call leaves out stay
  \<open>None\<close>.  Time stamps are milliseconds.
\<close>

record AiSession =
  session_id :: string
  prompt :: string
  response :: "string option"
  effectId :: "string option"
  status :: string
  processingTime :: "int option"
  session_constitutionScore :: "int option"
  createdAt :: int
  completedAt :: "int option"

record InsertAiSession =
  ins_prompt :: string
  ins_response :: "string option"
  ins_effectId :: "string option"
  ins_status :: "string option"
  ins_processingTime :: "int option"
  ins_constitutionScore :: "int option"

text \<open>The partial record of an update: \<open>None\<close> is a key the update does not have.\<close>

record AiSessionUpdate =
  upd_response :: "string option"
  upd_effectId :: "string option"
  upd_status :: "string option"
  upd_processingTime :: "int option"
  upd_constitutionScore :: "int option"
  upd_completedAt :: "int option"

definition noUpdate :: AiSessionUpdate where
  "noUpdate = \<lparr>upd_response = None, upd_effectId = None, upd_status = None,
               upd_processingTime = None, upd_constitutionScore = None,
               upd_completedAt = None\<rparr>"

text \<open>The two maps of the storage that the generation route uses.\<close>

record MemStorage =
  effects :: "string \<rightharpoonup> Effect"
  aiSessions :: "string \<rightharpoonup> AiSession"

text \<open>
  \<open>randomUUID()\<close> draws from a supply of identifiers, \<open>uuids\<close>; the server state holds the
  number of identifiers drawn so far.
\<close>

record Server =
  storage :: MemStorage
  uuidCount :: nat

definition newServer :: "(nat \<Rightarrow> string) \<Rightarrow> Server" where
  "newServer uuids =
     \<lparr>storage = \<lparr>effects = [uuids 0 \<mapsto> sampleEffect (uuids 0)], aiSessions = Map.empty\<rparr>,
      uuidCount = 1\<rparr>"

definition createEffect :: "(nat \<Rightarrow> string) \<Rightarrow> Server \<Rightarrow> Effect \<Rightarrow> Effect \<times> Server" where
  "createEffect uuids srv insertEffect =
     (let new_id = uuids (uuidCount srv);
          effect = insertEffect\<lparr>effect_id := new_id\<rparr>
      in (effect,
          srv\<lparr>storage := (storage srv)\<lparr>effects := (effects (storage srv))(new_id \<mapsto> effect)\<rparr>,
              uuidCount := Suc (uuidCount srv)\<rparr>))"

definition createAiSession ::
  "(nat \<Rightarrow> string) \<Rightarrow> int \<Rightarrow> Server \<Rightarrow> InsertAiSession \<Rightarrow> AiSession \<times> Server" where
  "createAiSession uuids now srv insertSession =
     (let new_id = uuids (uuidCount srv);
          session = \<lparr>session_id = new_id,
                     prompt = ins_prompt insertSession,
                     response = ins_response insertSession,
                     effectId = ins_effectId insertSession,
                     status = js_or (ins_status insertSession) ''processing'',
                     processingTime = ins_processingTime insertSession,
                     session_constitutionScore = ins_constitutionScore insertSession,
                     createdAt = now,
                     completedAt = None\<rparr>
      in (session,
          srv\<lparr>storage := (storage srv)
                 \<lparr>aiSessions := (aiSessions (storage srv))(new_id \<mapsto> session)\<rparr>,
              uuidCount := Suc (uuidCount srv)\<rparr>))"

definition applyUpdate :: "AiSession \<Rightarrow> AiSessionUpdate \<Rightarrow> AiSession" where
  "applyUpdate existingSession updates =
     existingSession
       \<lparr>response := (case upd_response updates of None \<Rightarrow> response existingSession
                      | Some v \<Rightarrow> Some v),
        effectId := (case upd_effectId updates of None \<Rightarrow> effectId existingSession
                      | Some v \<Rightarrow> Some v),
        status := (case upd_status updates of None \<Rightarrow> status existingSession | Some v \<Rightarrow> v),
        processingTime := (case upd_processingTime updates of
                             None \<Rightarrow> processingTime existingSession | Some v \<Rightarrow> Some v),
        session_constitutionScore := (case upd_constitutionScore updates of
                             None \<Rightarrow> session_constitutionScore existingSession
                           | Some v \<Rightarrow> Some v),
        completedAt := (case upd_completedAt updates of None \<Rightarrow> completedAt existingSession
                        | Some v \<Rightarrow> Some v)\<rparr>"

definition updateAiSession ::
  "Server \<Rightarrow> string \<Rightarrow> AiSessionUpdate \<Rightarrow> js_error + AiSession \<times> Server" where
  "updateAiSession srv sid updates =
     (case aiSessions (storage srv) sid of
        None \<Rightarrow> Inl (Error ''AI Session not found'')
      | Some existingSession \<Rightarrow>
          (let updatedSession = applyUpdate existingSession updates
           in Inr (updatedSession,
                   srv\<lparr>storage := (storage srv)
                     \<lparr>aiSessions := (aiSessions (storage srv))(sid \<mapsto> updatedSession)\<rparr>\<rparr>)))"

section \<open>The generation route (server/routes.ts)\<close>

record EffectGenerationRequest =
  req_prompt :: string
  req_type :: string
  req_targetFps :: real
  req_maxMemory :: real
  req_enableConstitution :: bool

definition message :: "js_error \<Rightarrow> string" where
  "message err = (case err of Error m \<Rightarrow> m | TypeError m \<Rightarrow> m)"

text \<open>
  The \<open>catch\<close> block of \<open>generateEffectAsync\<close>: the session with the given identifier is set
  to \<open>error\<close>.  When the update itself throws, the promise of \<open>generateEffectAsync\<close> is
  rejected with that error, which the caller logs.
\<close>

definition generateEffectAsync_catch ::
  "int \<Rightarrow> int \<Rightarrow> Server \<Rightarrow> string \<Rightarrow> js_error \<Rightarrow> js_error option \<times> Server" where
  "generateEffectAsync_catch startTime now srv sessionId err =
     (case updateAiSession srv sessionId
             (noUpdate\<lparr>upd_status := Some ''error'',
                       upd_response := Some (message err),
                       upd_processingTime := Some (now - startTime)\<rparr>) of
        Inl err' \<Rightarrow> (Some err', srv)
      | Inr (_, srv') \<Rightarrow> (None, srv'))"

text \<open>
  The generator of the server, \<open>effectGenerator.generateEffect\<close>, is a parameter: it
  returns an effect or throws.  \<open>stringify\<close> is \<open>JSON.stringify\<close>; \<open>startTime\<close> and \<open>now\<close> are
  the two readings of the clock.
\<close>

definition generateEffectAsync ::
  "(nat \<Rightarrow> string) \<Rightarrow> (EffectGenerationRequest \<Rightarrow> js_error + Effect) \<Rightarrow> (Effect \<Rightarrow> string)
     \<Rightarrow> int \<Rightarrow> int \<Rightarrow> Server \<Rightarrow> string \<Rightarrow> EffectGenerationRequest \<Rightarrow> js_error option \<times> Server" where
  "generateEffectAsync uuids generateEffect stringify startTime now srv sessionId request =
     (case generateEffect request of
        Inl err \<Rightarrow> generateEffectAsync_catch startTime now srv sessionId err
      | Inr generated \<Rightarrow>
          (let effect =
                 (if req_enableConstitution request
                  then (let validatedEffect = validateAndEnforce generated
                        in generated
                             \<lparr>constitutionScore := constitutionScore validatedEffect,
                              performanceCompliant := performanceCompliant validatedEffect,
                              intelligenceAdaptive := intelligenceAdaptive validatedEffect,
                              universalCompatible := universalCompatible validatedEffect,
                              perfectExperience := perfectExperience validatedEffect,
                              visualImpact := visualImpact validatedEffect,
                              addictiveEcosystem := addictiveEcosystem validatedEffect,
                              competitiveDomination := competitiveDomination validatedEffect\<rparr>)
                  else generated);
               (savedEffect, srv1) = createEffect uuids srv effect
           in case updateAiSession srv1 sessionId
                     (noUpdate\<lparr>upd_response := Some (stringify savedEffect),
                               upd_effectId := Some (effect_id savedEffect),
                               upd_status := Some ''completed'',
                               upd_processingTime := Some (now - startTime),
                               upd_constitutionScore := Some (constitutionScore effect),
                               upd_completedAt := Some now\<rparr>) of
                Inl err \<Rightarrow> generateEffectAsync_catch startTime now srv1 sessionId err
              | Inr (_, srv2) \<Rightarrow> (None, srv2)))"

text \<open>
  The handler of \<open>POST /api/effects/generate\<close> for a request that passed validation: it
  draws \<open>sessionId\<close>, creates the session (the storage draws the identifier of the record),
  and starts \<open>generateEffectAsync\<close> with \<open>sessionId\<close>.  The result is the identifier sent to
  the client, the session record created, the rejection of the background work if any,
  and the state of the server when that work has ended.
\<close>

definition postGenerate ::
  "(nat \<Rightarrow> string) \<Rightarrow> (EffectGenerationRequest \<Rightarrow> js_error + Effect) \<Rightarrow> (Effect \<Rightarrow> string)
     \<Rightarrow> int \<Rightarrow> int \<Rightarrow> Server \<Rightarrow> EffectGenerationRequest
     \<Rightarrow> string \<times> AiSession \<times> js_error option \<times> Server" where
  "postGenerate uuids generateEffect stringify startTime now srv request =
     (let sessionId = uuids (uuidCount srv);
          srv0 = srv\<lparr>uuidCount := Suc (uuidCount srv)\<rparr>;
          (session, srv1) = createAiSession uuids startTime srv0
             \<lparr>ins_prompt = req_prompt request, ins_response = None, ins_effectId = None,
              ins_status = Some ''processing'', ins_processingTime = None,
              ins_constitutionScore = None\<rparr>;
          (rejection, srv2) =
             generateEffectAsync uuids generateEffect stringify startTime now srv1 sessionId request
      in (sessionId, session, rejection, srv2))"

text \<open>
  The identifiers in the storage were drawn from the supply, and the supply never repeats
  one.
\<close>

definition ids_drawn :: "(nat \<Rightarrow> string) \<Rightarrow> Server \<Rightarrow> bool" where
  "ids_drawn uuids srv =
     (inj uuids \<and> dom (aiSessions (storage srv)) \<subseteq> uuids ` {..<uuidCount srv})"

text \<open>A supply of distinct identifiers, and a request.\<close>

definition uuid_supply :: "nat \<Rightarrow> string" where
  "uuid_supply n = ''uuid-'' @ replicate n (CHR ''x'')"

definition burstRequest :: EffectGenerationRequest where
  "burstRequest = \<lparr>req_prompt = ''particle burst'', req_type = ''javascript'',
                    req_targetFps = 60, req_maxMemory = 512, req_enableConstitution = True\<rparr>"


section \<open>The constitution engine (client/src/lib/constitution-engine.ts)\<close>

text \<open>
  The engine works on the generated effect of the effect generator.  Its articles carry a
  validator and an enforcer each; they are given here by the article's number.  Names
  that the validator of the server also uses end in \<open>_engine\<close>.
\<close>

record ArticleCompliance =
  ac_compliant :: bool
  ac_score :: real

record ConstitutionCompliance_engine =
  ce_totalScore :: int
  ce_articles :: "(string \<times> ArticleCompliance) list"

definition article_names :: "string list" where
  "article_names =
    [name_PerformanceAbsolue, name_IntelligenceAdaptative, name_PolyvalenceUniverselle,
     name_ExperienceParfaite, name_ImpactVisuel, name_EcosystemeAddictif,
     name_DominationConcurrentielle]"

definition article_ids :: "nat list" where
  "article_ids = [1, 2, 3, 4, 5, 6, 7]"

definition validator :: "nat \<Rightarrow> GeneratedEffect \<Rightarrow> bool" where
  "validator i effect =
     (if i = 1 then fps (metadata effect) \<ge> 60 \<and> md_renderTime (metadata effect) < 200
      else if i = 2 then str_includes (code effect) ''autoCalibrate''
                         \<and> str_includes (code effect) ''adaptiveParameters''
      else if i = 3 then str_includes (code effect) ''detectPlatform''
                         \<and> str_includes (code effect) ''crossBrowser''
      else if i = 4 then str_includes (code effect) ''oneClick''
                         \<and> str_includes (code effect) ''livePreview''
      else if i = 5 then str_includes (code effect) ''wowFactor''
                         \<and> str_includes (code effect) ''advancedPhysics''
      else if i = 6 then str_includes (code effect) ''immersive''
                         \<and> energy (emotionalProfile (dna effect)) > 0.7
      else md_constitutionScore (metadata effect) \<ge> 95)"

definition calculatePartialScore :: "GeneratedEffect \<Rightarrow> nat \<Rightarrow> real" where
  "calculatePartialScore effect i =
     (if i = 1 then
        (let fpsScore = min 100 (js_mul (js_div (fps (metadata effect)) 60) 100);
             renderScore =
               min 100 (js_mul (js_div (js_sub 200 (md_renderTime (metadata effect))) 200) 100)
         in js_div (js_add fpsScore renderScore) 2)
      else if i = 2 then (if str_includes (code effect) ''autoCalibrate'' then 50 else 0)
      else if i = 3 then (if str_includes (code effect) ''detectPlatform'' then 50 else 0)
      else if i = 4 then (if str_includes (code effect) ''oneClick'' then 50 else 0)
      else if i = 5 then js_mul (elegance (emotionalProfile (dna effect))) 100
      else if i = 6 then js_mul (energy (emotionalProfile (dna effect))) 100
      else if i = 7 then md_constitutionScore (metadata effect)
      else 0)"

definition article_score :: "GeneratedEffect \<Rightarrow> nat \<Rightarrow> real" where
  "article_score effect i = (if validator i effect then 100 else calculatePartialScore effect i)"

definition validateCompliance_engine :: "GeneratedEffect \<Rightarrow> ConstitutionCompliance_engine" where
  "validateCompliance_engine effect =
     \<lparr>ce_totalScore =
        Math_round
          (js_div (foldl (\<lambda>totalScore i. js_add totalScore (article_score effect i)) 0 article_ids)
             (real (length article_ids))),
      ce_articles =
        map (\<lambda>(i, name). (name, \<lparr>ac_compliant = validator i effect,
                                   ac_score = article_score effect i\<rparr>))
          (zip article_ids article_names)\<rparr>"

subsection \<open>The enforcers\<close>

definition performanceMonitorSetup :: string where
  \<open>performanceMonitorSetup =
     ''this.performanceMonitor = new PerformanceMonitor();\<newline>'' @
     ''         this.targetFPS = 60;\<newline>'' @
     ''         this.frameTime = 16.67;\<newline>'' @
     ''         this.init();''\<close>

definition optimizeForNextFrameBlock :: string where
  \<open>optimizeForNextFrameBlock =
     ''\<newline>'' @
     ''      optimizeForNextFrame() {\<newline>'' @
     ''        if (this.particles && this.particles.length > 50) {\<newline>'' @
     ''          this.particles.splice(this.particles.length / 2);\<newline>'' @
     ''        }\<newline>'' @
     ''      }''\<close>

definition enforcePerformanceAbsolue :: "GeneratedEffect \<Rightarrow> GeneratedEffect" where
  "enforcePerformanceAbsolue effect =
     (let c = code effect;
          c = (if \<not> str_includes c ''performanceMonitor''
               then replaceFirst ''this.init();'' performanceMonitorSetup c else c);
          c = (if \<not> str_includes c ''optimizeForNextFrame''
               then c @ optimizeForNextFrameBlock else c)
      in effect\<lparr>code := c,
                metadata := (metadata effect)\<lparr>fps := max (fps (metadata effect)) 60\<rparr>\<rparr>)"

definition autoCalibrateBlock :: string where
  \<open>autoCalibrateBlock =
     ''\<newline>'' @
     ''      autoCalibrate() {\<newline>'' @
     ''        const deviceCapacity = this.detectDeviceCapacity();\<newline>'' @
     ''        this.adjustParametersForDevice(deviceCapacity);\<newline>'' @
     ''      }\<newline>'' @
     ''      \<newline>'' @
     ''      detectDeviceCapacity() {\<newline>'' @
     ''        const canvas = document.createElement('canvas');\<newline>'' @
     ''        const gl = canvas.getContext('webgl');\<newline>'' @
     ''        return gl ? 'high' : 'low';\<newline>'' @
     ''      }\<newline>'' @
     ''      \<newline>'' @
     ''      adjustParametersForDevice(capacity) {\<newline>'' @
     ''        if (capacity === 'low') {\<newline>'' @
     ''          this.options.particleCount = Math.min(this.options.particleCount, 50);\<newline>'' @
     ''        }\<newline>'' @
     ''      }''\<close>

definition enforceIntelligenceAdaptative :: "GeneratedEffect \<Rightarrow> GeneratedEffect" where
  "enforceIntelligenceAdaptative effect =
     effect\<lparr>code := (if \<not> str_includes (code effect) ''autoCalibrate''
                      then code effect @ autoCalibrateBlock else code effect)\<rparr>"

definition detectPlatformBlock :: string where
  \<open>detectPlatformBlock =
     ''\<newline>'' @
     ''      detectPlatform() {\<newline>'' @
     ''        this.platform = /Mobile|Android|iPhone|iPad/.test(navigator.userAgent) ? 'mobile' : 'desktop';\<newline>'' @
     ''        this.setupCrossBrowserCompat();\<newline>'' @
     ''      }\<newline>'' @
     ''      \<newline>'' @
     ''      setupCrossBrowserCompat() {\<newline>'' @
     ''        // Polyfills and compatibility fixes\<newline>'' @
     ''        if (!window.requestAnimationFrame) {\<newline>'' @
     ''          window.requestAnimationFrame = window.setTimeout;\<newline>'' @
     ''        }\<newline>'' @
     ''      }''\<close>

definition enforcePolyvalenceUniverselle :: "GeneratedEffect \<Rightarrow> GeneratedEffect" where
  "enforcePolyvalenceUniverselle effect =
     effect\<lparr>code := (if \<not> str_includes (code effect) ''detectPlatform''
                      then code effect @ detectPlatformBlock else code effect)\<rparr>"

definition oneClickBlock :: string where
  \<open>oneClickBlock =
     ''\<newline>'' @
     ''      oneClick() {\<newline>'' @
     ''        return new Promise((resolve) => {\<newline>'' @
     ''          this.start();\<newline>'' @
     ''          resolve(this);\<newline>'' @
     ''        });\<newline>'' @
     ''      }\<newline>'' @
     ''      \<newline>'' @
     ''      livePreview() {\<newline>'' @
     ''        return this.canvas;\<newline>'' @
     ''      }''\<close>

definition enforceExperienceParfaite :: "GeneratedEffect \<Rightarrow> GeneratedEffect" where
  "enforceExperienceParfaite effect =
     effect\<lparr>code := (if \<not> str_includes (code effect) ''oneClick''
                      then code effect @ oneClickBlock else code effect)\<rparr>"

definition wowFactorBlock :: string where
  \<open>wowFactorBlock =
     ''\<newline>'' @
     ''      wowFactor() {\<newline>'' @
     ''        this.addSpectacularEffects();\<newline>'' @
     ''        this.enableAdvancedPhysics();\<newline>'' @
     ''      }\<newline>'' @
     ''      \<newline>'' @
     ''      addSpectacularEffects() {\<newline>'' @
     ''        // Add glow, shadows, and advanced visual effects\<newline>'' @
     ''        this.ctx.shadowBlur = 20;\<newline>'' @
     ''        this.ctx.shadowColor = 'rgba(0, 212, 255, 0.8)';\<newline>'' @
     ''      }\<newline>'' @
     ''      \<newline>'' @
     ''      enableAdvancedPhysics() {\<newline>'' @
     ''        // Implement realistic physics simulation\<newline>'' @
     ''        this.gravity = 0.1;\<newline>'' @
     ''        this.friction = 0.99;\<newline>'' @
     ''      }''\<close>

definition enforceImpactVisuel :: "GeneratedEffect \<Rightarrow> GeneratedEffect" where
  "enforceImpactVisuel effect =
     effect\<lparr>code := (if \<not> str_includes (code effect) ''wowFactor''
                      then code effect @ wowFactorBlock else code effect)\<rparr>"

definition immersiveBlock :: string where
  \<open>immersiveBlock =
     ''\<newline>'' @
     ''      immersive() {\<newline>'' @
     ''        this.addInteractivity();\<newline>'' @
     ''        this.createEngagementLoop();\<newline>'' @
     ''      }\<newline>'' @
     ''      \<newline>'' @
     ''      addInteractivity() {\<newline>'' @
     ''        this.canvas.addEventListener('mousemove', (e) => {\<newline>'' @
     ''          this.handleMouseInteraction(e);\<newline>'' @
     ''        });\<newline>'' @
     ''      }\<newline>'' @
     ''      \<newline>'' @
     ''      createEngagementLoop() {\<newline>'' @
     ''        setInterval(() => {\<newline>'' @
     ''          this.triggerSurpriseElement();\<newline>'' @
     ''        }, 5000);\<newline>'' @
     ''      }''\<close>

definition enforceEcosystemeAddictif :: "GeneratedEffect \<Rightarrow> GeneratedEffect" where
  "enforceEcosystemeAddictif effect =
     effect\<lparr>code := (if \<not> str_includes (code effect) ''immersive''
                      then code effect @ immersiveBlock else code effect)\<rparr>"

definition competitiveAdvantageBlock :: string where
  \<open>competitiveAdvantageBlock =
     ''\<newline>'' @
     ''    // Competitive Advantage Features\<newline>'' @
     ''    enableUltraHighPerformance() {\<newline>'' @
     ''      this.optimizationLevel = 'maximum';\<newline>'' @
     ''      this.enableGPUAcceleration();\<newline>'' @
     ''    }\<newline>'' @
     ''    \<newline>'' @
     ''    enableGPUAcceleration() {\<newline>'' @
     ''      if (this.ctx.canvas.getContext('webgl')) {\<newline>'' @
     ''        this.useWebGLRendering = true;\<newline>'' @
     ''      }\<newline>'' @
     ''    }''\<close>

text \<open>The enforcer of article 7 appends its block without looking at the code.\<close>

definition enforceDominationConcurrentielle :: "GeneratedEffect \<Rightarrow> GeneratedEffect" where
  "enforceDominationConcurrentielle effect =
     effect\<lparr>code := code effect @ competitiveAdvantageBlock,
            metadata := (metadata effect)
              \<lparr>md_constitutionScore := max (md_constitutionScore (metadata effect)) 95\<rparr>\<rparr>"

definition enforcer :: "nat \<Rightarrow> GeneratedEffect \<Rightarrow> GeneratedEffect" where
  "enforcer i effect =
     (if i = 1 then enforcePerformanceAbsolue effect
      else if i = 2 then enforceIntelligenceAdaptative effect
      else if i = 3 then enforcePolyvalenceUniverselle effect
      else if i = 4 then enforceExperienceParfaite effect
      else if i = 5 then enforceImpactVisuel effect
      else if i = 6 then enforceEcosystemeAddictif effect
      else enforceDominationConcurrentielle effect)"

text \<open>
  One pass over the articles, in their order: an article whose validator fails on the
  effect as it stands has its enforcer applied.
\<close>

definition applyArticles :: "GeneratedEffect \<Rightarrow> GeneratedEffect" where
  "applyArticles effect =
     foldl (\<lambda>enforcedEffect i.
              if \<not> validator i enforcedEffect then enforcer i enforcedEffect
              else enforcedEffect)
       effect article_ids"

text \<open>
  The report is computed on the enforced effect and its total is then written into the
  metadata of that effect.
\<close>

definition enforceCompliance :: "GeneratedEffect \<Rightarrow> GeneratedEffect" where
  "enforceCompliance effect =
     (let enforcedEffect = applyArticles effect;
          compliance = validateCompliance_engine enforcedEffect
      in enforcedEffect\<lparr>metadata := (metadata enforcedEffect)
           \<lparr>md_constitutionScore := of_int (ce_totalScore compliance)\<rparr>\<rparr>)"

text \<open>A small generated effect: a class whose constructor calls \<open>init\<close>.\<close>

definition burstCode :: string where
  "burstCode = ''class Burst { constructor() { this.init(); } }''"

definition burstEffect :: GeneratedEffect where
  "burstEffect =
     \<lparr>ge_id = ''effect_k3j9x2m1q'',
      ge_name = ''particle Effect'',
      ge_description = ''particle burst'',
      code = burstCode,
      metadata = \<lparr>md_renderTime = 5, md_memoryUsage = 74, fps = 60, md_constitutionScore = 0\<rparr>,
      dna = \<lparr>primaryConcepts = [''particle''],
             emotionalProfile = \<lparr>energy = 0.5, complexity = 0, elegance = 0.5\<rparr>,
             technicalRequirements =
               \<lparr>performance = 45, memory = 384, compatibility = [''web'', ''mobile'', ''desktop'']\<rparr>,
             confidenceScore = 0.6, constitutionCompliance = False\<rparr>\<rparr>"

text \<open>The code of that effect after one enforcement pass.\<close>

definition burstCode1 :: string where
  "burstCode1 = burstCode @ autoCalibrateBlock @ detectPlatformBlock @ oneClickBlock
               @ wowFactorBlock @ immersiveBlock @ competitiveAdvantageBlock"

text \<open>
  The same effect with a DNA of no energy and an elegance of 3/16, last scored with 88.
\<close>

definition calmEffect :: GeneratedEffect where
  "calmEffect = burstEffect
     \<lparr>metadata := (metadata burstEffect)\<lparr>md_constitutionScore := 88\<rparr>,
      dna := (dna burstEffect)
        \<lparr>emotionalProfile := \<lparr>energy = 0, complexity = 0, elegance = 3 / 16\<rparr>\<rparr>\<rparr>"

text \<open>
  The same effect with the energy \<open>7 / 120\<close> and the elegance \<open>80 / 120\<close>, as JavaScript
  computes these quotients.
\<close>

definition thirdsEffect :: GeneratedEffect where
  "thirdsEffect = burstEffect
     \<lparr>dna := (dna burstEffect)
        \<lparr>emotionalProfile :=
           \<lparr>energy = js_div 7 120, complexity = 0, elegance = js_div 80 120\<rparr>\<rparr>\<rparr>"

text \<open>The numbers of an effect that the engine computes with are doubles of moderate size.\<close>

definition double_numbers :: "GeneratedEffect \<Rightarrow> bool" where
  "double_numbers effect \<longleftrightarrow>
     is_double (fps (metadata effect)) \<and> is_double (md_renderTime (metadata effect))
     \<and> is_double (md_constitutionScore (metadata effect))
     \<and> is_double (energy (emotionalProfile (dna effect)))
     \<and> is_double (elegance (emotionalProfile (dna effect)))"
section \<open>Properties of the arithmetic on doubles\<close>

text \<open>
  The exponent is that of the binade of \<open>x\<close>.  The rounding \<open>fl x\<close> is a multiple of the
  spacing \<open>2 ^ (e - 52)\<close> of the doubles of that binade with a significand of at most 53
  bits, it is at most half a spacing away from \<open>x\<close>, and it is \<open>x\<close> when \<open>x\<close> is such a
  multiple itself.
\<close>

lemma binary_exponent_bounds:
  assumes "0 < x"
  shows "2 powi binary_exponent x \<le> x \<and> x < 2 powi (binary_exponent x + 1)"
proof (cases "1 \<le> x")
  case True
  define n where "n = nat \<lfloor>x\<rfloor>"
  have n: "0 < n" "real n \<le> x" "x < real n + 1"
    using True by (auto simp: n_def)
  then have "0 < floorlog 2 n"
    by (simp add: floorlog_def)
  then obtain k where k: "floorlog 2 n = Suc k"
    by (cases "floorlog 2 n") auto
  from floorlog_bounds [of n 2] n(1)
  have b: "2 ^ k \<le> n" "n + 1 \<le> 2 ^ Suc k"
    by (auto simp: k)
  have e: "binary_exponent x = int k" "int k + 1 = int (Suc k)"
    using True by (simp_all add: binary_exponent_def n_def [symmetric] k)
  have "(2::real) ^ k \<le> real n"
    using of_nat_mono [OF b(1), where 'a = real] by simp
  with n(2) have lo: "2 ^ k \<le> x"
    by linarith
  have "real n + 1 \<le> (2::real) ^ Suc k"
    using of_nat_mono [OF b(2), where 'a = real] by simp
  with n(3) have hi: "x < 2 ^ Suc k"
    by linarith
  show ?thesis
    unfolding e power_int_of_nat using lo hi by blast
next
  case False
  define z where "z = 1 / x"
  define m where "m = nat (\<lceil>z\<rceil> - 1)"
  have z: "1 < z" "x = 1 / z" "0 < z"
    using False assms by (auto simp: z_def)
  have m: "0 < m" "real m < z" "z \<le> real m + 1"
    using z(1) by (auto simp: m_def) linarith+
  then have "0 < floorlog 2 m"
    by (simp add: floorlog_def)
  then obtain k where k: "floorlog 2 m = Suc k"
    by (cases "floorlog 2 m") auto
  from floorlog_bounds [of m 2] m(1)
  have b: "2 ^ k \<le> m" "m + 1 \<le> 2 ^ Suc k"
    by (auto simp: k)
  have e: "binary_exponent x = - int (Suc k)" "- int (Suc k) + 1 = - int k"
    using False by (simp_all add: binary_exponent_def z_def [symmetric] m_def [symmetric] k)
  have "real m + 1 \<le> (2::real) ^ Suc k"
    using of_nat_mono [OF b(2), where 'a = real] by simp
  with m(3) have "z \<le> 2 ^ Suc k"
    by linarith
  then have lo: "inverse (2 ^ Suc k) \<le> x"
    unfolding z(2) using z(3) by (simp add: field_simps)
  have "(2::real) ^ k \<le> real m"
    using of_nat_mono [OF b(1), where 'a = real] by simp
  then have "2 ^ k < z"
    using m(2) by linarith
  then have hi: "x < inverse (2 ^ k)"
    unfolding z(2) using z(3) by (simp add: field_simps)
  show ?thesis
    unfolding e power_int_minus power_int_of_nat using lo hi by blast
qed

lemma round_even_nearest: "\<bar>real_of_int (round_even y) - y\<bar> \<le> 1 / 2"
  by (auto simp: round_even_def Let_def)

lemma fl_error:
  assumes "x \<noteq> 0"
  shows "\<bar>fl x - x\<bar> \<le> 2 powi (max (binary_exponent \<bar>x\<bar>) (- 1022) - 53)"
proof -
  define e where "e = max (binary_exponent \<bar>x\<bar>) (- 1022)"
  define q :: real where "q = 2 powi (e - 52)"
  have q: "0 < q"
    by (simp add: q_def)
  have f: "fl x = of_int (round_even (x / q)) * q"
    using assms by (simp add: fl_def Let_def e_def q_def)
  have "fl x - x = (of_int (round_even (x / q)) - x / q) * q"
    using q by (simp add: f field_simps)
  then have "\<bar>fl x - x\<bar> = \<bar>of_int (round_even (x / q)) - x / q\<bar> * q"
    using q by (simp add: abs_mult)
  also have "\<dots> \<le> 1 / 2 * q"
    using round_even_nearest [of "x / q"] q by (intro mult_right_mono) simp_all
  also have "1 / 2 * q = 2 powi (e - 53)"
    by (simp add: q_def power_int_diff)
  finally show ?thesis
    by (simp add: e_def)
qed

lemma fl_significand:
  assumes "x \<noteq> 0"
  shows "\<exists>m. fl x = of_int m * 2 powi (max (binary_exponent \<bar>x\<bar>) (- 1022) - 52)
             \<and> \<bar>m\<bar> \<le> 2 ^ 53"
proof -
  define e where "e = max (binary_exponent \<bar>x\<bar>) (- 1022)"
  define q :: real where "q = 2 powi (e - 52)"
  define m where "m = round_even (x / q)"
  define B :: int where "B = 2 ^ 53"
  have B: "real_of_int B = 2 powi int 53"
    unfolding B_def power_int_of_nat by simp
  have q: "0 < q"
    by (simp add: q_def)
  have f: "fl x = of_int m * q"
    using assms by (simp add: fl_def Let_def e_def q_def m_def)
  have "\<bar>x\<bar> < 2 powi (binary_exponent \<bar>x\<bar> + 1)"
    using binary_exponent_bounds [of "\<bar>x\<bar>"] assms by simp
  also have "\<dots> \<le> 2 powi (e + 1)"
    by (rule power_int_increasing) (simp_all add: e_def)
  also have "e + 1 = int 53 + (e - 52)"
    by simp
  also have "(2::real) powi (int 53 + (e - 52)) = 2 powi int 53 * 2 powi (e - 52)"
    by (rule power_int_add) simp
  finally have "\<bar>x\<bar> < real_of_int B * q"
    by (simp only: B q_def)
  then have "\<bar>x / q\<bar> < real_of_int B"
    using q by (simp add: field_simps)
  with round_even_nearest [of "x / q"] have "\<bar>real_of_int m\<bar> < real_of_int B + 1"
    unfolding m_def by linarith
  then have "real_of_int \<bar>m\<bar> < real_of_int (B + 1)"
    by simp
  then have "\<bar>m\<bar> < B + 1"
    by (simp only: of_int_less_iff)
  then have "\<bar>m\<bar> \<le> 2 ^ 53"
    by (simp add: B_def)
  with f show ?thesis
    unfolding q_def e_def by blast
qed

lemma round_even_of_int: "round_even (of_int n) = n"
  by (simp add: round_even_def)

lemma fl_exact:
  assumes "x / 2 powi (max (binary_exponent \<bar>x\<bar>) (- 1022) - 52) = of_int n"
  shows "fl x = x"
proof (cases "x = 0")
  case True
  then show ?thesis
    by (simp add: fl_def)
next
  case False
  define q :: real where "q = 2 powi (max (binary_exponent \<bar>x\<bar>) (- 1022) - 52)"
  have q: "0 < q"
    by (simp add: q_def)
  from assms have "x / q = of_int n"
    by (simp add: q_def)
  then have "fl x = x / q * q"
    using False by (simp add: fl_def Let_def q_def [symmetric] round_even_of_int)
  then show ?thesis
    using q by simp
qed

section \<open>Properties of the AI engine service\<close>

lemma calculateWordScore_range:
  "0 \<le> calculateWordScore tokens words \<and> calculateWordScore tokens words \<le> 1"
proof -
  have "length (filter (\<lambda>token. token \<in> set words) tokens) \<le> length tokens"
    by (rule length_filter_le)
  then have "length (filter (\<lambda>token. token \<in> set words) tokens) \<le> max (length tokens) 1"
    by linarith
  then have "real (length (filter (\<lambda>token. token \<in> set words) tokens))
      \<le> real (max (length tokens) 1)"
    by (simp only: of_nat_le_iff)
  moreover have "0 < real (max (length tokens) 1)"
    by simp
  ultimately show ?thesis
    unfolding calculateWordScore_def by (simp add: divide_le_eq_1)
qed

lemma calculateWordScore_Nil: "calculateWordScore [] words = 0"
  by (simp add: calculateWordScore_def)

lemma calculateConfidence_range:
  "0 \<le> calculateConfidence vocab tokens concepts \<and> calculateConfidence vocab tokens concepts \<le> 1"
proof -
  have "0 \<le> real (length (filter (\<lambda>token. token \<in> set vocab) tokens)) / real (max (length tokens) 1)"
    by simp
  moreover have "0 \<le> real (length concepts) / 5"
    by simp
  ultimately show ?thesis
    unfolding calculateConfidence_def Let_def by simp
qed

lemma tokenizeContent_empty: "tokenizeContent [] = []"
  by (simp add: tokenizeContent_def toLowerCase_def)

lemma extractConcepts_Nil: "extractConcepts vocab [] = []"
  by (simp add: extractConcepts_def)

lemma engine_ok_new: "engine_ok newAIEngineService"
  by (simp add: engine_ok_def newAIEngineService_def)

lemma engine_ok_initialize: "engine_ok eng \<Longrightarrow> engine_ok (initialize eng)"
  by (cases "isInitialized eng") (auto simp: engine_ok_def initialize_def)

lemma engine_ok_shutdown: "engine_ok (shutdown eng)"
  by (simp add: engine_ok_def shutdown_def)

lemma initialize_ready:
  "engine_ok eng \<Longrightarrow> isInitialized (initialize eng) \<and> neuralModel (initialize eng) \<noteq> None"
  by (cases "isInitialized eng") (auto simp: engine_ok_def initialize_def)

text \<open>
  Claim C7.  On an initialized engine the analysis of any text returns a DNA whose energy,
  complexity and elegance lie in [0,1] and whose confidence score lies in [0,1]; for the
  empty text the concept list is empty and the three profile values and the confidence
  score are 0.
\<close>

theorem analyzeContent_ranges:
  assumes "engine_ok eng"
  shows "(\<exists>dna. analyzeContent msg (initialize eng) content = Inr dna
           \<and> 0 \<le> energy (emotionalProfile dna) \<and> energy (emotionalProfile dna) \<le> 1
           \<and> 0 \<le> complexity (emotionalProfile dna) \<and> complexity (emotionalProfile dna) \<le> 1
           \<and> 0 \<le> elegance (emotionalProfile dna) \<and> elegance (emotionalProfile dna) \<le> 1
           \<and> 0 \<le> confidenceScore dna \<and> confidenceScore dna \<le> 1)
       \<and> (\<exists>dna. analyzeContent msg (initialize eng) [] = Inr dna
           \<and> primaryConcepts dna = []
           \<and> energy (emotionalProfile dna) = 0
           \<and> complexity (emotionalProfile dna) = 0
           \<and> elegance (emotionalProfile dna) = 0
           \<and> confidenceScore dna = 0)"
proof -
  from assms have ready: "isInitialized (initialize eng)" "neuralModel (initialize eng) \<noteq> None"
    using initialize_ready by blast+
  have "\<exists>dna. analyzeContent msg (initialize eng) content = Inr dna
           \<and> 0 \<le> energy (emotionalProfile dna) \<and> energy (emotionalProfile dna) \<le> 1
           \<and> 0 \<le> complexity (emotionalProfile dna) \<and> complexity (emotionalProfile dna) \<le> 1
           \<and> 0 \<le> elegance (emotionalProfile dna) \<and> elegance (emotionalProfile dna) \<le> 1
           \<and> 0 \<le> confidenceScore dna \<and> confidenceScore dna \<le> 1"
    using ready calculateWordScore_range calculateConfidence_range
    by (simp add: analyzeContent_def Let_def analyzeEmotionalProfile_def)
  moreover have "\<exists>dna. analyzeContent msg (initialize eng) [] = Inr dna
           \<and> primaryConcepts dna = []
           \<and> energy (emotionalProfile dna) = 0
           \<and> complexity (emotionalProfile dna) = 0
           \<and> elegance (emotionalProfile dna) = 0
           \<and> confidenceScore dna = 0"
    using ready
    by (simp add: analyzeContent_def Let_def analyzeEmotionalProfile_def tokenizeContent_empty
        extractConcepts_Nil calculateWordScore_Nil calculateConfidence_def)
  ultimately show ?thesis by blast
qed

theorem analyzeContent_ranges_witness:
  "engine_ok newAIEngineService
   \<and> (\<exists>dna. analyzeContent [] (initialize newAIEngineService)
              ''A fast explosive particle burst with smooth glowing trails'' = Inr dna
           \<and> 0 \<le> energy (emotionalProfile dna) \<and> energy (emotionalProfile dna) \<le> 1
           \<and> 0 \<le> complexity (emotionalProfile dna) \<and> complexity (emotionalProfile dna) \<le> 1
           \<and> 0 \<le> elegance (emotionalProfile dna) \<and> elegance (emotionalProfile dna) \<le> 1
           \<and> 0 \<le> confidenceScore dna \<and> confidenceScore dna \<le> 1)
   \<and> (\<exists>dna. analyzeContent [] (initialize newAIEngineService) [] = Inr dna
           \<and> primaryConcepts dna = []
           \<and> energy (emotionalProfile dna) = 0
           \<and> complexity (emotionalProfile dna) = 0
           \<and> elegance (emotionalProfile dna) = 0
           \<and> confidenceScore dna = 0)"
proof -
  have ok: "engine_ok newAIEngineService"
    by (simp add: engine_ok_def newAIEngineService_def)
  show ?thesis
    using ok analyzeContent_ranges [OF ok, of "[]"
        "''A fast explosive particle burst with smooth glowing trails''"]
    by blast
qed

text \<open>
  Claim C8.  The technical requirements of a token list are computed from the difference
  between the fraction of tokens in the heavy-word list and the fraction in the light-word
  list; the performance target is never below 30 and the memory estimate never below 64.
\<close>

theorem analyzeTechnicalRequirements_floor:
  "performance (analyzeTechnicalRequirements tokens) =
     max 30 (60 - (calculateWordScore tokens heavyWords - calculateWordScore tokens lightWords) * 30)
   \<and> memory (analyzeTechnicalRequirements tokens) =
     max 64 (256 + (calculateWordScore tokens heavyWords - calculateWordScore tokens lightWords) * 256)
   \<and> calculateWordScore tokens heavyWords =
     real (length (filter (\<lambda>token. token \<in> set heavyWords) tokens)) / real (max (length tokens) 1)
   \<and> calculateWordScore tokens lightWords =
     real (length (filter (\<lambda>token. token \<in> set lightWords) tokens)) / real (max (length tokens) 1)
   \<and> 30 \<le> performance (analyzeTechnicalRequirements tokens)
   \<and> 64 \<le> memory (analyzeTechnicalRequirements tokens)"
  by (simp add: analyzeTechnicalRequirements_def Let_def calculateWordScore_def)

text \<open>
  Claim C10.  On an engine whose initialized flag is not set, \<open>analyzeContent\<close>,
  \<open>generateEffectFromDNA\<close> and \<open>optimizeCode\<close> each throw the error
  \<open>AI Engine not initialized\<close>, whatever their input.
\<close>

theorem not_initialized_throws:
  assumes "\<not> isInitialized eng"
  shows "analyzeContent msg eng content = Inl (Error ''AI Engine not initialized'')
       \<and> generateEffectFromDNA toStr eng d type = Inl (Error ''AI Engine not initialized'')
       \<and> optimizeCode eng c target = Inl (Error ''AI Engine not initialized'')"
  using assms
  by (simp add: analyzeContent_def generateEffectFromDNA_def optimizeCode_def notInitialized_def)

theorem not_initialized_throws_witness:
  "\<not> isInitialized (shutdown (initialize newAIEngineService))
   \<and> analyzeContent [] (shutdown (initialize newAIEngineService)) ''glow''
       = Inl (Error ''AI Engine not initialized'')
   \<and> generateEffectFromDNA (\<lambda>x. []) (shutdown (initialize newAIEngineService))
        \<lparr>primaryConcepts = [],
         emotionalProfile = \<lparr>energy = 0, complexity = 0, elegance = 0\<rparr>,
         technicalRequirements = \<lparr>performance = 60, memory = 256, compatibility = []\<rparr>,
         confidenceScore = 0, constitutionCompliance = False\<rparr> ''css''
       = Inl (Error ''AI Engine not initialized'')
   \<and> optimizeCode (shutdown (initialize newAIEngineService)) ''let x = 1;'' ''memory''
       = Inl (Error ''AI Engine not initialized'')"
proof -
  have off: "\<not> isInitialized (shutdown (initialize newAIEngineService))"
    by (simp add: shutdown_def)
  show ?thesis
    using off not_initialized_throws [OF off]
    by blast
qed


section \<open>Properties of the effect generator\<close>

lemma prefix_append_avoid:
  "c \<notin> set l \<Longrightarrow> prefix l (s @ c # t) \<longleftrightarrow> prefix l s"
proof (induction s arbitrary: l)
  case Nil
  then show ?case by (cases l) auto
next
  case (Cons y s)
  then show ?case by (cases l) auto
qed

lemma dropWhile_append_avoid:
  assumes "\<not> P c"
  shows "dropWhile P (s @ c # t) = dropWhile P s @ c # t"
  using assms by (induction s) auto

lemma rx_match_append_avoid:
  assumes "rx_avoids c p"
  shows "rx_match p (s @ c # t) = map_option (\<lambda>r. r @ c # t) (rx_match p s)"
  using assms
proof (induction p s rule: rx_match.induct)
  case (1 s)
  then show ?case by simp
next
  case (2 l p s)
  show ?case
  proof (cases "prefix l s")
    case True
    then have len: "length l \<le> length s"
      by (simp add: prefix_length_le)
    from True 2 show ?thesis
      by (simp add: prefix_append_avoid len)
  next
    case False
    with 2 show ?thesis
      by (simp add: prefix_append_avoid)
  qed
next
  case (3 cls p s)
  then show ?case by (simp add: dropWhile_append_avoid)
next
  case (4 cls p s)
  then show ?case
    by (cases s) (auto simp: dropWhile_append_avoid)
qed

text \<open>The pattern starts with a literal whose first character occurs nowhere else in it.\<close>

lemma rx_match_append_head:
  assumes "rx_avoids c (Lit l # p)" and "s \<noteq> []"
  shows "rx_match (Lit (c # l) # p) (s @ c # t)
       = map_option (\<lambda>r. r @ c # t) (rx_match (Lit (c # l) # p) s)"
proof -
  from assms(2) obtain x xs where s: "s = x # xs" by (cases s) auto
  have "rx_match (Lit (c # l) # p) (x # u) = (if x = c then rx_match (Lit l # p) u else None)" for u
    by simp
  then show ?thesis
    using rx_match_append_avoid [OF assms(1), of xs t] s by simp
qed

lemma replaceAll_append_head:
  assumes "rx_avoids c (Lit l # p)"
  shows "replaceAll (Lit (c # l) # p) r (s @ c # t)
       = replaceAll (Lit (c # l) # p) r s @ replaceAll (Lit (c # l) # p) r (c # t)"
proof (induction "length s" arbitrary: s rule: less_induct)
  case less
  show ?case
  proof (cases s)
    case Nil
    then show ?thesis by simp
  next
    case (Cons x xs)
    have m: "rx_match (Lit (c # l) # p) ((x # xs) @ c # t)
        = map_option (\<lambda>r. r @ c # t) (rx_match (Lit (c # l) # p) (x # xs))"
      using rx_match_append_head [OF assms, of "x # xs" t] by simp
    show ?thesis
    proof (cases "rx_match (Lit (c # l) # p) (x # xs)")
      case None
      with m Cons less.hyps [of xs] show ?thesis by simp
    next
      case (Some rest)
      show ?thesis
      proof (cases "length rest < Suc (length xs)")
        case True
        with m Cons Some less.hyps [of rest] show ?thesis by simp
      next
        case False
        with m Cons Some less.hyps [of xs] show ?thesis by simp
      qed
    qed
  qed
qed


lemma dropWhile_all: "set xs \<subseteq> {c. P c} \<Longrightarrow> dropWhile P (xs @ ys) = dropWhile P ys"
  by (induction xs) auto

lemma dropWhile_stop: "ys = [] \<or> \<not> P (hd ys) \<Longrightarrow> dropWhile P ys = ys"
  by (cases ys) auto

lemma rx_match_particleCount:
  assumes "set ws1 \<subseteq> set ws_chars" and "set ws2 \<subseteq> set ws_chars"
    and "ds \<noteq> []" and "set ds \<subseteq> set digit_chars"
    and "post = [] \<or> hd post \<notin> set digit_chars"
  shows "rx_match particleCountRx (''particleCount'' @ ws1 @ ''='' @ ws2 @ ds @ post) = Some post"
proof -
  from assms(3) obtain d ds' where ds: "ds = d # ds'" by (cases ds) auto
  with assms(4) have d: "d \<in> set digit_chars" and ds': "set ds' \<subseteq> {c. c \<in> set digit_chars}"
    by auto
  have eqn: "CHR ''='' \<notin> set ws_chars"
    by (simp add: ws_chars_def)
  have dn: "d \<notin> set ws_chars"
    using d by (auto simp: ws_chars_def digit_chars_def)
  have w1: "dropWhile (\<lambda>c. c \<in> set ws_chars) (ws1 @ CHR ''='' # u) = CHR ''='' # u" for u
    using assms(1) eqn dropWhile_all [of ws1 "\<lambda>c. c \<in> set ws_chars" "CHR ''='' # u"] by auto
  have w2: "dropWhile (\<lambda>c. c \<in> set ws_chars) (ws2 @ d # u) = d # u" for u
    using assms(2) dn dropWhile_all [of ws2 "\<lambda>c. c \<in> set ws_chars" "d # u"] by auto
  have w3: "dropWhile (\<lambda>c. c \<in> set digit_chars) (ds' @ post) = post"
    using ds' assms(5) dropWhile_all [of ds' "\<lambda>c. c \<in> set digit_chars" post]
      dropWhile_stop [of post "\<lambda>c. c \<in> set digit_chars"] by simp
  show ?thesis
    using d by (simp add: particleCountRx_def ds w1 w2 w3)
qed

lemma replaceAll_particleCount:
  assumes "set ws1 \<subseteq> set ws_chars" and "set ws2 \<subseteq> set ws_chars"
    and "ds \<noteq> []" and "set ds \<subseteq> set digit_chars"
    and "post = [] \<or> hd post \<notin> set digit_chars"
  shows "replaceAll particleCountRx r (pre @ ''particleCount'' @ ws1 @ ''='' @ ws2 @ ds @ post)
       = replaceAll particleCountRx r pre @ r @ replaceAll particleCountRx r post"
proof -
  let ?tail = "''articleCount'' @ ws1 @ ''='' @ ws2 @ ds @ post"
  have rx: "particleCountRx = Lit (CHR ''p'' # ''articleCount'')
      # [Many ws_chars, Lit ''='', Many ws_chars, Many1 digit_chars]"
    by (simp add: particleCountRx_def)
  have av: "rx_avoids CHR ''p''
      (Lit ''articleCount'' # [Many ws_chars, Lit ''='', Many ws_chars, Many1 digit_chars])"
    by (simp add: ws_chars_def digit_chars_def)
  have split: "replaceAll particleCountRx r (pre @ CHR ''p'' # ?tail)
      = replaceAll particleCountRx r pre @ replaceAll particleCountRx r (CHR ''p'' # ?tail)"
    unfolding rx by (rule replaceAll_append_head [OF av])
  have m: "rx_match particleCountRx (CHR ''p'' # ?tail) = Some post"
    using rx_match_particleCount [OF assms] by simp
  have "replaceAll particleCountRx r (CHR ''p'' # ?tail)
      = (case rx_match particleCountRx (CHR ''p'' # ?tail) of
           None \<Rightarrow> CHR ''p'' # replaceAll particleCountRx r ?tail
         | Some rest \<Rightarrow>
             if length rest < Suc (length ?tail) then r @ replaceAll particleCountRx r rest
             else r @ CHR ''p'' # replaceAll particleCountRx r ?tail)"
    by (rule replaceAll.simps(2))
  also have "\<dots> = r @ replaceAll particleCountRx r post"
    by (simp only: m option.simps) simp
  finally have "replaceAll particleCountRx r (CHR ''p'' # ?tail)
      = r @ replaceAll particleCountRx r post" .
  with split show ?thesis by simp
qed

text \<open>
  Claim C9, as the code has it.  The pattern of the optimizer is the name \<open>particleCount\<close>,
  optional white space, the equals sign, optional white space and a run of decimal digits,
  as long as it goes.  Every such text in the code is rewritten to \<open>particleCount = 50\<close>
  for the platform \<open>mobile\<close> and to \<open>particleCount = 200\<close> for \<open>desktop\<close>, the text before
  and after it being rewritten in the same way; what follows the digits, such as the
  fraction or the exponent of a number, is text after the match.  For \<open>web\<close> and any other
  platform the code is unchanged.
\<close>

theorem optimizeForPlatform_particleCount:
  assumes "set ws1 \<subseteq> set ws_chars" and "set ws2 \<subseteq> set ws_chars"
    and "ds \<noteq> []" and "set ds \<subseteq> set digit_chars"
    and "post = [] \<or> hd post \<notin> set digit_chars"
  shows "optimizeForPlatform (pre @ ''particleCount'' @ ws1 @ ''='' @ ws2 @ ds @ post) ''mobile''
           = optimizeForPlatform pre ''mobile'' @ ''particleCount = 50''
             @ optimizeForPlatform post ''mobile''
       \<and> optimizeForPlatform (pre @ ''particleCount'' @ ws1 @ ''='' @ ws2 @ ds @ post) ''desktop''
           = optimizeForPlatform pre ''desktop'' @ ''particleCount = 200''
             @ optimizeForPlatform post ''desktop''
       \<and> optimizeForPlatform c ''web'' = c
       \<and> (pf \<noteq> ''mobile'' \<and> pf \<noteq> ''desktop'' \<longrightarrow> optimizeForPlatform c pf = c)"
  using replaceAll_particleCount [OF assms]
  by (simp add: optimizeForPlatform_def optimizeForMobile_def optimizeForDesktop_def)

theorem optimizeForPlatform_particleCount_witness:
  "optimizeForPlatform ''const particleCount = 999;'' ''mobile'' = ''const particleCount = 50;''
   \<and> optimizeForPlatform ''const particleCount = 999;'' ''desktop'' = ''const particleCount = 200;''
   \<and> optimizeForPlatform ''const particleCount = 999;'' ''web'' = ''const particleCount = 999;''
   \<and> optimizeForPlatform ''const particleCount = 999;'' ''tv'' = ''const particleCount = 999;''"
proof -
  have pre: "optimizeForPlatform ''const '' pf = ''const ''" for pf
    by (simp add: optimizeForPlatform_def optimizeForMobile_def optimizeForDesktop_def
        particleCountRx_def)
  have post: "optimizeForPlatform '';'' pf = '';''" for pf
    by (simp add: optimizeForPlatform_def optimizeForMobile_def optimizeForDesktop_def
        particleCountRx_def)
  have h: "set '' '' \<subseteq> set ws_chars" "''999'' \<noteq> []" "set ''999'' \<subseteq> set digit_chars"
    "'';'' = [] \<or> hd '';'' \<notin> set digit_chars"
    by (simp_all add: ws_chars_def digit_chars_def)
  show ?thesis
    using optimizeForPlatform_particleCount [OF h(1) h(1) h(2) h(3) h(4),
        of "''const ''" "''const particleCount = 999;''" "''tv''"]
    by (simp add: pre post)
qed

text \<open>
  The claim as stated fails on numbers that are not a run of digits.  Of \<open>1.5\<close> and \<open>1e3\<close>
  only the leading \<open>1\<close> is replaced, so that the assignment becomes \<open>particleCount = 50.5\<close>
  and \<open>particleCount = 200e3\<close>; the negative number \<open>-4\<close> and the fraction \<open>.5\<close> do not
  start with a digit and their assignments are left as they are.
\<close>

theorem optimizeForPlatform_number_counterexample:
  "optimizeForPlatform ''particleCount = 1.5;'' ''mobile'' = ''particleCount = 50.5;''
   \<and> optimizeForPlatform ''particleCount = 1e3;'' ''desktop'' = ''particleCount = 200e3;''
   \<and> optimizeForPlatform ''particleCount = -4;'' ''mobile'' = ''particleCount = -4;''
   \<and> optimizeForPlatform ''particleCount = .5;'' ''desktop'' = ''particleCount = .5;''"
  by (simp add: optimizeForPlatform_def optimizeForMobile_def optimizeForDesktop_def
      particleCountRx_def ws_chars_def digit_chars_def)

lemma selectBestTemplate_loop_no_score:
  "list_all (\<lambda>t. calculateTemplateScore d t = None) ts
     \<Longrightarrow> selectBestTemplate_loop d best bestScore ts = best"
  by (induction ts) auto

text \<open>
  The selection loop on templates that all have a score: when some score is above the
  starting value, the result is the first template with the highest score; otherwise it
  is the starting template.
\<close>

lemma selectBestTemplate_loop_first_max:
  assumes "\<forall>t\<in>set ts. calculateTemplateScore d t = Some (sc t)"
  shows "if \<exists>t\<in>set ts. sc t > bs
         then \<exists>pre post. ts = pre @ selectBestTemplate_loop d b bs ts # post
                \<and> (\<forall>t\<in>set pre. sc t < sc (selectBestTemplate_loop d b bs ts))
                \<and> (\<forall>t\<in>set post. sc t \<le> sc (selectBestTemplate_loop d b bs ts))
                \<and> bs < sc (selectBestTemplate_loop d b bs ts)
         else selectBestTemplate_loop d b bs ts = b"
  using assms
proof (induction ts arbitrary: b bs)
  case Nil
  then show ?case by simp
next
  case (Cons t ts)
  then have sc: "calculateTemplateScore d t = Some (sc t)"
    and rest: "\<forall>t\<in>set ts. calculateTemplateScore d t = Some (sc t)"
    by simp_all
  show ?case
  proof (cases "sc t > bs")
    case True
    let ?r = "selectBestTemplate_loop d t (sc t) ts"
    have r: "selectBestTemplate_loop d b bs (t # ts) = ?r"
      using sc True by simp
    show ?thesis
    proof (cases "\<exists>t'\<in>set ts. sc t' > sc t")
      case True
      with Cons.IH [OF rest, of "sc t" t]
      obtain pre post where "ts = pre @ ?r # post" "\<forall>t\<in>set pre. sc t < sc ?r"
        "\<forall>t\<in>set post. sc t \<le> sc ?r" "sc t < sc ?r"
        by auto
      then have "t # ts = (t # pre) @ ?r # post \<and> (\<forall>u\<in>set (t # pre). sc u < sc ?r)
          \<and> (\<forall>u\<in>set post. sc u \<le> sc ?r) \<and> bs < sc ?r"
        using \<open>sc t > bs\<close> by auto
      then show ?thesis
        unfolding r using \<open>sc t > bs\<close> by (metis list.set_intros(1))
    next
      case False
      with Cons.IH [OF rest, of "sc t" t] have "?r = t" by auto
      moreover have "\<forall>u\<in>set ts. sc u \<le> sc t"
        using False by auto
      ultimately have "t # ts = [] @ ?r # ts \<and> (\<forall>u\<in>set []. sc u < sc ?r)
          \<and> (\<forall>u\<in>set ts. sc u \<le> sc ?r) \<and> bs < sc ?r"
        using \<open>sc t > bs\<close> by simp
      then show ?thesis
        unfolding r using \<open>sc t > bs\<close> by (metis list.set_intros(1))
    qed
  next
    case False
    let ?r = "selectBestTemplate_loop d b bs ts"
    have r: "selectBestTemplate_loop d b bs (t # ts) = ?r"
      using sc False by simp
    show ?thesis
    proof (cases "\<exists>t'\<in>set ts. sc t' > bs")
      case True
      with Cons.IH [OF rest, of bs b]
      obtain pre post where "ts = pre @ ?r # post" "\<forall>t\<in>set pre. sc t < sc ?r"
        "\<forall>t\<in>set post. sc t \<le> sc ?r" "bs < sc ?r"
        by auto
      then have "t # ts = (t # pre) @ ?r # post \<and> (\<forall>u\<in>set (t # pre). sc u < sc ?r)
          \<and> (\<forall>u\<in>set post. sc u \<le> sc ?r) \<and> bs < sc ?r"
        using False by auto
      then show ?thesis
        unfolding r using True by (metis list.set_intros(2))
    next
      case F2: False
      with Cons.IH [OF rest, of bs b] have "?r = b" by auto
      then show ?thesis
        unfolding r using False F2 by auto
    qed
  qed
qed

text \<open>
  Claim C6, on the code.  No template of the catalogue declares a complexity or an energy,
  so the score of every template is \<open>NaN\<close>, no comparison \<open>score > bestScore\<close> holds, and the
  selection returns the first template of the array for every DNA: for \<open>javascript\<close> (and
  for every type that is neither a key of the catalogue nor an inherited property) the
  template \<open>ParticleSystem\<close> (performance 0.8), although \<open>CSSAnimation\<close> has the higher
  performance 0.9.  For a type that names an inherited property the selection throws.
\<close>

theorem selectBestTemplate_catalogue:
  "map (calculateTemplateScore d) javascriptTemplates = [None, None, None]
   \<and> map (calculateTemplateScore d) cssTemplates = [None]
   \<and> map (calculateTemplateScore d) aftereffectsTemplates = [None]
   \<and> getEffectTemplates ''javascript'' = TemplateArray javascriptTemplates
   \<and> getEffectTemplates ''css'' = TemplateArray cssTemplates
   \<and> getEffectTemplates ''aftereffects'' = TemplateArray aftereffectsTemplates
   \<and> selectBestTemplate d (getEffectTemplates ty) =
       (if ty = ''javascript'' then Inr (Some (hd javascriptTemplates))
        else if ty = ''css'' then Inr (Some (hd cssTemplates))
        else if ty = ''aftereffects'' then Inr (Some (hd aftereffectsTemplates))
        else if ty \<in> set objectPrototypeKeys then Inl (TypeError ''templates is not iterable'')
        else Inr (Some (hd javascriptTemplates)))
   \<and> map_sum id (map_option tpl_name) (selectBestTemplate d (getEffectTemplates ''javascript''))
       = Inr (Some ''ParticleSystem'')
   \<and> map (\<lambda>t. (tpl_name t, tpl_performance t)) javascriptTemplates
       = [(''ParticleSystem'', 0.8), (''CSSAnimation'', 0.9), (''CanvasEffect'', 0.7)]"
proof -
  have none: "list_all (\<lambda>t. calculateTemplateScore d t = None) javascriptTemplates"
    "list_all (\<lambda>t. calculateTemplateScore d t = None) cssTemplates"
    "list_all (\<lambda>t. calculateTemplateScore d t = None) aftereffectsTemplates"
    by (simp_all add: javascriptTemplates_def cssTemplates_def aftereffectsTemplates_def
        calculateTemplateScore_def)
  have first: "selectBestTemplate d (TemplateArray ts) = Inr (Some (hd ts))"
    if "list_all (\<lambda>t. calculateTemplateScore d t = None) ts" and "ts \<noteq> []" for ts
  proof -
    from that(2) obtain t0 ts' where ts: "ts = t0 # ts'"
      by (cases ts) auto
    show ?thesis
      using selectBestTemplate_loop_no_score [OF that(1), of t0 0]
      by (simp add: selectBestTemplate_def ts)
  qed
  have ne: "javascriptTemplates \<noteq> []" "cssTemplates \<noteq> []" "aftereffectsTemplates \<noteq> []"
    by (simp_all add: javascriptTemplates_def cssTemplates_def aftereffectsTemplates_def)
  have sel: "selectBestTemplate d (TemplateArray javascriptTemplates)
        = Inr (Some (hd javascriptTemplates))"
    "selectBestTemplate d (TemplateArray cssTemplates) = Inr (Some (hd cssTemplates))"
    "selectBestTemplate d (TemplateArray aftereffectsTemplates)
        = Inr (Some (hd aftereffectsTemplates))"
    using first none ne by blast+
  have inh: "selectBestTemplate d (InheritedProperty k)
      = Inl (TypeError ''templates is not iterable'')" for k
    by (simp add: selectBestTemplate_def)
  have general: "selectBestTemplate d (getEffectTemplates ty) =
       (if ty = ''javascript'' then Inr (Some (hd javascriptTemplates))
        else if ty = ''css'' then Inr (Some (hd cssTemplates))
        else if ty = ''aftereffects'' then Inr (Some (hd aftereffectsTemplates))
        else if ty \<in> set objectPrototypeKeys then Inl (TypeError ''templates is not iterable'')
        else Inr (Some (hd javascriptTemplates)))"
    unfolding getEffectTemplates_def by (simp only: sel inh if_distrib [of "selectBestTemplate d"])
  have js: "getEffectTemplates ''javascript'' = TemplateArray javascriptTemplates"
    "getEffectTemplates ''css'' = TemplateArray cssTemplates"
    "getEffectTemplates ''aftereffects'' = TemplateArray aftereffectsTemplates"
    by (simp_all add: getEffectTemplates_def)
  have "map (calculateTemplateScore d) javascriptTemplates = [None, None, None]"
    and "map (calculateTemplateScore d) cssTemplates = [None]"
    and "map (calculateTemplateScore d) aftereffectsTemplates = [None]"
    by (simp_all add: javascriptTemplates_def cssTemplates_def aftereffectsTemplates_def
        calculateTemplateScore_def)
  moreover have "map_sum id (map_option tpl_name)
        (selectBestTemplate d (getEffectTemplates ''javascript'')) = Inr (Some ''ParticleSystem'')"
    unfolding js sel by (simp add: javascriptTemplates_def)
  moreover have "map (\<lambda>t. (tpl_name t, tpl_performance t)) javascriptTemplates
       = [(''ParticleSystem'', 0.8), (''CSSAnimation'', 0.9), (''CanvasEffect'', 0.7)]"
    by (simp add: javascriptTemplates_def)
  ultimately show ?thesis
    using general js by blast
qed


section \<open>Properties of the constitution validator\<close>

lemma str_includes_eval [simp]:
  "str_includes s [] = True"
  "str_includes [] (x # xs) = False"
  "str_includes (y # ys) (x # xs) = (prefix (x # xs) (y # ys) \<or> str_includes ys (x # xs))"
  by (simp_all add: str_includes_def sublist_Cons_right)

lemmas validator_defs =
  validatePerformanceAbsolue_def PerformanceAbsolue_score_def
  validateIntelligenceAdaptative_def IntelligenceAdaptative_score_def
  validatePolyvalenceUniverselle_def PolyvalenceUniverselle_score_def platforms_with_code_def
  validateExperienceParfaite_def ExperienceParfaite_score_def
  validateImpactVisuel_def ImpactVisuel_score_def
  validateEcosystemeAddictif_def EcosystemeAddictif_score_def
  validateDominationConcurrentielle_def DominationConcurrentielle_score_def
  otherArticlesAvg_def innovationMarker_def competitiveAdvantage_def
  js_or_def truthy_def Math_round_def

lemma Math_round_mono: "x \<le> y \<Longrightarrow> Math_round x \<le> Math_round y"
  by (simp add: Math_round_def floor_mono)

lemma Math_round_of_int [simp]: "Math_round (of_int n) = n"
  by (simp add: Math_round_def)

lemma weights_sum: "sum_list (map weight articles) = 100"
  by (simp add: articles_def)

lemma weights_list: "map weight articles = [14.3, 14.3, 14.3, 14.3, 14.3, 14.3, 14.2]"
  by (simp add: articles_def)

lemma validateCompliance_details:
  "map snd (details (validateCompliance e)) =
     [validatePerformanceAbsolue e, validateIntelligenceAdaptative e,
      validatePolyvalenceUniverselle e, validateExperienceParfaite e,
      validateImpactVisuel e, validateEcosystemeAddictif e,
      validateDominationConcurrentielle e]"
  by (simp add: validateCompliance_def Let_def)

lemma validateCompliance_flags:
  "cc_performanceCompliant (validateCompliance e) = compliant (validatePerformanceAbsolue e)"
  "cc_intelligenceAdaptive (validateCompliance e) = compliant (validateIntelligenceAdaptative e)"
  "cc_universalCompatible (validateCompliance e) = compliant (validatePolyvalenceUniverselle e)"
  "cc_perfectExperience (validateCompliance e) = compliant (validateExperienceParfaite e)"
  "cc_visualImpact (validateCompliance e) = compliant (validateImpactVisuel e)"
  "cc_addictiveEcosystem (validateCompliance e) = compliant (validateEcosystemeAddictif e)"
  "cc_competitiveDomination (validateCompliance e) = compliant (validateDominationConcurrentielle e)"
  by (simp_all add: validateCompliance_def Let_def)

lemma validateCompliance_totalScore:
  "totalScore (validateCompliance e) =
     Math_round ((14.3 * real_of_int (score (validatePerformanceAbsolue e))
                + 14.3 * real_of_int (score (validateIntelligenceAdaptative e))
                + 14.3 * real_of_int (score (validatePolyvalenceUniverselle e))
                + 14.3 * real_of_int (score (validateExperienceParfaite e))
                + 14.3 * real_of_int (score (validateImpactVisuel e))
                + 14.3 * real_of_int (score (validateEcosystemeAddictif e))
                + 14.2 * real_of_int (score (validateDominationConcurrentielle e))) / 100)"
proof -
  have "totalScore (validateCompliance e) =
     Math_round (0 + real_of_int (score (validatePerformanceAbsolue e)) * (14.3 / 100)
                + real_of_int (score (validateIntelligenceAdaptative e)) * (14.3 / 100)
                + real_of_int (score (validatePolyvalenceUniverselle e)) * (14.3 / 100)
                + real_of_int (score (validateExperienceParfaite e)) * (14.3 / 100)
                + real_of_int (score (validateImpactVisuel e)) * (14.3 / 100)
                + real_of_int (score (validateEcosystemeAddictif e)) * (14.3 / 100)
                + real_of_int (score (validateDominationConcurrentielle e)) * (14.2 / 100))"
    by (simp add: validateCompliance_def Let_def articles_def del: Math_round_of_int)
  also have "\<dots> = Math_round ((14.3 * real_of_int (score (validatePerformanceAbsolue e))
                + 14.3 * real_of_int (score (validateIntelligenceAdaptative e))
                + 14.3 * real_of_int (score (validatePolyvalenceUniverselle e))
                + 14.3 * real_of_int (score (validateExperienceParfaite e))
                + 14.3 * real_of_int (score (validateImpactVisuel e))
                + 14.3 * real_of_int (score (validateEcosystemeAddictif e))
                + 14.2 * real_of_int (score (validateDominationConcurrentielle e))) / 100)"
    by (rule arg_cong [where f = Math_round]) (simp add: field_simps)
  finally show ?thesis .
qed

lemma PerformanceAbsolue_flag:
  "compliant (validatePerformanceAbsolue e) = (PerformanceAbsolue_score e \<ge> 90)"
  "score (validatePerformanceAbsolue e) = Math_round (PerformanceAbsolue_score e)"
  "compliant (validatePerformanceAbsolue e) \<longrightarrow> score (validatePerformanceAbsolue e) \<ge> 90"
proof -
  show "compliant (validatePerformanceAbsolue e) = (PerformanceAbsolue_score e \<ge> 90)"
    and "score (validatePerformanceAbsolue e) = Math_round (PerformanceAbsolue_score e)"
    by (simp_all add: validatePerformanceAbsolue_def)
  show "compliant (validatePerformanceAbsolue e) \<longrightarrow> score (validatePerformanceAbsolue e) \<ge> 90"
    using Math_round_mono [of 90 "PerformanceAbsolue_score e"]
    by (simp add: validatePerformanceAbsolue_def) (simp add: Math_round_def)
qed

lemma IntelligenceAdaptative_flag:
  "compliant (validateIntelligenceAdaptative e) = (score (validateIntelligenceAdaptative e) \<ge> 90)"
  by (simp add: validateIntelligenceAdaptative_def IntelligenceAdaptative_score_def Let_def
      Math_round_def)

lemma PolyvalenceUniverselle_flag:
  "compliant (validatePolyvalenceUniverselle e) = (score (validatePolyvalenceUniverselle e) \<ge> 90)"
  by (simp add: validatePolyvalenceUniverselle_def PolyvalenceUniverselle_score_def Let_def
      platforms_with_code_def Math_round_def)

lemma ExperienceParfaite_flag:
  "compliant (validateExperienceParfaite e) = (score (validateExperienceParfaite e) \<ge> 90)"
  by (simp add: validateExperienceParfaite_def ExperienceParfaite_score_def Let_def Math_round_def)

lemma ImpactVisuel_flag:
  "compliant (validateImpactVisuel e) = (score (validateImpactVisuel e) \<ge> 90)"
  by (simp add: validateImpactVisuel_def ImpactVisuel_score_def Let_def Math_round_def)

lemma EcosystemeAddictif_flag:
  "compliant (validateEcosystemeAddictif e) = (score (validateEcosystemeAddictif e) \<ge> 90)"
  by (simp add: validateEcosystemeAddictif_def EcosystemeAddictif_score_def Let_def Math_round_def)

lemma DominationConcurrentielle_flag:
  "compliant (validateDominationConcurrentielle e) = (score (validateDominationConcurrentielle e) \<ge> 95)"
  by (simp add: validateDominationConcurrentielle_def DominationConcurrentielle_score_def
      otherArticlesAvg_def Math_round_def)

lemma sample_scores:
  "score (validatePerformanceAbsolue (sampleEffect u)) = 100"
  "score (validateIntelligenceAdaptative (sampleEffect u)) = 0"
  "score (validatePolyvalenceUniverselle (sampleEffect u)) = 13"
  "score (validateExperienceParfaite (sampleEffect u)) = 0"
  "score (validateImpactVisuel (sampleEffect u)) = 0"
  "score (validateEcosystemeAddictif (sampleEffect u)) = 0"
  "score (validateDominationConcurrentielle (sampleEffect u)) = 40"
  by (simp_all add: sampleEffect_def validator_defs)

lemma heavy_scores:
  "PerformanceAbsolue_score heavyEffect = 2865 / 32"
  "IntelligenceAdaptative_score heavyEffect = 0"
  "PolyvalenceUniverselle_score heavyEffect = 40 / 3"
  "ExperienceParfaite_score heavyEffect = 0"
  "ImpactVisuel_score heavyEffect = 0"
  "EcosystemeAddictif_score heavyEffect = 0"
  "DominationConcurrentielle_score heavyEffect = 80 / 3"
  by (simp_all add: heavyEffect_def sampleEffect_def validator_defs)

subsection \<open>The report of the constitution engine\<close>

lemmas fl_eval =
  js_add_def js_sub_def js_mul_def js_div_def fl_def binary_exponent_def compute_floorlog
  round_even_def Let_def

lemma totalScore_engine:
  "ce_totalScore (validateCompliance_engine e) =
     Math_round (js_div (foldl js_add 0
       [article_score e 1, article_score e 2, article_score e 3, article_score e 4,
        article_score e 5, article_score e 6, article_score e 7]) 7)"
  by (simp add: validateCompliance_engine_def article_ids_def)

lemma calm_scores:
  "article_score calmEffect 1 = 100" "article_score calmEffect 2 = 0"
  "article_score calmEffect 3 = 0" "article_score calmEffect 4 = 0"
  "article_score calmEffect 5 = 75 / 4" "article_score calmEffect 6 = 0"
  "article_score calmEffect 7 = 88"
  by (simp_all add: calmEffect_def burstEffect_def burstCode_def article_score_def validator_def
      calculatePartialScore_def fl_eval)

lemma calm_total: "ce_totalScore (validateCompliance_engine calmEffect) = 30"
  by (simp only: totalScore_engine calm_scores) (simp add: Math_round_def fl_eval)

lemma calm_weighted:
  "Math_round ((14.3 * article_score calmEffect 1 + 14.3 * article_score calmEffect 2
      + 14.3 * article_score calmEffect 3 + 14.3 * article_score calmEffect 4
      + 14.3 * article_score calmEffect 5 + 14.3 * article_score calmEffect 6
      + 14.2 * article_score calmEffect 7) / 100) = 29"
  by (simp only: calm_scores) (simp add: Math_round_def)

lemma calm_double: "double_numbers calmEffect"
  by (simp add: double_numbers_def is_double_def calmEffect_def burstEffect_def fl_eval)

lemma engine_articles:
  "ce_articles (validateCompliance_engine g) =
     map (\<lambda>(i, name). (name, \<lparr>ac_compliant = validator i g,
            ac_score = (if validator i g then 100 else calculatePartialScore g i)\<rparr>))
       (zip [1, 2, 3, 4, 5, 6, 7] article_names)"
  by (simp add: validateCompliance_engine_def article_score_def article_ids_def)

text \<open>
  Claim C2, as the code has it.  The total score of the validator's report is the rounded
  weighted sum of the seven article scores the report shows (each already rounded to an
  integer), with the weights 14.3 for articles 1 to 6 and 14.2 for article 7, which add up
  to 100.  A compliant flag is set by comparing the article's score before rounding with
  the article's bar (90, and 95 for article 7).  For articles 2 to 7 that is the same as
  comparing the shown score with the bar; for article 1 a set flag implies a shown score
  of at least 90, but a shown score of 90 can come with a flag that is not set.  The
  report of the constitution engine is computed differently: an article is compliant when
  its validator holds, its score is 100 when it is compliant and its partial score
  otherwise, and the total is the sum of the seven scores, added up in doubles in the
  order of the articles, divided by 7 and rounded.
\<close>

theorem validateCompliance_weighted_sum:
  "totalScore (validateCompliance e) =
     Math_round ((14.3 * real_of_int (score (validatePerformanceAbsolue e))
                + 14.3 * real_of_int (score (validateIntelligenceAdaptative e))
                + 14.3 * real_of_int (score (validatePolyvalenceUniverselle e))
                + 14.3 * real_of_int (score (validateExperienceParfaite e))
                + 14.3 * real_of_int (score (validateImpactVisuel e))
                + 14.3 * real_of_int (score (validateEcosystemeAddictif e))
                + 14.2 * real_of_int (score (validateDominationConcurrentielle e))) / 100)
   \<and> map weight articles = [14.3, 14.3, 14.3, 14.3, 14.3, 14.3, 14.2]
   \<and> sum_list (map weight articles) = 100
   \<and> map snd (details (validateCompliance e)) =
       [validatePerformanceAbsolue e, validateIntelligenceAdaptative e,
        validatePolyvalenceUniverselle e, validateExperienceParfaite e,
        validateImpactVisuel e, validateEcosystemeAddictif e,
        validateDominationConcurrentielle e]
   \<and> score (validatePerformanceAbsolue e) = Math_round (PerformanceAbsolue_score e)
   \<and> cc_performanceCompliant (validateCompliance e) = (PerformanceAbsolue_score e \<ge> 90)
   \<and> (cc_performanceCompliant (validateCompliance e)
        \<longrightarrow> score (validatePerformanceAbsolue e) \<ge> 90)
   \<and> cc_intelligenceAdaptive (validateCompliance e)
       = (score (validateIntelligenceAdaptative e) \<ge> 90)
   \<and> cc_universalCompatible (validateCompliance e)
       = (score (validatePolyvalenceUniverselle e) \<ge> 90)
   \<and> cc_perfectExperience (validateCompliance e)
       = (score (validateExperienceParfaite e) \<ge> 90)
   \<and> cc_visualImpact (validateCompliance e) = (score (validateImpactVisuel e) \<ge> 90)
   \<and> cc_addictiveEcosystem (validateCompliance e)
       = (score (validateEcosystemeAddictif e) \<ge> 90)
   \<and> cc_competitiveDomination (validateCompliance e)
       = (score (validateDominationConcurrentielle e) \<ge> 95)
   \<and> (double_numbers g \<longrightarrow>
        ce_totalScore (validateCompliance_engine g) =
          Math_round (js_div (foldl js_add 0
            [article_score g 1, article_score g 2, article_score g 3, article_score g 4,
             article_score g 5, article_score g 6, article_score g 7]) 7)
        \<and> ce_articles (validateCompliance_engine g) =
            map (\<lambda>(i, name). (name, \<lparr>ac_compliant = validator i g,
                   ac_score = (if validator i g then 100 else calculatePartialScore g i)\<rparr>))
              (zip [1, 2, 3, 4, 5, 6, 7] article_names)
        \<and> article_score g i = (if validator i g then 100 else calculatePartialScore g i))"
  using validateCompliance_totalScore [of e] weights_list weights_sum
    totalScore_engine [of g] engine_articles [of g] article_score_def [of g i]
    validateCompliance_details [of e] PerformanceAbsolue_flag [of e]
    IntelligenceAdaptative_flag [of e] PolyvalenceUniverselle_flag [of e]
    ExperienceParfaite_flag [of e] ImpactVisuel_flag [of e] EcosystemeAddictif_flag [of e]
    DominationConcurrentielle_flag [of e]
  by (simp only: validateCompliance_flags simp_thms)

theorem validateCompliance_weighted_sum_witness:
  "totalScore (validateCompliance (sampleEffect ''effect-1'')) = 22
   \<and> cc_performanceCompliant (validateCompliance (sampleEffect ''effect-1''))
   \<and> score (validatePerformanceAbsolue (sampleEffect ''effect-1'')) = 100
   \<and> double_numbers calmEffect
   \<and> ce_totalScore (validateCompliance_engine calmEffect) = 30"
proof -
  note t = validateCompliance_weighted_sum [of "sampleEffect ''effect-1''" calmEffect 1]
  have server: "totalScore (validateCompliance (sampleEffect ''effect-1'')) = 22
     \<and> cc_performanceCompliant (validateCompliance (sampleEffect ''effect-1''))
     \<and> score (validatePerformanceAbsolue (sampleEffect ''effect-1'')) = 100"
    using t
    by (simp add: sample_scores Math_round_def del: Math_round_of_int)
      (simp add: sampleEffect_def validator_defs)
  from t calm_double
  have "ce_totalScore (validateCompliance_engine calmEffect) =
          Math_round (js_div (foldl js_add 0
            [article_score calmEffect 1, article_score calmEffect 2, article_score calmEffect 3,
             article_score calmEffect 4, article_score calmEffect 5, article_score calmEffect 6,
             article_score calmEffect 7]) 7)"
    by blast
  then have "ce_totalScore (validateCompliance_engine calmEffect) = 30"
    by (simp only: calm_scores) (simp add: Math_round_def fl_eval)
  with server calm_double show ?thesis
    by blast
qed


text \<open>
  The claim as stated fails on \<open>heavyEffect\<close>.  Article 1 is shown with the score 90 and is
  not compliant, so the flag is not "shown score at least the bar".  With the scores before
  rounding, for which the flags are right, the weighted sum rounds to 18 and not to the
  total 19 of the report.  On \<open>calmEffect\<close> the total of the constitution engine is 30 and
  the weighted sum of its article scores, 29.477, rounds to 29.
\<close>

theorem validateCompliance_rounding_counterexample:
  "score (validatePerformanceAbsolue heavyEffect) = 90
   \<and> compliant (validatePerformanceAbsolue heavyEffect) = False
   \<and> cc_performanceCompliant (validateCompliance heavyEffect) = False
   \<and> totalScore (validateCompliance heavyEffect) = 19
   \<and> Math_round ((14.3 * PerformanceAbsolue_score heavyEffect
                 + 14.3 * IntelligenceAdaptative_score heavyEffect
                 + 14.3 * PolyvalenceUniverselle_score heavyEffect
                 + 14.3 * ExperienceParfaite_score heavyEffect
                 + 14.3 * ImpactVisuel_score heavyEffect
                 + 14.3 * EcosystemeAddictif_score heavyEffect
                 + 14.2 * DominationConcurrentielle_score heavyEffect) / 100) = 18
   \<and> ce_totalScore (validateCompliance_engine calmEffect) = 30
   \<and> Math_round ((14.3 * article_score calmEffect 1 + 14.3 * article_score calmEffect 2
      + 14.3 * article_score calmEffect 3 + 14.3 * article_score calmEffect 4
      + 14.3 * article_score calmEffect 5 + 14.3 * article_score calmEffect 6
      + 14.2 * article_score calmEffect 7) / 100) = 29"
proof -
  have "totalScore (validateCompliance heavyEffect) = 19"
    by (simp add: validateCompliance_totalScore validatePerformanceAbsolue_def
        validateIntelligenceAdaptative_def validatePolyvalenceUniverselle_def
        validateExperienceParfaite_def validateImpactVisuel_def validateEcosystemeAddictif_def
        validateDominationConcurrentielle_def Let_def heavy_scores)
      (simp add: Math_round_def)
  moreover have "score (validatePerformanceAbsolue heavyEffect) = 90"
    by (simp add: validatePerformanceAbsolue_def heavy_scores) (simp add: Math_round_def)
  moreover have "compliant (validatePerformanceAbsolue heavyEffect) = False"
    by (simp add: validatePerformanceAbsolue_def heavy_scores)
  moreover have "Math_round ((14.3 * PerformanceAbsolue_score heavyEffect
                 + 14.3 * IntelligenceAdaptative_score heavyEffect
                 + 14.3 * PolyvalenceUniverselle_score heavyEffect
                 + 14.3 * ExperienceParfaite_score heavyEffect
                 + 14.3 * ImpactVisuel_score heavyEffect
                 + 14.3 * EcosystemeAddictif_score heavyEffect
                 + 14.2 * DominationConcurrentielle_score heavyEffect) / 100) = 18"
    by (simp add: heavy_scores) (simp add: Math_round_def)
  ultimately show ?thesis
    using calm_total calm_weighted by (simp add: validateCompliance_flags)
qed

text \<open>
  Article 7 reads the six flag columns of the effect it is given.  They are the flags that
  were stored when the effect was last scored, not the compliance of articles 1 to 6 in
  the report that is being computed.
\<close>

lemma DominationConcurrentielle_stored_flags:
  "score (validateDominationConcurrentielle e) =
     Math_round (40 / 100 * (((if performanceCompliant e then 100 else 0)
                            + (if intelligenceAdaptive e then 100 else 0)
                            + (if universalCompatible e then 100 else 0)
                            + (if perfectExperience e then 100 else 0)
                            + (if visualImpact e then 100 else 0)
                            + (if addictiveEcosystem e then 100 else 0)) / 6)
                 + (if str_includes (js_or (javascriptCode e) (js_or (cssCode e) [])) ''innovative''
                       \<or> str_includes (js_or (javascriptCode e) (js_or (cssCode e) [])) ''revolutionary''
                       \<or> str_includes (js_or (javascriptCode e) (js_or (cssCode e) [])) ''advanced''
                    then 30 else 0)
                 + (if renderTime e < 10 \<and> targetFps e \<ge> 60 \<and> memoryUsage e < 200
                    then 30 else 0))
   \<and> compliant (validateDominationConcurrentielle e) = (DominationConcurrentielle_score e \<ge> 95)
   \<and> score (validateDominationConcurrentielle e) = Math_round (DominationConcurrentielle_score e)
   \<and> compliant (validateDominationConcurrentielle e)
       = (score (validateDominationConcurrentielle e) \<ge> 95)
   \<and> cc_competitiveDomination (validateCompliance e)
       = compliant (validateDominationConcurrentielle e)
   \<and> compliant (validatePerformanceAbsolue e) = (PerformanceAbsolue_score e \<ge> 90)
   \<and> compliant (validateIntelligenceAdaptative e) = (IntelligenceAdaptative_score e \<ge> 90)
   \<and> compliant (validatePolyvalenceUniverselle e) = (PolyvalenceUniverselle_score e \<ge> 90)
   \<and> compliant (validateExperienceParfaite e) = (ExperienceParfaite_score e \<ge> 90)
   \<and> compliant (validateImpactVisuel e) = (ImpactVisuel_score e \<ge> 90)
   \<and> compliant (validateEcosystemeAddictif e) = (EcosystemeAddictif_score e \<ge> 90)"
proof -
  have "DominationConcurrentielle_score e =
     40 / 100 * (((if performanceCompliant e then 100 else 0)
                            + (if intelligenceAdaptive e then 100 else 0)
                            + (if universalCompatible e then 100 else 0)
                            + (if perfectExperience e then 100 else 0)
                            + (if visualImpact e then 100 else 0)
                            + (if addictiveEcosystem e then 100 else 0)) / 6)
                 + (if str_includes (js_or (javascriptCode e) (js_or (cssCode e) [])) ''innovative''
                       \<or> str_includes (js_or (javascriptCode e) (js_or (cssCode e) [])) ''revolutionary''
                       \<or> str_includes (js_or (javascriptCode e) (js_or (cssCode e) [])) ''advanced''
                    then 30 else 0)
                 + (if renderTime e < 10 \<and> targetFps e \<ge> 60 \<and> memoryUsage e < 200
                    then 30 else 0)"
    by (simp add: DominationConcurrentielle_score_def otherArticlesAvg_def innovationMarker_def
        competitiveAdvantage_def Let_def)
  then have "score (validateDominationConcurrentielle e) =
     Math_round (40 / 100 * (((if performanceCompliant e then 100 else 0)
                            + (if intelligenceAdaptive e then 100 else 0)
                            + (if universalCompatible e then 100 else 0)
                            + (if perfectExperience e then 100 else 0)
                            + (if visualImpact e then 100 else 0)
                            + (if addictiveEcosystem e then 100 else 0)) / 6)
                 + (if str_includes (js_or (javascriptCode e) (js_or (cssCode e) [])) ''innovative''
                       \<or> str_includes (js_or (javascriptCode e) (js_or (cssCode e) [])) ''revolutionary''
                       \<or> str_includes (js_or (javascriptCode e) (js_or (cssCode e) [])) ''advanced''
                    then 30 else 0)
                 + (if renderTime e < 10 \<and> targetFps e \<ge> 60 \<and> memoryUsage e < 200
                    then 30 else 0))"
    by (simp only: validateDominationConcurrentielle_def ArticleResult.simps)
  moreover have "compliant (validateDominationConcurrentielle e)
      = (DominationConcurrentielle_score e \<ge> 95)"
    and "score (validateDominationConcurrentielle e) = Math_round (DominationConcurrentielle_score e)"
    by (simp_all add: validateDominationConcurrentielle_def)
  moreover have "compliant (validatePerformanceAbsolue e) = (PerformanceAbsolue_score e \<ge> 90)"
    and "compliant (validateIntelligenceAdaptative e) = (IntelligenceAdaptative_score e \<ge> 90)"
    and "compliant (validatePolyvalenceUniverselle e) = (PolyvalenceUniverselle_score e \<ge> 90)"
    and "compliant (validateExperienceParfaite e) = (ExperienceParfaite_score e \<ge> 90)"
    and "compliant (validateImpactVisuel e) = (ImpactVisuel_score e \<ge> 90)"
    and "compliant (validateEcosystemeAddictif e) = (EcosystemeAddictif_score e \<ge> 90)"
    by (simp_all add: validatePerformanceAbsolue_def validateIntelligenceAdaptative_def
        validatePolyvalenceUniverselle_def validateExperienceParfaite_def
        validateImpactVisuel_def validateEcosystemeAddictif_def Let_def)
  ultimately show ?thesis
    using DominationConcurrentielle_flag [of e] validateCompliance_flags(7) [of e]
    by blast
qed

lemma sample_flags:
  "cc_performanceCompliant (validateCompliance (sampleEffect u)) = True"
  "cc_intelligenceAdaptive (validateCompliance (sampleEffect u)) = False"
  "cc_universalCompatible (validateCompliance (sampleEffect u)) = False"
  "cc_perfectExperience (validateCompliance (sampleEffect u)) = False"
  "cc_visualImpact (validateCompliance (sampleEffect u)) = False"
  "cc_addictiveEcosystem (validateCompliance (sampleEffect u)) = False"
  by (simp_all add: validateCompliance_flags sampleEffect_def validator_defs)

lemma scoredSample_flags:
  "cc_performanceCompliant (validateCompliance scoredSample) = True"
  "cc_intelligenceAdaptive (validateCompliance scoredSample) = False"
  "cc_universalCompatible (validateCompliance scoredSample) = False"
  "cc_perfectExperience (validateCompliance scoredSample) = False"
  "cc_visualImpact (validateCompliance scoredSample) = False"
  "cc_addictiveEcosystem (validateCompliance scoredSample) = False"
  by (simp_all add: validateCompliance_flags scoredSample_def sampleEffect_def validator_defs)

lemma scoredSample_stored:
  "performanceCompliant scoredSample = True" "intelligenceAdaptive scoredSample = False"
  "universalCompatible scoredSample = False" "perfectExperience scoredSample = False"
  "visualImpact scoredSample = False" "addictiveEcosystem scoredSample = False"
  by (simp_all add: scoredSample_def sampleEffect_def)

text \<open>
  Claim C5, as the code has it.  Article 7 scores 40% of the average of the six flags
  stored on the effect (each 0 or 100), plus 30 when the code mentions \<open>innovative\<close>,
  \<open>revolutionary\<close> or \<open>advanced\<close>, plus 30 when the render time is below 10, the target
  rate at least 60 and the memory use below 200; the report shows that sum rounded.  The
  article is compliant from 95 on, the other six from 90 on.  When the six stored flags
  are those of the report itself, the 40% are those of the average compliance of
  articles 1 to 6 in that report.
\<close>

theorem validateDominationConcurrentielle_composition:
  "score (validateDominationConcurrentielle e) =
     Math_round (40 / 100 * (((if performanceCompliant e then 100 else 0)
                            + (if intelligenceAdaptive e then 100 else 0)
                            + (if universalCompatible e then 100 else 0)
                            + (if perfectExperience e then 100 else 0)
                            + (if visualImpact e then 100 else 0)
                            + (if addictiveEcosystem e then 100 else 0)) / 6)
                 + (if str_includes (js_or (javascriptCode e) (js_or (cssCode e) [])) ''innovative''
                       \<or> str_includes (js_or (javascriptCode e) (js_or (cssCode e) [])) ''revolutionary''
                       \<or> str_includes (js_or (javascriptCode e) (js_or (cssCode e) [])) ''advanced''
                    then 30 else 0)
                 + (if renderTime e < 10 \<and> targetFps e \<ge> 60 \<and> memoryUsage e < 200
                    then 30 else 0))
   \<and> compliant (validateDominationConcurrentielle e) = (DominationConcurrentielle_score e \<ge> 95)
   \<and> score (validateDominationConcurrentielle e) = Math_round (DominationConcurrentielle_score e)
   \<and> compliant (validateDominationConcurrentielle e)
       = (score (validateDominationConcurrentielle e) \<ge> 95)
   \<and> cc_competitiveDomination (validateCompliance e)
       = compliant (validateDominationConcurrentielle e)
   \<and> compliant (validatePerformanceAbsolue e) = (PerformanceAbsolue_score e \<ge> 90)
   \<and> compliant (validateIntelligenceAdaptative e) = (IntelligenceAdaptative_score e \<ge> 90)
   \<and> compliant (validatePolyvalenceUniverselle e) = (PolyvalenceUniverselle_score e \<ge> 90)
   \<and> compliant (validateExperienceParfaite e) = (ExperienceParfaite_score e \<ge> 90)
   \<and> compliant (validateImpactVisuel e) = (ImpactVisuel_score e \<ge> 90)
   \<and> compliant (validateEcosystemeAddictif e) = (EcosystemeAddictif_score e \<ge> 90)
   \<and> (performanceCompliant e = cc_performanceCompliant (validateCompliance e)
        \<and> intelligenceAdaptive e = cc_intelligenceAdaptive (validateCompliance e)
        \<and> universalCompatible e = cc_universalCompatible (validateCompliance e)
        \<and> perfectExperience e = cc_perfectExperience (validateCompliance e)
        \<and> visualImpact e = cc_visualImpact (validateCompliance e)
        \<and> addictiveEcosystem e = cc_addictiveEcosystem (validateCompliance e)
      \<longrightarrow> score (snd (details (validateCompliance e) ! 6)) =
     Math_round (40 / 100 * (((if cc_performanceCompliant (validateCompliance e) then 100 else 0)
                            + (if cc_intelligenceAdaptive (validateCompliance e) then 100 else 0)
                            + (if cc_universalCompatible (validateCompliance e) then 100 else 0)
                            + (if cc_perfectExperience (validateCompliance e) then 100 else 0)
                            + (if cc_visualImpact (validateCompliance e) then 100 else 0)
                            + (if cc_addictiveEcosystem (validateCompliance e) then 100 else 0)) / 6)
                 + (if str_includes (js_or (javascriptCode e) (js_or (cssCode e) [])) ''innovative''
                       \<or> str_includes (js_or (javascriptCode e) (js_or (cssCode e) [])) ''revolutionary''
                       \<or> str_includes (js_or (javascriptCode e) (js_or (cssCode e) [])) ''advanced''
                    then 30 else 0)
                 + (if renderTime e < 10 \<and> targetFps e \<ge> 60 \<and> memoryUsage e < 200
                    then 30 else 0)))"
proof -
  have d: "snd (details (validateCompliance e) ! 6) = validateDominationConcurrentielle e"
    by (simp add: validateCompliance_def Let_def)
  note stored = DominationConcurrentielle_stored_flags [of e]
  have "score (snd (details (validateCompliance e) ! 6)) =
     Math_round (40 / 100 * (((if cc_performanceCompliant (validateCompliance e) then 100 else 0)
                            + (if cc_intelligenceAdaptive (validateCompliance e) then 100 else 0)
                            + (if cc_universalCompatible (validateCompliance e) then 100 else 0)
                            + (if cc_perfectExperience (validateCompliance e) then 100 else 0)
                            + (if cc_visualImpact (validateCompliance e) then 100 else 0)
                            + (if cc_addictiveEcosystem (validateCompliance e) then 100 else 0)) / 6)
                 + (if str_includes (js_or (javascriptCode e) (js_or (cssCode e) [])) ''innovative''
                       \<or> str_includes (js_or (javascriptCode e) (js_or (cssCode e) [])) ''revolutionary''
                       \<or> str_includes (js_or (javascriptCode e) (js_or (cssCode e) [])) ''advanced''
                    then 30 else 0)
                 + (if renderTime e < 10 \<and> targetFps e \<ge> 60 \<and> memoryUsage e < 200
                    then 30 else 0))"
    if h: "performanceCompliant e = cc_performanceCompliant (validateCompliance e)
         \<and> intelligenceAdaptive e = cc_intelligenceAdaptive (validateCompliance e)
         \<and> universalCompatible e = cc_universalCompatible (validateCompliance e)
         \<and> perfectExperience e = cc_perfectExperience (validateCompliance e)
         \<and> visualImpact e = cc_visualImpact (validateCompliance e)
         \<and> addictiveEcosystem e = cc_addictiveEcosystem (validateCompliance e)"
  proof -
    from h have h1: "cc_performanceCompliant (validateCompliance e) = performanceCompliant e"
      "cc_intelligenceAdaptive (validateCompliance e) = intelligenceAdaptive e"
      "cc_universalCompatible (validateCompliance e) = universalCompatible e"
      "cc_perfectExperience (validateCompliance e) = perfectExperience e"
      "cc_visualImpact (validateCompliance e) = visualImpact e"
      "cc_addictiveEcosystem (validateCompliance e) = addictiveEcosystem e"
      by simp_all
    from stored show ?thesis
      unfolding d h1 by (rule conjunct1)
  qed
  with stored show ?thesis
    by blast
qed

theorem validateDominationConcurrentielle_composition_witness:
  "performanceCompliant scoredSample = cc_performanceCompliant (validateCompliance scoredSample)
   \<and> intelligenceAdaptive scoredSample = cc_intelligenceAdaptive (validateCompliance scoredSample)
   \<and> universalCompatible scoredSample = cc_universalCompatible (validateCompliance scoredSample)
   \<and> perfectExperience scoredSample = cc_perfectExperience (validateCompliance scoredSample)
   \<and> visualImpact scoredSample = cc_visualImpact (validateCompliance scoredSample)
   \<and> addictiveEcosystem scoredSample = cc_addictiveEcosystem (validateCompliance scoredSample)
   \<and> score (snd (details (validateCompliance scoredSample) ! 6)) = 7
   \<and> compliant (validateDominationConcurrentielle scoredSample) = False"
proof -
  have eq: "performanceCompliant scoredSample = cc_performanceCompliant (validateCompliance scoredSample)
     \<and> intelligenceAdaptive scoredSample = cc_intelligenceAdaptive (validateCompliance scoredSample)
     \<and> universalCompatible scoredSample = cc_universalCompatible (validateCompliance scoredSample)
     \<and> perfectExperience scoredSample = cc_perfectExperience (validateCompliance scoredSample)
     \<and> visualImpact scoredSample = cc_visualImpact (validateCompliance scoredSample)
     \<and> addictiveEcosystem scoredSample = cc_addictiveEcosystem (validateCompliance scoredSample)"
    by (simp only: scoredSample_flags scoredSample_stored simp_thms)
  have code: "javascriptCode scoredSample = Some ''class PlasmaExplosion { /* constitutional code */ }''"
    "renderTime scoredSample = 12"
    by (simp_all add: scoredSample_def sampleEffect_def)
  from validateDominationConcurrentielle_composition [of scoredSample] eq
  have "score (snd (details (validateCompliance scoredSample) ! 6)) = 7"
    by (simp only: scoredSample_flags simp_thms) (simp add: code js_or_def truthy_def Math_round_def)
  moreover have "compliant (validateDominationConcurrentielle scoredSample) = False"
    by (simp add: scoredSample_def sampleEffect_def validator_defs)
  ultimately show ?thesis
    using eq by blast
qed

text \<open>
  The claim as stated fails on the sample effect of the storage, which is stored with all
  flags set.  Its report finds article 1 compliant and articles 2 to 6 not, so 40% of the
  average compliance of articles 1 to 6, with nothing added for the other two parts, is
  6.67 and rounds to 7.  The report shows 40 for article 7: 40% of the six stored flags.
\<close>

theorem validateDominationConcurrentielle_stored_counterexample:
  "score (snd (details (validateCompliance (sampleEffect ''effect-1'')) ! 6)) = 40
   \<and> score (validateDominationConcurrentielle (sampleEffect ''effect-1'')) = 40
   \<and> cc_performanceCompliant (validateCompliance (sampleEffect ''effect-1'')) = True
   \<and> cc_intelligenceAdaptive (validateCompliance (sampleEffect ''effect-1'')) = False
   \<and> cc_universalCompatible (validateCompliance (sampleEffect ''effect-1'')) = False
   \<and> cc_perfectExperience (validateCompliance (sampleEffect ''effect-1'')) = False
   \<and> cc_visualImpact (validateCompliance (sampleEffect ''effect-1'')) = False
   \<and> cc_addictiveEcosystem (validateCompliance (sampleEffect ''effect-1'')) = False
   \<and> innovationMarker (sampleEffect ''effect-1'') = False
   \<and> competitiveAdvantage (sampleEffect ''effect-1'') = False
   \<and> Math_round (40 / 100 *
         (((if cc_performanceCompliant (validateCompliance (sampleEffect ''effect-1''))
            then 100 else 0)
           + (if cc_intelligenceAdaptive (validateCompliance (sampleEffect ''effect-1''))
              then 100 else 0)
           + (if cc_universalCompatible (validateCompliance (sampleEffect ''effect-1''))
              then 100 else 0)
           + (if cc_perfectExperience (validateCompliance (sampleEffect ''effect-1''))
              then 100 else 0)
           + (if cc_visualImpact (validateCompliance (sampleEffect ''effect-1''))
              then 100 else 0)
           + (if cc_addictiveEcosystem (validateCompliance (sampleEffect ''effect-1''))
              then 100 else 0)) / 6)
         + (if innovationMarker (sampleEffect ''effect-1'') then 30 else 0)
         + (if competitiveAdvantage (sampleEffect ''effect-1'') then 30 else 0)) = 7"
proof -
  have d: "snd (details (validateCompliance (sampleEffect ''effect-1'')) ! 6)
      = validateDominationConcurrentielle (sampleEffect ''effect-1'')"
    by (simp add: validateCompliance_def Let_def)
  have m: "innovationMarker (sampleEffect ''effect-1'') = False"
    "competitiveAdvantage (sampleEffect ''effect-1'') = False"
    by (simp_all add: sampleEffect_def validator_defs)
  have r: "Math_round (40 / 100 * ((100 + 0 + 0 + 0 + 0 + 0) / 6) + 0 + 0) = 7"
    by (simp add: Math_round_def)
  show ?thesis
    using r by (simp only: d sample_scores sample_flags m if_True if_False simp_thms)
qed

section \<open>Properties of the constitution engine\<close>

lemma str_includes_append_block:
  assumes "b \<noteq> []" and "hd b \<notin> set m" and "m \<noteq> []"
  shows "str_includes (a @ b) m = (str_includes a m \<or> str_includes b m)"
proof -
  from assms(1) obtain z b' where b: "b = z # b'" by (cases b) auto
  with assms(2) have z: "z \<notin> set m" by simp
  have no_pre: "\<not> prefix m (z # b')"
    using z assms(3) by (cases m) auto
  have "sublist m (a @ z # b') \<longleftrightarrow> sublist m a \<or> sublist m b'"
  proof
    assume "sublist m (a @ z # b')"
    then consider "sublist m a" | "sublist m (z # b')"
      | xs1 xs2 where "m = xs1 @ xs2" "suffix xs1 a" "prefix xs2 (z # b')"
      unfolding sublist_append by blast
    then show "sublist m a \<or> sublist m b'"
    proof cases
      case 1
      then show ?thesis by simp
    next
      case 2
      then show ?thesis using no_pre by (simp add: sublist_Cons_right)
    next
      case 3
      have "xs2 = []"
      proof (cases xs2)
        case Nil
        then show ?thesis .
      next
        case (Cons y ys)
        with 3(3) have "y = z" by simp
        with Cons 3(1) z show ?thesis by simp
      qed
      with 3 show ?thesis by (auto simp: suffix_imp_sublist)
    qed
  next
    assume "sublist m a \<or> sublist m b'"
    then show "sublist m (a @ z # b')"
      by (auto simp: sublist_append sublist_Cons_right)
  qed
  moreover have "sublist m (z # b') \<longleftrightarrow> sublist m b'"
    using no_pre by (simp add: sublist_Cons_right)
  ultimately show ?thesis
    by (simp add: str_includes_def b)
qed

lemma block_heads [simp]:
  "autoCalibrateBlock \<noteq> []" "hd autoCalibrateBlock = CHR ''\<newline>''"
  "detectPlatformBlock \<noteq> []" "hd detectPlatformBlock = CHR ''\<newline>''"
  "oneClickBlock \<noteq> []" "hd oneClickBlock = CHR ''\<newline>''"
  "wowFactorBlock \<noteq> []" "hd wowFactorBlock = CHR ''\<newline>''"
  "immersiveBlock \<noteq> []" "hd immersiveBlock = CHR ''\<newline>''"
  "competitiveAdvantageBlock \<noteq> []" "hd competitiveAdvantageBlock = CHR ''\<newline>''"
  by (simp_all add: autoCalibrateBlock_def detectPlatformBlock_def oneClickBlock_def
      wowFactorBlock_def immersiveBlock_def competitiveAdvantageBlock_def)

lemma markers_burstCode [simp]:
  "\<not> str_includes burstCode ''autoCalibrate''"
  "\<not> str_includes burstCode ''adaptiveParameters''"
  "\<not> str_includes burstCode ''detectPlatform''"
  "\<not> str_includes burstCode ''crossBrowser''"
  "\<not> str_includes burstCode ''oneClick''"
  "\<not> str_includes burstCode ''livePreview''"
  "\<not> str_includes burstCode ''wowFactor''"
  "\<not> str_includes burstCode ''advancedPhysics''"
  "\<not> str_includes burstCode ''immersive''"
  by (simp_all add: burstCode_def)

lemma markers_autoCalibrateBlock [simp]:
  "str_includes autoCalibrateBlock ''autoCalibrate''"
  "\<not> str_includes autoCalibrateBlock ''adaptiveParameters''"
  "\<not> str_includes autoCalibrateBlock ''detectPlatform''"
  "\<not> str_includes autoCalibrateBlock ''crossBrowser''"
  "\<not> str_includes autoCalibrateBlock ''oneClick''"
  "\<not> str_includes autoCalibrateBlock ''livePreview''"
  "\<not> str_includes autoCalibrateBlock ''wowFactor''"
  "\<not> str_includes autoCalibrateBlock ''advancedPhysics''"
  "\<not> str_includes autoCalibrateBlock ''immersive''"
  by (simp_all add: autoCalibrateBlock_def)

lemma markers_detectPlatformBlock [simp]:
  "\<not> str_includes detectPlatformBlock ''autoCalibrate''"
  "\<not> str_includes detectPlatformBlock ''adaptiveParameters''"
  "str_includes detectPlatformBlock ''detectPlatform''"
  "\<not> str_includes detectPlatformBlock ''crossBrowser''"
  "\<not> str_includes detectPlatformBlock ''oneClick''"
  "\<not> str_includes detectPlatformBlock ''livePreview''"
  "\<not> str_includes detectPlatformBlock ''wowFactor''"
  "\<not> str_includes detectPlatformBlock ''advancedPhysics''"
  "\<not> str_includes detectPlatformBlock ''immersive''"
  by (simp_all add: detectPlatformBlock_def)

lemma markers_oneClickBlock [simp]:
  "\<not> str_includes oneClickBlock ''autoCalibrate''"
  "\<not> str_includes oneClickBlock ''adaptiveParameters''"
  "\<not> str_includes oneClickBlock ''detectPlatform''"
  "\<not> str_includes oneClickBlock ''crossBrowser''"
  "str_includes oneClickBlock ''oneClick''"
  "str_includes oneClickBlock ''livePreview''"
  "\<not> str_includes oneClickBlock ''wowFactor''"
  "\<not> str_includes oneClickBlock ''advancedPhysics''"
  "\<not> str_includes oneClickBlock ''immersive''"
  by (simp_all add: oneClickBlock_def)

lemma markers_wowFactorBlock [simp]:
  "\<not> str_includes wowFactorBlock ''autoCalibrate''"
  "\<not> str_includes wowFactorBlock ''adaptiveParameters''"
  "\<not> str_includes wowFactorBlock ''detectPlatform''"
  "\<not> str_includes wowFactorBlock ''crossBrowser''"
  "\<not> str_includes wowFactorBlock ''oneClick''"
  "\<not> str_includes wowFactorBlock ''livePreview''"
  "str_includes wowFactorBlock ''wowFactor''"
  "\<not> str_includes wowFactorBlock ''advancedPhysics''"
  "\<not> str_includes wowFactorBlock ''immersive''"
  by (simp_all add: wowFactorBlock_def)

lemma markers_immersiveBlock [simp]:
  "\<not> str_includes immersiveBlock ''autoCalibrate''"
  "\<not> str_includes immersiveBlock ''adaptiveParameters''"
  "\<not> str_includes immersiveBlock ''detectPlatform''"
  "\<not> str_includes immersiveBlock ''crossBrowser''"
  "\<not> str_includes immersiveBlock ''oneClick''"
  "\<not> str_includes immersiveBlock ''livePreview''"
  "\<not> str_includes immersiveBlock ''wowFactor''"
  "\<not> str_includes immersiveBlock ''advancedPhysics''"
  "str_includes immersiveBlock ''immersive''"
  by (simp_all add: immersiveBlock_def)

lemma markers_competitiveAdvantageBlock [simp]:
  "\<not> str_includes competitiveAdvantageBlock ''autoCalibrate''"
  "\<not> str_includes competitiveAdvantageBlock ''adaptiveParameters''"
  "\<not> str_includes competitiveAdvantageBlock ''detectPlatform''"
  "\<not> str_includes competitiveAdvantageBlock ''crossBrowser''"
  "\<not> str_includes competitiveAdvantageBlock ''oneClick''"
  "\<not> str_includes competitiveAdvantageBlock ''livePreview''"
  "\<not> str_includes competitiveAdvantageBlock ''wowFactor''"
  "\<not> str_includes competitiveAdvantageBlock ''advancedPhysics''"
  "\<not> str_includes competitiveAdvantageBlock ''immersive''"
  by (simp_all add: competitiveAdvantageBlock_def)


lemma burst_fields [simp]:
  "code burstEffect = burstCode"
  "fps (metadata burstEffect) = 60"
  "md_renderTime (metadata burstEffect) = 5"
  "md_constitutionScore (metadata burstEffect) = 0"
  "energy (emotionalProfile (dna burstEffect)) = 1 / 2"
  "elegance (emotionalProfile (dna burstEffect)) = 1 / 2"
  by (simp_all add: burstEffect_def)

lemmas engine_eval =
  applyArticles_def article_ids_def validator_def enforcer_def
  enforceIntelligenceAdaptative_def enforcePolyvalenceUniverselle_def
  enforceExperienceParfaite_def enforceImpactVisuel_def enforceEcosystemeAddictif_def
  enforceDominationConcurrentielle_def str_includes_append_block

lemma applyArticles_burst:
  "applyArticles burstEffect = burstEffect
     \<lparr>code := burstCode1, metadata := (metadata burstEffect)\<lparr>md_constitutionScore := 95\<rparr>\<rparr>"
  by (simp add: engine_eval burstCode1_def)

lemma burst_scores:
  assumes "code e = burstCode1 @ rest" and "rest = [] \<or> rest = competitiveAdvantageBlock"
    and "dna e = dna burstEffect" and "fps (metadata e) = 60" and "md_renderTime (metadata e) = 5"
  shows "article_score e 1 = 100" "article_score e 2 = 50" "article_score e 3 = 50"
    "article_score e 4 = 100" "article_score e 5 = 50" "article_score e 6 = 50"
  using assms
  by (auto simp: article_score_def validator_def calculatePartialScore_def burstCode1_def
      str_includes_append_block fl_eval)

lemma burst_total:
  assumes "code e = burstCode1 @ rest" and "rest = [] \<or> rest = competitiveAdvantageBlock"
    and "dna e = dna burstEffect" and "fps (metadata e) = 60" and "md_renderTime (metadata e) = 5"
  shows "ce_totalScore (validateCompliance_engine e)
       = Math_round (js_div (foldl js_add 0 [100, 50, 50, 100, 50, 50, article_score e 7]) 7)"
  using burst_scores [OF assms] by (simp only: totalScore_engine)

lemma burst_means:
  "Math_round (js_div (foldl js_add 0 [100, 50, 50, 100, 50, 50, 100]) 7) = 71"
  "Math_round (js_div (foldl js_add 0 [100, 50, 50, 100, 50, 50, 71]) 7) = 67"
  by (simp_all add: Math_round_def fl_eval)

lemma enforceCompliance_burst:
  "enforceCompliance burstEffect = burstEffect
     \<lparr>code := burstCode1, metadata := (metadata burstEffect)\<lparr>md_constitutionScore := 71\<rparr>\<rparr>"
proof -
  let ?e1 = "burstEffect\<lparr>code := burstCode1,
      metadata := (metadata burstEffect)\<lparr>md_constitutionScore := 95\<rparr>\<rparr>"
  have s7: "article_score ?e1 7 = 100"
    by (simp add: article_score_def validator_def)
  have "ce_totalScore (validateCompliance_engine ?e1)
      = Math_round (js_div (foldl js_add 0 [100, 50, 50, 100, 50, 50, article_score ?e1 7]) 7)"
    by (rule burst_total [of ?e1 "[]"]) simp_all
  then have "ce_totalScore (validateCompliance_engine ?e1) = 71"
    by (simp only: s7 burst_means)
  then show ?thesis
    unfolding enforceCompliance_def Let_def applyArticles_burst by simp
qed


lemma applyArticles_burst2:
  "applyArticles (enforceCompliance burstEffect) = burstEffect
     \<lparr>code := burstCode1 @ competitiveAdvantageBlock,
      metadata := (metadata burstEffect)\<lparr>md_constitutionScore := 95\<rparr>\<rparr>"
  by (simp add: enforceCompliance_burst engine_eval burstCode1_def)

lemma enforceCompliance_burst2:
  "enforceCompliance (enforceCompliance burstEffect) = burstEffect
     \<lparr>code := burstCode1 @ competitiveAdvantageBlock,
      metadata := (metadata burstEffect)\<lparr>md_constitutionScore := 71\<rparr>\<rparr>"
proof -
  let ?e2 = "burstEffect\<lparr>code := burstCode1 @ competitiveAdvantageBlock,
      metadata := (metadata burstEffect)\<lparr>md_constitutionScore := 95\<rparr>\<rparr>"
  have s7: "article_score ?e2 7 = 100"
    by (simp add: article_score_def validator_def)
  have "ce_totalScore (validateCompliance_engine ?e2)
      = Math_round (js_div (foldl js_add 0 [100, 50, 50, 100, 50, 50, article_score ?e2 7]) 7)"
    by (rule burst_total [of ?e2 competitiveAdvantageBlock]) simp_all
  then have "ce_totalScore (validateCompliance_engine ?e2) = 71"
    by (simp only: s7 burst_means)
  then show ?thesis
    unfolding enforceCompliance_def [of "enforceCompliance burstEffect"] Let_def
      applyArticles_burst2 by simp
qed

subsection \<open>An effect whose scores are not exact in doubles\<close>

lemma thirds_fields [simp]:
  "code thirdsEffect = burstCode"
  "fps (metadata thirdsEffect) = 60"
  "md_renderTime (metadata thirdsEffect) = 5"
  "md_constitutionScore (metadata thirdsEffect) = 0"
  "energy (emotionalProfile (dna thirdsEffect)) = js_div 7 120"
  "elegance (emotionalProfile (dna thirdsEffect)) = js_div 80 120"
  by (simp_all add: thirdsEffect_def)



text \<open>With the arithmetic of the reals the first of these means would round to 68.\<close>

lemma thirds_exact_mean:
  "Math_round ((100 + 50 + 50 + 100 + 80 / 120 * 100 + 7 / 120 * 100 + 100) / 7) = 68"
  by (simp add: Math_round_def)



subsection \<open>Enforcement in general\<close>

lemma enforcers_check_marker:
  "str_includes (code e) ''autoCalibrate'' \<Longrightarrow> enforceIntelligenceAdaptative e = e"
  "str_includes (code e) ''detectPlatform'' \<Longrightarrow> enforcePolyvalenceUniverselle e = e"
  "str_includes (code e) ''oneClick'' \<Longrightarrow> enforceExperienceParfaite e = e"
  "str_includes (code e) ''wowFactor'' \<Longrightarrow> enforceImpactVisuel e = e"
  "str_includes (code e) ''immersive'' \<Longrightarrow> enforceEcosystemeAddictif e = e"
  by (simp_all add: enforceIntelligenceAdaptative_def enforcePolyvalenceUniverselle_def
      enforceExperienceParfaite_def enforceImpactVisuel_def enforceEcosystemeAddictif_def)

lemma enforceDominationConcurrentielle_appends:
  "code (enforceDominationConcurrentielle e) = code e @ competitiveAdvantageBlock"
  by (simp add: enforceDominationConcurrentielle_def)





text \<open>
  The validator of the server does not score the effect it returns.  Score and flags of
  the returned effect are those of the report on the effect it was given, computed before
  the enforcement rewrites the code columns and, when article 1 fails, the render time,
  the frame rate and the memory use.  The engine of the client has its step
  \<open>Recalculate compliance score\<close> at this place; \<open>validateAndEnforce\<close> has none.
\<close>

lemma validateAndEnforce_first_report:
  "constitutionScore (validateAndEnforce e) = totalScore (validateCompliance e)
   \<and> performanceCompliant (validateAndEnforce e) = cc_performanceCompliant (validateCompliance e)
   \<and> intelligenceAdaptive (validateAndEnforce e) = cc_intelligenceAdaptive (validateCompliance e)
   \<and> universalCompatible (validateAndEnforce e) = cc_universalCompatible (validateCompliance e)
   \<and> perfectExperience (validateAndEnforce e) = cc_perfectExperience (validateCompliance e)
   \<and> visualImpact (validateAndEnforce e) = cc_visualImpact (validateCompliance e)
   \<and> addictiveEcosystem (validateAndEnforce e) = cc_addictiveEcosystem (validateCompliance e)
   \<and> competitiveDomination (validateAndEnforce e)
       = cc_competitiveDomination (validateCompliance e)"
  by (simp add: validateAndEnforce_def Let_def enforceConstitutionalCompliance_def)




text \<open>
  Claim C3, on the code.  The enforcers of articles 2 to 6 leave a code that already has
  their marker as it is, but the enforcer of article 7 appends its block whenever the
  stored score is below 95.  Two runs of \<open>enforceCompliance\<close> on \<open>burstEffect\<close> leave the
  block of article 7 twice at the end of the code; the score is 71 after both runs.
\<close>

theorem enforceCompliance_twice_duplicates:
  "code (enforceCompliance burstEffect)
     = burstCode @ autoCalibrateBlock @ detectPlatformBlock @ oneClickBlock
       @ wowFactorBlock @ immersiveBlock @ competitiveAdvantageBlock
   \<and> code (enforceCompliance (enforceCompliance burstEffect))
     = burstCode @ autoCalibrateBlock @ detectPlatformBlock @ oneClickBlock
       @ wowFactorBlock @ immersiveBlock @ competitiveAdvantageBlock
       @ competitiveAdvantageBlock
   \<and> md_constitutionScore (metadata (enforceCompliance burstEffect)) = 71
   \<and> md_constitutionScore (metadata (enforceCompliance (enforceCompliance burstEffect))) = 71"
proof -
  have first: "code (enforceCompliance burstEffect)
     = burstCode @ autoCalibrateBlock @ detectPlatformBlock @ oneClickBlock
       @ wowFactorBlock @ immersiveBlock @ competitiveAdvantageBlock"
    "md_constitutionScore (metadata (enforceCompliance burstEffect)) = 71"
    by (simp_all add: enforceCompliance_burst burstCode1_def)
  have second: "code (enforceCompliance (enforceCompliance burstEffect))
     = burstCode @ autoCalibrateBlock @ detectPlatformBlock @ oneClickBlock
       @ wowFactorBlock @ immersiveBlock @ competitiveAdvantageBlock
       @ competitiveAdvantageBlock"
    "md_constitutionScore (metadata (enforceCompliance (enforceCompliance burstEffect))) = 71"
    by (simp_all add: enforceCompliance_burst2 burstCode1_def)
  from first second show ?thesis by blast
qed


section \<open>Properties of the generation route\<close>

lemma generateEffectAsync_catch_found:
  assumes "aiSessions (storage srv) sid = Some s"
  shows "generateEffectAsync_catch startTime now srv sid err =
           (None, srv\<lparr>storage := (storage srv)\<lparr>aiSessions := (aiSessions (storage srv))
              (sid \<mapsto> s\<lparr>response := Some (message err), status := ''error'',
                          processingTime := Some (now - startTime)\<rparr>)\<rparr>\<rparr>)"
  using assms
  by (simp add: generateEffectAsync_catch_def updateAiSession_def applyUpdate_def noUpdate_def
      Let_def)

lemma generateEffectAsync_catch_missing:
  assumes "aiSessions (storage srv) sid = None"
  shows "generateEffectAsync_catch startTime now srv sid err
           = (Some (Error ''AI Session not found''), srv)"
  using assms by (simp add: generateEffectAsync_catch_def updateAiSession_def)

text \<open>
  What the \<open>catch\<close> block does when it is given the identifier of a stored session: a
  generator that throws leaves that session with the status \<open>error\<close>, the message of the
  exception and the elapsed time, and stores no effect.
\<close>

lemma generateEffectAsync_marks_error:
  assumes "aiSessions (storage srv) sid = Some s" and "generateEffect request = Inl err"
  shows "generateEffectAsync uuids generateEffect stringify startTime now srv sid request =
           (None, srv\<lparr>storage := (storage srv)\<lparr>aiSessions := (aiSessions (storage srv))
              (sid \<mapsto> s\<lparr>response := Some (message err), status := ''error'',
                          processingTime := Some (now - startTime)\<rparr>)\<rparr>\<rparr>)"
  using assms by (simp add: generateEffectAsync_def generateEffectAsync_catch_found)

lemma uuid_fresh:
  assumes "ids_drawn uuids srv" and "uuidCount srv \<le> n"
  shows "aiSessions (storage srv) (uuids n) = None"
proof (rule ccontr)
  assume "aiSessions (storage srv) (uuids n) \<noteq> None"
  then have "uuids n \<in> dom (aiSessions (storage srv))" by auto
  with assms(1) obtain k where "k < uuidCount srv" "uuids n = uuids k"
    unfolding ids_drawn_def by auto
  with assms show False
    unfolding ids_drawn_def by (auto dest: injD)
qed

lemma inj_uuid_supply: "inj uuid_supply"
proof (rule injI)
  fix m n
  assume "uuid_supply m = uuid_supply n"
  then have "length (replicate m (CHR ''x'')) = length (replicate n (CHR ''x''))"
    unfolding uuid_supply_def by (metis same_append_eq)
  then show "m = n" by simp
qed

text \<open>
  Claim C4, on the code.  The handler starts the background work with an identifier of its
  own and not with the identifier of the session record it created.  Every update of the
  session in \<open>generateEffectAsync\<close> therefore finds no session and throws.  When the
  generator throws, the update of the \<open>catch\<close> block throws in turn: the background work is
  rejected with \<open>AI Session not found\<close>, the session record keeps the status \<open>processing\<close>
  with no message and no processing time, and no effect is stored.  When the generator
  returns, the effect is stored first, the completing update throws, and the \<open>catch\<close> block
  ends in the same way.
\<close>

theorem postGenerate_failure_not_recorded:
  assumes "ids_drawn uuids srv"
  shows "\<exists>sessionId session srv'.
           postGenerate uuids generateEffect stringify startTime now srv request
             = (sessionId, session, Some (Error ''AI Session not found''), srv')
           \<and> sessionId \<noteq> session_id session
           \<and> aiSessions (storage srv') sessionId = None
           \<and> aiSessions (storage srv') (session_id session) = Some session
           \<and> status session = ''processing''
           \<and> response session = None
           \<and> processingTime session = None
           \<and> (case generateEffect request of
                 Inl err \<Rightarrow> effects (storage srv') = effects (storage srv)
               | Inr generated \<Rightarrow>
                   effects (storage srv') (uuids (Suc (Suc (uuidCount srv)))) \<noteq> None)"
proof -
  let ?n = "uuidCount srv"
  from assms have inj: "inj uuids"
    by (simp add: ids_drawn_def)
  then have ne: "uuids ?n \<noteq> uuids (Suc ?n)"
    by (auto dest: injD)
  have fresh: "aiSessions (storage srv) (uuids ?n) = None"
    using uuid_fresh [OF assms, of ?n] by simp
  show ?thesis
  proof (cases "generateEffect request")
    case (Inl err)
    then show ?thesis
      using fresh ne
      by (simp add: postGenerate_def createAiSession_def generateEffectAsync_def
          generateEffectAsync_catch_def updateAiSession_def js_or_def Let_def)
  next
    case (Inr generated)
    then show ?thesis
      using fresh ne
      by (simp add: postGenerate_def createAiSession_def generateEffectAsync_def createEffect_def
          generateEffectAsync_catch_def updateAiSession_def js_or_def Let_def)
  qed
qed

theorem postGenerate_failure_not_recorded_witness:
  "ids_drawn uuid_supply (newServer uuid_supply)
   \<and> (\<exists>sessionId session srv'.
           postGenerate uuid_supply (\<lambda>r. Inl (Error ''AI Engine not initialized'')) (\<lambda>e. [])
               1000 1250 (newServer uuid_supply) burstRequest
             = (sessionId, session, Some (Error ''AI Session not found''), srv')
           \<and> sessionId \<noteq> session_id session
           \<and> aiSessions (storage srv') sessionId = None
           \<and> aiSessions (storage srv') (session_id session) = Some session
           \<and> status session = ''processing''
           \<and> response session = None
           \<and> processingTime session = None
           \<and> effects (storage srv') = effects (storage (newServer uuid_supply)))
   \<and> (\<exists>sessionId session srv'.
           postGenerate uuid_supply (\<lambda>r. Inr (sampleEffect [])) (\<lambda>e. [])
               1000 1250 (newServer uuid_supply) burstRequest
             = (sessionId, session, Some (Error ''AI Session not found''), srv')
           \<and> sessionId \<noteq> session_id session
           \<and> aiSessions (storage srv') sessionId = None
           \<and> aiSessions (storage srv') (session_id session) = Some session
           \<and> status session = ''processing''
           \<and> response session = None
           \<and> processingTime session = None
           \<and> effects (storage srv') (uuid_supply 3) \<noteq> None)"
proof -
  have ok: "ids_drawn uuid_supply (newServer uuid_supply)"
    using inj_uuid_supply by (simp add: ids_drawn_def newServer_def)
  have n: "uuidCount (newServer uuid_supply) = 1"
    by (simp add: newServer_def)
  show ?thesis
    using ok
      postGenerate_failure_not_recorded [OF ok, of "\<lambda>r. Inl (Error ''AI Engine not initialized'')"
        "\<lambda>e. []" 1000 1250 burstRequest]
      postGenerate_failure_not_recorded [OF ok, of "\<lambda>r. Inr (sampleEffect [])"
        "\<lambda>e. []" 1000 1250 burstRequest]
    by (simp add: n numeral_3_eq_3)
qed

end
